theory Spec2Isabelle
  imports Main
begin

section \<open>Text and the platform's string operations\<close>

text \<open>
  A JavaScript string is modelled by the bytes of its UTF-8 encoding, so every ASCII
  character is one \<^typ>\<open>char\<close>. The operations below are the ones the pipeline calls:
  \<^verbatim>\<open>String.prototype.includes\<close>, \<^verbatim>\<open>trim\<close> and the global replacement of the
  code-fence pattern.
\<close>

definition startsWith :: "string \<Rightarrow> string \<Rightarrow> bool" where
  "startsWith s t = (take (length t) s = t)"

fun str_includes :: "string \<Rightarrow> string \<Rightarrow> bool" where
  "str_includes [] t = (t = [])"
| "str_includes (c # s) t = (startsWith (c # s) t \<or> str_includes s t)"

text \<open>
  The white space of ECMAScript (WhiteSpace and LineTerminator), which \<^verbatim>\<open>trim\<close> strips
  and the class \<^verbatim>\<open>\s\<close> matches, each code point in its UTF-8 encoding: TAB, LF, VT, FF,
  CR, SP, U+00A0, U+1680, U+2000 to U+200A, U+2028, U+2029, U+202F, U+205F, U+3000 and
  U+FEFF.
\<close>

definition whiteSpaces :: "string list" where
  "whiteSpaces =
     [[CHR 0x09], [CHR 0x0A], [CHR 0x0B], [CHR 0x0C], [CHR 0x0D], [CHR 0x20],
      [CHR 0xC2, CHR 0xA0],
      [CHR 0xE1, CHR 0x9A, CHR 0x80],
      [CHR 0xE2, CHR 0x80, CHR 0x80], [CHR 0xE2, CHR 0x80, CHR 0x81],
      [CHR 0xE2, CHR 0x80, CHR 0x82], [CHR 0xE2, CHR 0x80, CHR 0x83],
      [CHR 0xE2, CHR 0x80, CHR 0x84], [CHR 0xE2, CHR 0x80, CHR 0x85],
      [CHR 0xE2, CHR 0x80, CHR 0x86], [CHR 0xE2, CHR 0x80, CHR 0x87],
      [CHR 0xE2, CHR 0x80, CHR 0x88], [CHR 0xE2, CHR 0x80, CHR 0x89],
      [CHR 0xE2, CHR 0x80, CHR 0x8A],
      [CHR 0xE2, CHR 0x80, CHR 0xA8], [CHR 0xE2, CHR 0x80, CHR 0xA9],
      [CHR 0xE2, CHR 0x80, CHR 0xAF],
      [CHR 0xE2, CHR 0x81, CHR 0x9F],
      [CHR 0xE3, CHR 0x80, CHR 0x80],
      [CHR 0xEF, CHR 0xBB, CHR 0xBF]]"

text \<open>
  The text without its leading occurrences of the given byte sequences (an empty sequence
  removes nothing).
\<close>

function dropLeading :: "string list \<Rightarrow> string \<Rightarrow> string" where
  "dropLeading ts [] = []"
| "dropLeading ts (c # s) =
     (case find (startsWith (c # s)) ts of
        None \<Rightarrow> c # s
      | Some t \<Rightarrow> if t = [] then c # s else dropLeading ts (drop (length t) (c # s)))"
  by pat_completeness auto
termination
  by (relation "measure (\<lambda>(ts, s). length s)") auto

text \<open>
  \<^verbatim>\<open>trimStart\<close>, \<^verbatim>\<open>trimEnd\<close> and \<^verbatim>\<open>trim\<close>. The last bytes of a UTF-8 text are a
  white-space code point exactly when they are the bytes of one, so the end is trimmed on
  the reversed text.
\<close>

definition trimStart :: "string \<Rightarrow> string" where
  "trimStart s = dropLeading whiteSpaces s"

definition trimEnd :: "string \<Rightarrow> string" where
  "trimEnd s = rev (dropLeading (map rev whiteSpaces) (rev s))"

definition trim :: "string \<Rightarrow> string" where
  "trim s = trimEnd (trimStart s)"

text \<open>Whether a text begins, or ends, with a white-space code point.\<close>

definition startsWhite :: "string \<Rightarrow> bool" where
  "startsWhite s = (find (startsWith s) whiteSpaces \<noteq> None)"

definition endsWhite :: "string \<Rightarrow> bool" where
  "endsWhite s = (find (startsWith (rev s)) (map rev whiteSpaces) \<noteq> None)"

definition fence :: string where
  "fence = [CHR 0x60, CHR 0x60, CHR 0x60]"

text \<open>
  \<^verbatim>\<open>text.replace(/```(?:json)?\n?/g, "")\<close>: scanning from the left, every occurrence of
  three backquotes, with the word json after it when present and one line feed after that
  when present, is deleted; every other character is kept.
\<close>

definition afterFence :: "string \<Rightarrow> string" where
  "afterFence s =
     (let r1 = drop 3 s;
          r2 = (if startsWith r1 ''json'' then drop 4 r1 else r1)
      in if startsWith r2 [CHR 0x0A] then drop 1 r2 else r2)"

function stripFences :: "string \<Rightarrow> string" where
  "stripFences [] = []"
| "stripFences (c # s) =
     (if startsWith (c # s) fence then stripFences (afterFence (c # s))
      else c # stripFences s)"
  by pat_completeness auto
termination
  by (relation "measure length") (auto simp: afterFence_def Let_def)

definition cleanResponse :: "string \<Rightarrow> string" where
  "cleanResponse text = trim (stripFences text)"

section \<open>JavaScript values and \<^verbatim>\<open>JSON.parse\<close>\<close>

text \<open>
  The values the pipeline handles are the results of \<^verbatim>\<open>JSON.parse\<close> and the object
  literals of the fallback tables. A number is kept as its lexeme (the pipeline passes
  numbers on and compares none, so two lexemes of one double are two values here). An
  object is the list of its own properties in source order; a later duplicate key
  overrides an earlier one.
  \<open>JOpaque\<close> stands for a value that is neither JSON nor an array: a function or
  \<^verbatim>\<open>Object.prototype\<close>, which a property lookup by an inherited name yields.
\<close>

datatype js_value =
    JNull
  | JBool bool
  | JNumber string
  | JString string
  | JArray "js_value list"
  | JObject "(string \<times> js_value) list"
  | JOpaque

datatype token =
    TLBrace | TRBrace | TLBracket | TRBracket | TColon | TComma
  | TStr string | TNum string | TLit js_value

datatype lex_mode =
    Normal
  | InStr string
  | InEsc string
  | InUni string string
  | InNum string
  | InWord string

definition code :: "char \<Rightarrow> nat" where
  "code c = of_char c"

definition isDigit :: "char \<Rightarrow> bool" where
  "isDigit c = (48 \<le> code c \<and> code c \<le> 57)"

definition isLower :: "char \<Rightarrow> bool" where
  "isLower c = (97 \<le> code c \<and> code c \<le> 122)"

definition isNumChar :: "char \<Rightarrow> bool" where
  "isNumChar c =
     (isDigit c \<or> c = CHR ''-'' \<or> c = CHR ''+'' \<or> c = CHR ''.'' \<or> c = CHR ''e'' \<or> c = CHR ''E'')"

text \<open>The JSON number grammar: \<^verbatim>\<open>-?(0|[1-9][0-9]*)(\.[0-9]+)?([eE][+-]?[0-9]+)?\<close>.\<close>

definition validExponent :: "string \<Rightarrow> bool" where
  "validExponent s =
     (case s of
        [] \<Rightarrow> True
      | e # r \<Rightarrow>
          (e = CHR ''e'' \<or> e = CHR ''E'') \<and>
          (let ds = (case r of
                       [] \<Rightarrow> []
                     | g # r' \<Rightarrow> if g = CHR ''+'' \<or> g = CHR ''-'' then r' else r)
           in ds \<noteq> [] \<and> list_all isDigit ds))"

definition validFraction :: "string \<Rightarrow> bool" where
  "validFraction s =
     (case s of
        [] \<Rightarrow> True
      | d # r \<Rightarrow>
          if d = CHR ''.'' then takeWhile isDigit r \<noteq> [] \<and> validExponent (dropWhile isDigit r)
          else validExponent s)"

definition validNumber :: "string \<Rightarrow> bool" where
  "validNumber s =
     (let s1 = (if startsWith s ''-'' then drop 1 s else s);
          ip = takeWhile isDigit s1
      in ip \<noteq> [] \<and> (hd ip \<noteq> CHR ''0'' \<or> length ip = 1) \<and>
         validFraction (dropWhile isDigit s1))"

definition hexDigit :: "char \<Rightarrow> nat option" where
  "hexDigit c =
     (if isDigit c then Some (code c - 48)
      else if 97 \<le> code c \<and> code c \<le> 102 then Some (code c - 87)
      else if 65 \<le> code c \<and> code c \<le> 70 then Some (code c - 55)
      else None)"

definition hexValue :: "string \<Rightarrow> nat" where
  "hexValue s = foldl (\<lambda>n c. 16 * n + (case hexDigit c of Some d \<Rightarrow> d | None \<Rightarrow> 0)) 0 s"

text \<open>The UTF-8 bytes of a code point, and of a lone surrogate code unit.\<close>

definition utf8 :: "nat \<Rightarrow> string" where
  "utf8 n =
     (if n < 128 then [char_of n]
      else if n < 2048 then [char_of (192 + n div 64), char_of (128 + n mod 64)]
      else if n < 65536 then
        [char_of (224 + n div 4096), char_of (128 + (n div 64) mod 64), char_of (128 + n mod 64)]
      else
        [char_of (240 + n div 262144), char_of (128 + (n div 4096) mod 64),
         char_of (128 + (n div 64) mod 64), char_of (128 + n mod 64)])"

text \<open>
  The code unit of a \<^verbatim>\<open>\uXXXX\<close> escape appended to the text read so far. A low
  surrogate that follows a high surrogate forms one code point with it, which has four
  bytes; any other code unit is encoded by itself. (The text that is parsed is taken to
  be well-formed: a surrogate can only come from an escape.)
\<close>

definition highSurrogate :: "string \<Rightarrow> nat option" where
  "highSurrogate acc =
     (case rev acc of
        b3 # b2 # b1 # _ \<Rightarrow>
          if code b1 = 237 \<and> 160 \<le> code b2 \<and> code b2 \<le> 175 \<and> 128 \<le> code b3 \<and> code b3 \<le> 191
          then Some (53248 + (code b2 - 128) * 64 + (code b3 - 128))
          else None
      | _ \<Rightarrow> None)"

definition appendUnit :: "string \<Rightarrow> nat \<Rightarrow> string" where
  "appendUnit acc n =
     (case highSurrogate acc of
        Some hi \<Rightarrow>
          if 56320 \<le> n \<and> n \<le> 57343
          then take (length acc - 3) acc @ utf8 (65536 + (hi - 55296) * 1024 + (n - 56320))
          else acc @ utf8 n
      | None \<Rightarrow> acc @ utf8 n)"

definition wordToken :: "string \<Rightarrow> token option" where
  "wordToken s =
     (if s = ''true'' then Some (TLit (JBool True))
      else if s = ''false'' then Some (TLit (JBool False))
      else if s = ''null'' then Some (TLit JNull)
      else None)"

definition numToken :: "string \<Rightarrow> token option" where
  "numToken s = (if validNumber s then Some (TNum s) else None)"

text \<open>The first character of a token. JSON white space is SP, TAB, LF and CR.\<close>

definition startTok :: "char \<Rightarrow> (token list \<times> lex_mode) option" where
  "startTok c =
     (if c = CHR 0x20 \<or> c = CHR 0x09 \<or> c = CHR 0x0A \<or> c = CHR 0x0D then Some ([], Normal)
      else if c = CHR ''{'' then Some ([TLBrace], Normal)
      else if c = CHR ''}'' then Some ([TRBrace], Normal)
      else if c = CHR ''['' then Some ([TLBracket], Normal)
      else if c = CHR '']'' then Some ([TRBracket], Normal)
      else if c = CHR '':'' then Some ([TColon], Normal)
      else if c = CHR '','' then Some ([TComma], Normal)
      else if c = CHR 0x22 then Some ([], InStr [])
      else if c = CHR ''-'' \<or> isDigit c then Some ([], InNum [c])
      else if isLower c then Some ([], InWord [c])
      else None)"

definition unescape :: "char \<Rightarrow> string option" where
  "unescape c =
     (if c = CHR 0x22 \<or> c = CHR 0x5C \<or> c = CHR ''/'' then Some [c]
      else if c = CHR ''b'' then Some [CHR 0x08]
      else if c = CHR ''f'' then Some [CHR 0x0C]
      else if c = CHR ''n'' then Some [CHR 0x0A]
      else if c = CHR ''r'' then Some [CHR 0x0D]
      else if c = CHR ''t'' then Some [CHR 0x09]
      else None)"

text \<open>
  The lexer reads one character per step. A number and a literal name are read as the
  longest run of their characters and checked when the run ends; no JSON text has a
  number or a name followed at once by another such character, so this accepts the same
  texts as the grammar.
\<close>

fun lex :: "lex_mode \<Rightarrow> string \<Rightarrow> token list option" where
  "lex Normal [] = Some []"
| "lex Normal (c # cs) =
     (case startTok c of
        None \<Rightarrow> None
      | Some (ts, m) \<Rightarrow> map_option ((@) ts) (lex m cs))"
| "lex (InStr acc) [] = None"
| "lex (InStr acc) (c # cs) =
     (if c = CHR 0x22 then map_option ((#) (TStr acc)) (lex Normal cs)
      else if c = CHR 0x5C then lex (InEsc acc) cs
      else if code c < 32 then None
      else lex (InStr (acc @ [c])) cs)"
| "lex (InEsc acc) [] = None"
| "lex (InEsc acc) (c # cs) =
     (if c = CHR ''u'' then lex (InUni acc []) cs
      else case unescape c of
             None \<Rightarrow> None
           | Some s \<Rightarrow> lex (InStr (acc @ s)) cs)"
| "lex (InUni acc h) [] = None"
| "lex (InUni acc h) (c # cs) =
     (if hexDigit c = None then None
      else if length h = 3 then lex (InStr (appendUnit acc (hexValue (h @ [c])))) cs
      else lex (InUni acc (h @ [c])) cs)"
| "lex (InNum acc) [] = map_option (\<lambda>t. [t]) (numToken acc)"
| "lex (InNum acc) (c # cs) =
     (if isNumChar c then lex (InNum (acc @ [c])) cs
      else case (numToken acc, startTok c) of
             (Some t, Some (ts, m)) \<Rightarrow> map_option (\<lambda>r. t # ts @ r) (lex m cs)
           | _ \<Rightarrow> None)"
| "lex (InWord acc) [] = map_option (\<lambda>t. [t]) (wordToken acc)"
| "lex (InWord acc) (c # cs) =
     (if isLower c then lex (InWord (acc @ [c])) cs
      else case (wordToken acc, startTok c) of
             (Some t, Some (ts, m)) \<Rightarrow> map_option (\<lambda>r. t # ts @ r) (lex m cs)
           | _ \<Rightarrow> None)"

text \<open>
  The parser keeps the enclosing arrays and objects on a stack: \<open>FArr\<close> holds the
  elements read so far, \<open>FObj\<close> the members read so far and the key whose value is
  being read.
\<close>

datatype frame =
    FArr "js_value list"
  | FObj "(string \<times> js_value) list" string

fun pValue :: "frame list \<Rightarrow> token list \<Rightarrow> js_value option"
  and pAfter :: "js_value \<Rightarrow> frame list \<Rightarrow> token list \<Rightarrow> js_value option" where
  "pValue st [] = None"
| "pValue st (t # ts) =
     (case t of
        TStr s \<Rightarrow> pAfter (JString s) st ts
      | TNum n \<Rightarrow> pAfter (JNumber n) st ts
      | TLit v \<Rightarrow> pAfter v st ts
      | TLBracket \<Rightarrow>
          (case ts of
             TRBracket # ts' \<Rightarrow> pAfter (JArray []) st ts'
           | _ \<Rightarrow> pValue (FArr [] # st) ts)
      | TLBrace \<Rightarrow>
          (case ts of
             TRBrace # ts' \<Rightarrow> pAfter (JObject []) st ts'
           | TStr k # TColon # ts' \<Rightarrow> pValue (FObj [] k # st) ts'
           | _ \<Rightarrow> None)
      | _ \<Rightarrow> None)"
| "pAfter v [] ts = (if ts = [] then Some v else None)"
| "pAfter v (FArr acc # st) ts =
     (case ts of
        TComma # ts' \<Rightarrow> pValue (FArr (acc @ [v]) # st) ts'
      | TRBracket # ts' \<Rightarrow> pAfter (JArray (acc @ [v])) st ts'
      | _ \<Rightarrow> None)"
| "pAfter v (FObj acc k # st) ts =
     (case ts of
        TComma # TStr k' # TColon # ts' \<Rightarrow> pValue (FObj (acc @ [(k, v)]) k' # st) ts'
      | TRBrace # ts' \<Rightarrow> pAfter (JObject (acc @ [(k, v)])) st ts'
      | _ \<Rightarrow> None)"

definition JSON_parse :: "string \<Rightarrow> js_value option" where
  "JSON_parse text = (case lex Normal text of None \<Rightarrow> None | Some ts \<Rightarrow> pValue [] ts)"

text \<open>
  Property access \<^verbatim>\<open>v.k\<close> for the names the pipeline reads (none of them is inherited
  from a prototype): \<open>None\<close> is \<^verbatim>\<open>undefined\<close>. Reading a property of \<^verbatim>\<open>null\<close>
  throws a TypeError, which the callers test for before they call \<open>getProp\<close>.
\<close>

fun getProp :: "js_value \<Rightarrow> string \<Rightarrow> js_value option" where
  "getProp (JObject kvs) k = map_of (rev kvs) k"
| "getProp _ k = None"

text \<open>
  Whether the double that a JSON number lexeme denotes is zero. The lexeme has the value
  \<open>m * 10 ^ x\<close> for the integer \<open>m\<close> of its digits and \<open>x\<close> its exponent less the
  number of its fraction digits; it is read as the nearest double, which is zero exactly
  when the value is at most 2 to the power -1075, half of the least positive double.
\<close>

definition digitsValue :: "string \<Rightarrow> int" where
  "digitsValue s = foldl (\<lambda>n c. 10 * n + int (code c - 48)) 0 s"

definition exponentValue :: "string \<Rightarrow> int" where
  "exponentValue e =
     (case e of
        [] \<Rightarrow> 0
      | _ # r \<Rightarrow>
          (case r of
             [] \<Rightarrow> 0
           | g # ds \<Rightarrow>
               if g = CHR ''-'' then - digitsValue ds
               else if g = CHR ''+'' then digitsValue ds
               else digitsValue r))"

definition roundsToZero :: "string \<Rightarrow> bool" where
  "roundsToZero n =
     (let s = (if startsWith n ''-'' then drop 1 n else n);
          ip = takeWhile isDigit s;
          r = dropWhile isDigit s;
          fp = (if startsWith r ''.'' then takeWhile isDigit (drop 1 r) else []);
          e = (if startsWith r ''.'' then dropWhile isDigit (drop 1 r) else r);
          m = digitsValue (ip @ fp);
          x = exponentValue e - int (length fp)
      in m = 0 \<or> (x < 0 \<and> m * 2 ^ 1075 \<le> 10 ^ nat (- x)))"

text \<open>Truthiness. A number is falsy when it is zero (a parsed number is never NaN).\<close>

fun truthy :: "js_value \<Rightarrow> bool" where
  "truthy JNull = False"
| "truthy (JBool b) = b"
| "truthy (JNumber n) = (\<not> roundsToZero n)"
| "truthy (JString s) = (s \<noteq> [])"
| "truthy (JArray xs) = True"
| "truthy (JObject kvs) = True"
| "truthy JOpaque = True"

definition truthyOpt :: "js_value option \<Rightarrow> bool" where
  "truthyOpt v = (case v of None \<Rightarrow> False | Some x \<Rightarrow> truthy x)"

text \<open>\<^verbatim>\<open>a || b\<close>\<close>

definition orElse :: "js_value option \<Rightarrow> js_value \<Rightarrow> js_value" where
  "orElse a b = (case a of None \<Rightarrow> b | Some x \<Rightarrow> if truthy x then x else b)"

section \<open>The world: external services, the clock and the store\<close>

text \<open>
  A thrown JavaScript error: its message (\<^verbatim>\<open>error.message\<close>, or \<^verbatim>\<open>String(error)\<close> for
  a value that is no Error) and its \<^verbatim>\<open>status\<close> property when it has one.
\<close>

datatype js_error = JsError (message: string) (status: "nat option")

text \<open>
  What an execution does to the outside, in order: a call of the text-completion
  capability (model, prompt), a timer wait in milliseconds, an HTTP fetch (URL).
\<close>

datatype event =
    Invoked string string
  | Waited nat
  | Fetched string

text \<open>
  The fields a \<^verbatim>\<open>db.jobOpportunity.create\<close> call passes (\<open>None\<close> is \<^verbatim>\<open>undefined\<close>;
  \<open>deadline = None\<close> is \<^verbatim>\<open>null\<close>), and a row of the JobOpportunity table. Dates are
  milliseconds since the epoch.
\<close>

record job_data =
  title :: "js_value option"
  company :: "js_value option"
  location :: "js_value option"
  type :: "js_value option"
  industry :: string
  description :: "js_value option"
  requirements :: js_value
  skills :: js_value
  salary :: "js_value option"
  experience :: "js_value option"
  platform :: "js_value option"
  url :: "js_value option"
  postedDate :: int
  deadline :: "int option"

record job_row = job_data +
  rid :: nat
  isActive :: bool
  createdAt :: int
  updatedAt :: int

text \<open>
  The collaborators the code calls and does not define. Each is a parameter of the model,
  so every theorem holds for every behaviour of them:
  \<^item> \<open>generateContent\<close>: the text-completion capability
    (\<^verbatim>\<open>model.generateContent(prompt)\<close> and \<^verbatim>\<open>result.response.text()\<close>), given what
    has happened so far, the model name and the prompt; it returns the text or throws;
  \<^item> \<open>syntaxErrorMessage\<close>: the message of the SyntaxError that \<^verbatim>\<open>JSON.parse\<close> throws
    on a text (the wording is the engine's);
  \<^item> \<open>authUserId\<close>: the user id \<^verbatim>\<open>auth()\<close> yields;
  \<^item> \<open>fetchJson\<close>: the parsed body of an HTTP GET, \<open>None\<close> when the request throws,
    the response is not ok or its body is no JSON;
  \<^item> \<open>toISODate\<close> and \<open>fullYear\<close>: \<^verbatim>\<open>toISOString().split("T")[0]\<close> and
    \<^verbatim>\<open>getFullYear()\<close> of a time;
  \<^item> \<open>newDate\<close>: the time of \<^verbatim>\<open>new Date(v)\<close>, \<open>None\<close> for an Invalid Date;
  \<^item> \<open>createRejects\<close>: whether the store refuses to create a row with the given data.
\<close>

record platform =
  generateContent :: "event list \<Rightarrow> string \<Rightarrow> string \<Rightarrow> js_error + string"
  syntaxErrorMessage :: "string \<Rightarrow> string"
  authUserId :: "string option"
  fetchJson :: "event list \<Rightarrow> string \<Rightarrow> js_value option"
  toISODate :: "int \<Rightarrow> string"
  fullYear :: "int \<Rightarrow> string"
  newDate :: "js_value option \<Rightarrow> int option"
  createRejects :: "job_data \<Rightarrow> bool"

text \<open>
  The state an execution reads and changes: the trace of external events, the clock
  (advanced by the timer waits), the JobOpportunity table and the industries of the
  IndustryInsight table.
\<close>

record world =
  trace :: "event list"
  clock :: int
  jobOpportunity :: "job_row list"
  industryInsight :: "string list"

definition invoke :: "platform \<Rightarrow> string \<Rightarrow> string \<Rightarrow> world \<Rightarrow> (js_error + string) \<times> world" where
  "invoke p modelName prompt w =
     (generateContent p (trace w) modelName prompt,
      w\<lparr>trace := trace w @ [Invoked modelName prompt]\<rparr>)"

text \<open>\<^verbatim>\<open>await new Promise((resolve) => setTimeout(resolve, ms))\<close>\<close>

definition sleep :: "nat \<Rightarrow> world \<Rightarrow> world" where
  "sleep ms w = w\<lparr>trace := trace w @ [Waited ms], clock := clock w + int ms\<rparr>"

definition parseJSON :: "platform \<Rightarrow> string \<Rightarrow> js_error + js_value" where
  "parseJSON p text =
     (case JSON_parse text of
        None \<Rightarrow> Inl (JsError (syntaxErrorMessage p text) None)
      | Some v \<Rightarrow> Inr v)"

subsection \<open>The store\<close>

text \<open>
  \<^verbatim>\<open>findMany({where: {industry, isActive: true}, orderBy: {postedDate: "desc"}, take: 20})\<close>.
  Rows with equal post dates keep their table order (the store leaves their order open).
\<close>

definition activeRows :: "string \<Rightarrow> job_row list \<Rightarrow> job_row list" where
  "activeRows ind rows = filter (\<lambda>r. industry r = ind \<and> isActive r) rows"

definition findMany :: "string \<Rightarrow> world \<Rightarrow> job_row list" where
  "findMany ind w = take 20 (sort_key (\<lambda>r. - postedDate r) (activeRows ind (jobOpportunity w)))"

text \<open>\<^verbatim>\<open>updateMany({where: {industry, isActive: true}, data: {isActive: false}})\<close>\<close>

definition deactivate :: "string \<Rightarrow> world \<Rightarrow> world" where
  "deactivate ind w =
     w\<lparr>jobOpportunity :=
         map (\<lambda>r. if industry r = ind \<and> isActive r
                   then r\<lparr>isActive := False, updatedAt := clock w\<rparr> else r)
             (jobOpportunity w)\<rparr>"

text \<open>
  The data object of a create call, built from one entry of the job list. \<open>None\<close>: the
  call throws, because the entry is \<^verbatim>\<open>null\<close> (a TypeError on reading its property) or
  because a date is invalid (the store refuses an Invalid Date).
\<close>

definition jobData :: "platform \<Rightarrow> string \<Rightarrow> js_value \<Rightarrow> job_data option" where
  "jobData p ind job =
     (if job = JNull then None
      else
        (case (newDate p (getProp job ''postedDate''),
               if truthyOpt (getProp job ''deadline'')
               then map_option Some (newDate p (getProp job ''deadline''))
               else Some None) of
           (Some posted, Some d) \<Rightarrow>
             Some \<lparr> title = getProp job ''title'',
                    company = getProp job ''company'',
                    location = getProp job ''location'',
                    type = getProp job ''type'',
                    industry = ind,
                    description = getProp job ''description'',
                    requirements = orElse (getProp job ''requirements'') (JArray []),
                    skills = orElse (getProp job ''skills'') (JArray []),
                    salary = getProp job ''salary'',
                    experience = getProp job ''experience'',
                    platform = getProp job ''platform'',
                    url = getProp job ''url'',
                    postedDate = posted,
                    deadline = d \<rparr>
         | _ \<Rightarrow> None))"

text \<open>
  \<^verbatim>\<open>await db.jobOpportunity.create({data: {...}})\<close>: \<open>None\<close> when it throws, else the
  world with the new row, which is active, has a fresh id and the current time as its
  creation and update time.
\<close>

definition createJob :: "platform \<Rightarrow> string \<Rightarrow> js_value \<Rightarrow> world \<Rightarrow> world option" where
  "createJob p ind job w =
     (case jobData p ind job of
        None \<Rightarrow> None
      | Some d \<Rightarrow>
          if createRejects p d then None
          else Some (w\<lparr>jobOpportunity := jobOpportunity w @
                 [job_data.extend d
                    \<lparr> rid = length (jobOpportunity w), isActive = True,
                      createdAt = clock w, updatedAt = clock w \<rparr>]\<rparr>))"


section \<open>The text-generation gateway\<close>

definition modelsToTry :: "string list" where
  "modelsToTry = [''gemini-1.5-flash'', ''gemini-1.5-pro'', ''gemini-pro'', ''gemini-2.0-flash-exp'']"

definition allFailed :: js_error where
  "allFailed = JsError ''All Gemini models failed'' None"

text \<open>
  The repository holds three copies of \<^verbatim>\<open>generateWithModelFallback\<close>. The copy of the
  dashboard actions (the job and insight pipeline) and the copy of the scheduled functions
  have the same text: a model that throws is logged and the next one is tried, whatever
  the error; the text of the first model that answers is returned as it is.
\<close>

fun tryModels :: "platform \<Rightarrow> string \<Rightarrow> string list \<Rightarrow> world \<Rightarrow> (js_error + string) \<times> world" where
  "tryModels p prompt [] w = (Inl allFailed, w)"
| "tryModels p prompt (modelName # rest) w =
     (case invoke p modelName prompt w of
        (Inr text, w1) \<Rightarrow> (Inr text, w1)
      | (Inl err, w1) \<Rightarrow>
          if str_includes (message err) ''404'' \<or> status err = Some 404
          then tryModels p prompt rest w1
          else tryModels p prompt rest w1)"

definition generateWithModelFallback :: "platform \<Rightarrow> string \<Rightarrow> world \<Rightarrow> (js_error + string) \<times> world" where
  "generateWithModelFallback p prompt w = tryModels p prompt modelsToTry w"

text \<open>
  The copy of the cover-letter actions trims the text it returns, and after an error that
  is not a 404 but a 429 it waits 2000 ms before it tries the next model.
\<close>

fun coverLetterTryModels :: "platform \<Rightarrow> string \<Rightarrow> string list \<Rightarrow> world \<Rightarrow> (js_error + string) \<times> world" where
  "coverLetterTryModels p prompt [] w = (Inl allFailed, w)"
| "coverLetterTryModels p prompt (modelName # rest) w =
     (case invoke p modelName prompt w of
        (Inr text, w1) \<Rightarrow> (Inr (trim text), w1)
      | (Inl err, w1) \<Rightarrow>
          if str_includes (message err) ''404'' \<or> status err = Some 404
          then coverLetterTryModels p prompt rest w1
          else if str_includes (message err) ''429'' \<or> status err = Some 429
          then coverLetterTryModels p prompt rest (sleep 2000 w1)
          else coverLetterTryModels p prompt rest w1)"

definition coverLetterGenerateWithModelFallback :: "platform \<Rightarrow> string \<Rightarrow> world \<Rightarrow> (js_error + string) \<times> world" where
  "coverLetterGenerateWithModelFallback p prompt w = coverLetterTryModels p prompt modelsToTry w"

section \<open>Prompts\<close>

text \<open>The template literals of the source, character for character.\<close>

definition insightsPrompt :: "string \<Rightarrow> string" where
  \<open>insightsPrompt ind =
     concat
       [''\<newline>'',
        ''          Analyze the current state of the '',
        ind,
        '' industry and provide insights in ONLY the following JSON format without any additional notes or explanations:\<newline>'',
        ''          {\<newline>'',
        ''            "salaryRanges": [\<newline>'',
        ''              { "role": "string", "min": number, "max": number, "median": number, "location": "string" }\<newline>'',
        ''            ],\<newline>'',
        ''            "growthRate": number,\<newline>'',
        ''            "demandLevel": "High" | "Medium" | "Low",\<newline>'',
        ''            "topSkills": ["skill1", "skill2"],\<newline>'',
        ''            "marketOutlook": "Positive" | "Neutral" | "Negative",\<newline>'',
        ''            "keyTrends": ["trend1", "trend2"],\<newline>'',
        ''            "recommendedSkills": ["skill1", "skill2"]\<newline>'',
        ''          }\<newline>'',
        ''          \<newline>'',
        ''          IMPORTANT: Return ONLY the JSON. No additional text, notes, or markdown formatting.\<newline>'',
        ''          Include at least 5 common roles for salary ranges.\<newline>'',
        ''          Growth rate should be a percentage.\<newline>'',
        ''          Include at least 5 skills and trends.\<newline>'',
        ''        '']\<close>

definition jobsPrompt :: "string \<Rightarrow> string \<Rightarrow> string \<Rightarrow> string" where
  \<open>jobsPrompt ind currentYear currentDate =
     concat
       [''\<newline>'',
        ''  Find and list REAL-WORLD job opportunities for "'',
        ind,
        ''" roles available on FREE job platforms such as:\<newline>'',
        ''  - Unstop.com\<newline>'',
        ''  - Naukri.com  \<newline>'',
        ''  - LinkedIn Jobs\<newline>'',
        ''  - Freshersworld.com\<newline>'',
        ''  - Internshala.com\<newline>'',
        ''  - Indeed India\<newline>'',
        ''  - AngelList\<newline>'',
        ''  - RemoteOK\<newline>'',
        ''  \<newline>'',
        ''  ONLY include jobs that are:\<newline>'',
        ''  - Currently ACTIVE and accepting applications\<newline>'',
        ''  - Posted within the last 30 days\<newline>'',
        ''  - Full-time or Internship positions\<newline>'',
        ''  - Have REAL application URLs that lead directly to actual job posting pages OR platform-specific industry pages\<newline>'',
        ''  \<newline>'',
        ''  For each job, provide:\<newline>'',
        ''  - Job title (exact as posted)\<newline>'',
        ''  - Company name (real, verified company)\<newline>'',
        ''  - Location (city, state)\<newline>'',
        ''  - Type (internship | full-time | part-time | contract)\<newline>'',
        ''  - Brief job description (1-2 sentences)\<newline>'',
        ''  - Key requirements (as array of strings)\<newline>'',
        ''  - Required skills (as array of strings)\<newline>'',
        ''  - Salary range (if available, realistic for current year)\<newline>'',
        ''  - Experience level (e.g., "Fresher", "0-2 years", "2-5 years")\<newline>'',
        ''  - Platform source (internshala | unstop | linkedin | indeed | naukri | freshersworld | angellist | remoteok)\<newline>'',
        ''  - URL (direct link to actual job posting preferred; fallback to platform industry page)\<newline>'',
        ''  - Posted date (in format YYYY-MM-DD; use current date as fallback)\<newline>'',
        ''  - Application deadline (if available, else null)\<newline>'',
        ''  \<newline>'',
        ''  URL PRIORITY ORDER:\<newline>'',
        ''  1. Direct job posting page (preferred)\<newline>'',
        ''  2. Platform industry-specific page (fallback)\<newline>'',
        ''  3. Platform job search page with relevant filters (last resort)\<newline>'',
        ''  \<newline>'',
        ''  Platform-specific fallback URLs:\<newline>'',
        ''  - Internshala: https://internshala.com/internships/\<newline>'',
        ''  - Unstop: https://unstop.com/internship/software-development-internship\<newline>'',
        ''  - LinkedIn: https://www.linkedin.com/jobs/search/?keywords=software%20developer%20internship&location=India\<newline>'',
        ''  - Naukri: https://www.naukri.com/internship-jobs\<newline>'',
        ''  - Freshersworld: https://www.freshersworld.com/internships\<newline>'',
        ''  - Indeed: https://in.indeed.com/jobs?q=software%20developer%20internship&l=India\<newline>'',
        ''  \<newline>'',
        ''  REQUIREMENTS:\<newline>'',
        ''  - Return ONLY the specified JSON format, without any extra text, notes, or explanations\<newline>'',
        ''  - Include between 8 to 10 real, active job opportunities\<newline>'',
        ''  - Ensure all data fields are complete and realistic (no dummy data)\<newline>'',
        ''  - Focus on internships and entry-level roles for students\<newline>'',
        ''  - Prioritize diverse companies (startups, large enterprises, Indian and global firms)\<newline>'',
        ''  - Locations should represent different cities across India\<newline>'',
        ''  - Ensure URLs are verified working links\<newline>'',
        ''  - Salary ranges must reflect current market trends for '',
        currentYear,
        ''\<newline>'',
        ''  - Use current date ('',
        currentDate,
        '') for postedDate field\<newline>'',
        ''  - EXCLUDE any paid job listing sites or sponsored listings\<newline>'',
        ''  \<newline>'',
        ''  Output format (strictly JSON only):\<newline>'',
        ''  {\<newline>'',
        ''    "jobs": [\<newline>'',
        ''      {\<newline>'',
        ''        "title": "string",\<newline>'',
        ''        "company": "string",\<newline>'',
        ''        "location": "string",\<newline>'',
        ''        "type": "internship" | "full-time" | "part-time" | "contract",\<newline>'',
        ''        "description": "string",\<newline>'',
        ''        "requirements": ["requirement1", "requirement2"],\<newline>'',
        ''        "skills": ["skill1", "skill2"],\<newline>'',
        ''        "salary": "string",\<newline>'',
        ''        "experience": "string",\<newline>'',
        ''        "platform": "internshala" | "unstop" | "linkedin" | "indeed" | "naukri" | "freshersworld" | "angellist" | "remoteok",\<newline>'',
        ''        "url": "string",\<newline>'',
        ''        "postedDate": "'',
        currentDate,
        ''",\<newline>'',
        ''        "deadline": "YYYY-MM-DD or null"\<newline>'',
        ''      }\<newline>'',
        ''    ]\<newline>'',
        ''  }\<newline>'',
        ''  '']\<close>

definition scheduledJobsPrompt :: "string \<Rightarrow> string" where
  \<open>scheduledJobsPrompt ind =
     concat
       [''\<newline>'',
        ''        Search for current job opportunities and internships in the '',
        ind,
        '' industry from platforms like Internshala, Unstop, LinkedIn, Indeed, and other job portals. \<newline>'',
        ''        \<newline>'',
        ''        Return the data in ONLY the following JSON format without any additional notes or explanations:\<newline>'',
        ''        {\<newline>'',
        ''          "jobs": [\<newline>'',
        ''            {\<newline>'',
        ''              "title": "string",\<newline>'',
        ''              "company": "string", \<newline>'',
        ''              "location": "string",\<newline>'',
        ''              "type": "internship" | "full-time" | "part-time" | "contract",\<newline>'',
        ''              "description": "string",\<newline>'',
        ''              "requirements": ["requirement1", "requirement2"],\<newline>'',
        ''              "skills": ["skill1", "skill2"],\<newline>'',
        ''              "salary": "string (e.g., '',
        [CHR 0x27],
        [CHR 0xE2, CHR 0x82, CHR 0xB9],
        ''15,000 - '',
        [CHR 0xE2, CHR 0x82, CHR 0xB9],
        ''25,000/month'',
        [CHR 0x27],
        '' or '',
        [CHR 0x27],
        ''Not specified'',
        [CHR 0x27],
        '')",\<newline>'',
        ''              "experience": "string (e.g., '',
        [CHR 0x27],
        ''0-2 years'',
        [CHR 0x27],
        '', '',
        [CHR 0x27],
        ''Fresher'',
        [CHR 0x27],
        '', '',
        [CHR 0x27],
        ''2-5 years'',
        [CHR 0x27],
        '')",\<newline>'',
        ''              "platform": "internshala" | "unstop" | "linkedin" | "indeed" | "other",\<newline>'',
        ''              "url": "string (job posting URL)",\<newline>'',
        ''              "postedDate": "YYYY-MM-DD",\<newline>'',
        ''              "deadline": "YYYY-MM-DD (if available, otherwise null)"\<newline>'',
        ''            }\<newline>'',
        ''          ]\<newline>'',
        ''        }\<newline>'',
        ''        \<newline>'',
        ''        IMPORTANT: \<newline>'',
        ''        - Return ONLY the JSON. No additional text, notes, or markdown formatting.\<newline>'',
        ''        - Include at least 8-10 current job opportunities\<newline>'',
        ''        - Focus on internships and entry-level positions for students\<newline>'',
        ''        - Include a mix of different job types (internships, full-time, part-time)\<newline>'',
        ''        - Make sure URLs are realistic job posting URLs\<newline>'',
        ''        - Use current dates for postedDate\<newline>'',
        ''        - Include diverse companies and locations\<newline>'',
        ''        - Ensure all required fields are populated\<newline>'',
        ''      '']\<close>

section \<open>Industry insights\<close>

definition defaultInsights :: js_value where
  "defaultInsights =
     JObject
       [(''salaryRanges'', JArray []),
        (''growthRate'', JNumber ''0''),
        (''demandLevel'', JString ''Medium''),
        (''topSkills'', JArray []),
        (''marketOutlook'', JString ''Neutral''),
        (''keyTrends'', JArray []),
        (''recommendedSkills'', JArray [])]"

text \<open>
  The statements of a \<^verbatim>\<open>try\<close> block that asks the gateway and parses the answer:
  \<^verbatim>\<open>text = await generateWithModelFallback(prompt);
  cleanedText = text.replace(/```(?:json)?\n?/g, "").trim(); return JSON.parse(cleanedText)\<close>.
\<close>

definition generateAndParse :: "platform \<Rightarrow> string \<Rightarrow> world \<Rightarrow> (js_error + js_value) \<times> world" where
  "generateAndParse p prompt w =
     (case generateWithModelFallback p prompt w of
        (Inl err, w1) \<Rightarrow> (Inl err, w1)
      | (Inr text, w1) \<Rightarrow> (parseJSON p (cleanResponse text), w1))"

definition generateAIInsights :: "platform \<Rightarrow> string \<Rightarrow> world \<Rightarrow> (js_error + js_value) \<times> world" where
  "generateAIInsights p ind w =
     (case generateAndParse p (insightsPrompt ind) w of
        (Inr v, w1) \<Rightarrow> (Inr v, w1)
      | (Inl err, w1) \<Rightarrow> (Inr defaultInsights, w1))"

section \<open>The fallback job data\<close>

text \<open>
  A lookup \<^verbatim>\<open>table[key]\<close> in an object literal: an own property, a property inherited
  from \<^verbatim>\<open>Object.prototype\<close> (a function or an object, truthy and no array), or
  \<^verbatim>\<open>undefined\<close>.
\<close>

datatype 'a lookup = Own 'a | Inherited | Absent

definition objectPrototypeKeys :: "string list" where
  "objectPrototypeKeys =
     [''constructor'', ''__defineGetter__'', ''__defineSetter__'', ''hasOwnProperty'',
      ''__lookupGetter__'', ''__lookupSetter__'', ''isPrototypeOf'', ''propertyIsEnumerable'',
      ''toString'', ''valueOf'', ''__proto__'', ''toLocaleString'']"

definition lookupKey :: "(string \<times> 'a) list \<Rightarrow> string \<Rightarrow> 'a lookup" where
  "lookupKey table k =
     (case map_of table k of
        Some v \<Rightarrow> Own v
      | None \<Rightarrow> if k \<in> set objectPrototypeKeys then Inherited else Absent)"

text \<open>Case mapping of ASCII letters (the keyword tables are ASCII).\<close>

definition toUpperChar :: "char \<Rightarrow> char" where
  "toUpperChar c = (if isLower c then char_of (code c - 32) else c)"

definition toLowerChar :: "char \<Rightarrow> char" where
  "toLowerChar c = (if 65 \<le> code c \<and> code c \<le> 90 then char_of (code c + 32) else c)"

text \<open>\<^verbatim>\<open>s.charAt(0).toUpperCase() + s.slice(1)\<close>\<close>

definition capitalize :: "string \<Rightarrow> string" where
  "capitalize s = (case s of [] \<Rightarrow> [] | c # r \<Rightarrow> toUpperChar c # r)"

text \<open>\<^verbatim>\<open>s.replace(/\s+/g, "-")\<close>\<close>

function dashSpaces :: "string \<Rightarrow> string" where
  "dashSpaces [] = []"
| "dashSpaces (c # s) =
     (if startsWhite (c # s) then CHR ''-'' # dashSpaces (trimStart (c # s))
      else c # dashSpaces s)"
  by pat_completeness auto
termination
proof (relation "measure length")
  have le: "length (dropLeading ts s) \<le> length s" for ts s
    by (induct ts s rule: dropLeading.induct) (auto split: option.splits)
  have nonempty: "[] \<notin> set whiteSpaces"
    by (simp add: whiteSpaces_def)
  show "(trimStart (c # s), c # s) \<in> measure length" if "startsWhite (c # s)" for c s
  proof -
    from that obtain t where t: "find (startsWith (c # s)) whiteSpaces = Some t"
      by (auto simp: startsWhite_def)
    then have "t \<in> set whiteSpaces"
      by (auto simp: find_Some_iff)
    with nonempty have "t \<noteq> []"
      by auto
    with t have "trimStart (c # s) = dropLeading whiteSpaces (drop (length t) (c # s))"
      by (simp add: trimStart_def)
    moreover have "length (drop (length t) (c # s)) < length (c # s)"
      using \<open>t \<noteq> []\<close> by simp
    ultimately show ?thesis
      using le[of whiteSpaces "drop (length t) (c # s)"] by simp
  qed
qed auto

definition hexChar :: "nat \<Rightarrow> char" where
  "hexChar n = (if n < 10 then char_of (48 + n) else char_of (55 + n))"

definition isUnreserved :: "char \<Rightarrow> bool" where
  "isUnreserved c =
     (isDigit c \<or> isLower c \<or> (65 \<le> code c \<and> code c \<le> 90) \<or> c \<in> set ''-_.!~*()'' \<or> c = CHR 0x27)"

definition encodeURIComponent :: "string \<Rightarrow> string" where
  "encodeURIComponent s =
     concat (map (\<lambda>c. if isUnreserved c then [c]
                       else [CHR ''%'', hexChar (code c div 16), hexChar (code c mod 16)]) s)"

definition industryKeywords :: "(string \<times> string list) list" where
  "industryKeywords =
     [(''tech-software-development'', [''software developer'', ''programmer'', ''engineer'', ''internship'']),
      (''finance'', [''finance'', ''banking'', ''fintech'', ''investment'']),
      (''healthcare'', [''healthcare'', ''medical'', ''pharma'', ''biotech'']),
      (''manufacturing'', [''manufacturing'', ''production'', ''engineering'', ''operations'']),
      (''retail'', [''retail'', ''ecommerce'', ''marketing'', ''sales'']),
      (''media'', [''media'', ''content'', ''marketing'', ''design'']),
      (''education'', [''education'', ''teaching'', ''training'', ''edtech'']),
      (''energy'', [''energy'', ''renewable'', ''sustainability'', ''utilities'']),
      (''consulting'', [''consulting'', ''advisory'', ''strategy'', ''management'']),
      (''telecom'', [''telecom'', ''networking'', ''communications'', ''5g'']),
      (''transportation'', [''transportation'', ''logistics'', ''supply chain'', ''automotive'']),
      (''agriculture'', [''agriculture'', ''farming'', ''agtech'', ''food'']),
      (''construction'', [''construction'', ''real estate'', ''architecture'', ''engineering'']),
      (''hospitality'', [''hospitality'', ''tourism'', ''hotel'', ''restaurant'']),
      (''nonprofit'', [''nonprofit'', ''ngo'', ''social work'', ''charity''])]"


definition realJobsTech :: "string \<Rightarrow> js_value list" where
  \<open>realJobsTech currentDate =
     [JObject
        [(''title'', JString ''Software Development Intern''),
         (''company'', JString ''Microsoft''),
         (''location'', JString ''Bangalore, India''),
         (''type'', JString ''internship''),
         (''description'', JString ''Join Microsoft as a Software Development Intern and work on cutting-edge technologies including Azure, .NET, and cloud computing solutions.''),
         (''requirements'', JArray
              [JString ''Currently pursuing Computer Science or related field'',
               JString ''Strong programming skills in C#, Java, or Python'']),
         (''skills'', JArray
              [JString ''C#'',
               JString ''Azure'',
               JString ''JavaScript'',
               JString ''SQL'',
               JString ''Git'']),
         (''salary'', JString ([CHR 0xE2, CHR 0x82, CHR 0xB9] @ ''30,000 - '' @ [CHR 0xE2, CHR 0x82, CHR 0xB9] @ ''45,000/month'')),
         (''experience'', JString ''Fresher''),
         (''platform'', JString ''linkedin''),
         (''url'', JString ''https://www.linkedin.com/jobs/search/?keywords=software%20developer%20internship&location=India''),
         (''postedDate'', JString currentDate),
         (''deadline'', JNull)],
      JObject
        [(''title'', JString ''React Developer Intern''),
         (''company'', JString ''Flipkart''),
         (''location'', JString ''Bangalore, India''),
         (''type'', JString ''internship''),
         (''description'', JString (''Work on Flipkart'' @ [CHR 0x27] @ ''s e-commerce platform using React and modern frontend technologies. Gain experience in large-scale web applications.'')),
         (''requirements'', JArray
              [JString ''Currently pursuing Computer Science'',
               JString ''Knowledge of React and JavaScript'']),
         (''skills'', JArray
              [JString ''React'',
               JString ''JavaScript'',
               JString ''HTML'',
               JString ''CSS'',
               JString ''Redux'']),
         (''salary'', JString ([CHR 0xE2, CHR 0x82, CHR 0xB9] @ ''25,000 - '' @ [CHR 0xE2, CHR 0x82, CHR 0xB9] @ ''40,000/month'')),
         (''experience'', JString ''Fresher''),
         (''platform'', JString ''internshala''),
         (''url'', JString ''https://internshala.com/internships/software-development-internship''),
         (''postedDate'', JString currentDate),
         (''deadline'', JNull)],
      JObject
        [(''title'', JString ''Full Stack Developer''),
         (''company'', JString ''Google''),
         (''location'', JString ''Hyderabad, India''),
         (''type'', JString ''full-time''),
         (''description'', JString (''Build scalable web applications and services using Google'' @ [CHR 0x27] @ ''s technology stack. Work on products used by billions of users worldwide.'')),
         (''requirements'', JArray
              [JString (''Bachelor'' @ [CHR 0x27] @ ''s degree in Computer Science''),
               JString ''3+ years of experience in web development'']),
         (''skills'', JArray
              [JString ''JavaScript'',
               JString ''React'',
               JString ''Node.js'',
               JString ''Go'',
               JString ''Kubernetes'']),
         (''salary'', JString ([CHR 0xE2, CHR 0x82, CHR 0xB9] @ ''18,00,000 - '' @ [CHR 0xE2, CHR 0x82, CHR 0xB9] @ ''30,00,000/year'')),
         (''experience'', JString ''3-5 years''),
         (''platform'', JString ''linkedin''),
         (''url'', JString ''https://www.linkedin.com/jobs/search/?keywords=full%20stack%20developer&location=India''),
         (''postedDate'', JString currentDate),
         (''deadline'', JNull)],
      JObject
        [(''title'', JString ''Data Science Intern''),
         (''company'', JString ''Uber''),
         (''location'', JString ''Mumbai, India''),
         (''type'', JString ''internship''),
         (''description'', JString (''Analyze large datasets to derive insights for Uber'' @ [CHR 0x27] @ ''s business operations. Work on machine learning models and data visualization.'')),
         (''requirements'', JArray
              [JString ''Currently pursuing Data Science or related field'',
               JString ''Strong analytical skills'']),
         (''skills'', JArray
              [JString ''Python'',
               JString ''Pandas'',
               JString ''Scikit-learn'',
               JString ''SQL'',
               JString ''Tableau'']),
         (''salary'', JString ([CHR 0xE2, CHR 0x82, CHR 0xB9] @ ''22,000 - '' @ [CHR 0xE2, CHR 0x82, CHR 0xB9] @ ''35,000/month'')),
         (''experience'', JString ''Fresher''),
         (''platform'', JString ''unstop''),
         (''url'', JString ''https://unstop.com/internship/data-science-internship''),
         (''postedDate'', JString currentDate),
         (''deadline'', JNull)],
      JObject
        [(''title'', JString ''Backend Developer''),
         (''company'', JString ''Amazon''),
         (''location'', JString ''Chennai, India''),
         (''type'', JString ''full-time''),
         (''description'', JString (''Design and develop scalable backend services for Amazon'' @ [CHR 0x27] @ ''s e-commerce platform. Work with microservices architecture and cloud technologies.'')),
         (''requirements'', JArray
              [JString (''Bachelor'' @ [CHR 0x27] @ ''s degree in Computer Science''),
               JString ''2+ years of backend development experience'']),
         (''skills'', JArray
              [JString ''Java'',
               JString ''Spring Boot'',
               JString ''AWS'',
               JString ''Docker'',
               JString ''Kubernetes'']),
         (''salary'', JString ([CHR 0xE2, CHR 0x82, CHR 0xB9] @ ''15,00,000 - '' @ [CHR 0xE2, CHR 0x82, CHR 0xB9] @ ''22,00,000/year'')),
         (''experience'', JString ''2-4 years''),
         (''platform'', JString ''linkedin''),
         (''url'', JString ''https://www.linkedin.com/jobs/search/?keywords=backend%20developer&location=India''),
         (''postedDate'', JString currentDate),
         (''deadline'', JNull)]]\<close>

definition realJobsFinance :: "string \<Rightarrow> js_value list" where
  \<open>realJobsFinance currentDate =
     [JObject
        [(''title'', JString ''Investment Banking Intern''),
         (''company'', JString ''Goldman Sachs''),
         (''location'', JString ''Mumbai, India''),
         (''type'', JString ''internship''),
         (''description'', JString ''Gain exposure to investment banking operations, financial modeling, and client relationship management in a global financial services firm.''),
         (''requirements'', JArray
              [JString ''Currently pursuing Finance or related field'',
               JString ''Strong analytical and communication skills'']),
         (''skills'', JArray
              [JString ''Financial Modeling'',
               JString ''Excel'',
               JString ''PowerPoint'',
               JString ''Bloomberg Terminal'',
               JString ''Valuation'']),
         (''salary'', JString ([CHR 0xE2, CHR 0x82, CHR 0xB9] @ ''30,000 - '' @ [CHR 0xE2, CHR 0x82, CHR 0xB9] @ ''40,000/month'')),
         (''experience'', JString ''Fresher''),
         (''platform'', JString ''linkedin''),
         (''url'', JString ''https://www.linkedin.com/jobs/search/?keywords=investment%20banking%20internship&location=India''),
         (''postedDate'', JString currentDate),
         (''deadline'', JNull)],
      JObject
        [(''title'', JString ''FinTech Developer''),
         (''company'', JString ''Paytm''),
         (''location'', JString ''Noida, India''),
         (''type'', JString ''full-time''),
         (''description'', JString (''Develop innovative financial technology solutions for India'' @ [CHR 0x27] @ ''s leading digital payments platform. Work on mobile and web applications.'')),
         (''requirements'', JArray
              [JString (''Bachelor'' @ [CHR 0x27] @ ''s degree in Computer Science''),
               JString ''2+ years of development experience'']),
         (''skills'', JArray
              [JString ''Java'',
               JString ''Spring Boot'',
               JString ''React Native'',
               JString ''PostgreSQL'',
               JString ''Redis'']),
         (''salary'', JString ([CHR 0xE2, CHR 0x82, CHR 0xB9] @ ''8,00,000 - '' @ [CHR 0xE2, CHR 0x82, CHR 0xB9] @ ''12,00,000/year'')),
         (''experience'', JString ''2-4 years''),
         (''platform'', JString ''linkedin''),
         (''url'', JString ''https://www.linkedin.com/jobs/search/?keywords=fintech%20developer&location=India''),
         (''postedDate'', JString currentDate),
         (''deadline'', JNull)]]\<close>

definition realJobsHealthcare :: "string \<Rightarrow> js_value list" where
  \<open>realJobsHealthcare currentDate =
     [JObject
        [(''title'', JString ''Healthcare IT Intern''),
         (''company'', JString ''Apollo Hospitals''),
         (''location'', JString ''Chennai, India''),
         (''type'', JString ''internship''),
         (''description'', JString ''Work on healthcare information systems, electronic health records, and telemedicine platforms. Gain experience in healthcare technology.''),
         (''requirements'', JArray
              [JString ''Currently pursuing Computer Science or Healthcare IT'',
               JString ''Interest in healthcare technology'']),
         (''skills'', JArray
              [JString ''Python'',
               JString ''Django'',
               JString ''PostgreSQL'',
               JString ''HL7'',
               JString ''FHIR'']),
         (''salary'', JString ([CHR 0xE2, CHR 0x82, CHR 0xB9] @ ''15,000 - '' @ [CHR 0xE2, CHR 0x82, CHR 0xB9] @ ''25,000/month'')),
         (''experience'', JString ''Fresher''),
         (''platform'', JString ''internshala''),
         (''url'', JString ''https://internshala.com/internships/healthcare-internship''),
         (''postedDate'', JString currentDate),
         (''deadline'', JNull)]]\<close>

definition realJobsWithLinks :: "string \<Rightarrow> (string \<times> js_value list) list" where
  "realJobsWithLinks currentDate =
     [(''tech-software-development'', realJobsTech currentDate),
      (''finance'', realJobsFinance currentDate),
      (''healthcare'', realJobsHealthcare currentDate)]"


text \<open>
  \<^verbatim>\<open>fetchFromJobAPIs\<close> and \<^verbatim>\<open>scrapeJobSites\<close> are placeholders: each logs and
  returns the empty list.
\<close>

definition fetchFromJobAPIs :: "string \<Rightarrow> js_value list" where
  "fetchFromJobAPIs ind = []"

definition scrapeJobSites :: "string \<Rightarrow> js_value list" where
  "scrapeJobSites ind = []"

text \<open>
  One element of the RemoteOK feed as a job entry. \<open>None\<close>: the mapping throws (the
  element is \<^verbatim>\<open>null\<close>, or its truthy \<^verbatim>\<open>tags\<close> has no \<^verbatim>\<open>slice\<close>). A string
  \<^verbatim>\<open>tags\<close> is sliced bytewise.
\<close>

definition feedSkills :: "js_value \<Rightarrow> js_value option" where
  "feedSkills job =
     (if truthyOpt (getProp job ''tags'')
      then (case getProp job ''tags'' of
              Some (JArray ts) \<Rightarrow> Some (JArray (take 5 ts))
            | Some (JString s) \<Rightarrow> Some (JString (take 5 s))
            | _ \<Rightarrow> None)
      else Some (JArray [JString ''Remote'', JString ''Development'']))"

definition feedJob :: "string \<Rightarrow> js_value \<Rightarrow> js_value option" where
  "feedJob currentDate job =
     (if job = JNull then None
      else case feedSkills job of
        None \<Rightarrow> None
      | Some sk \<Rightarrow>
          Some (JObject
            [(''title'', orElse (getProp job ''position'') (JString ''Remote Developer'')),
             (''company'', orElse (getProp job ''company'') (JString ''Remote Company'')),
             (''location'', orElse (getProp job ''location'') (JString ''Remote'')),
             (''type'', JString (if truthyOpt (getProp job ''contract'') then ''contract'' else ''full-time'')),
             (''description'', orElse (getProp job ''description'') (JString ''Remote work opportunity'')),
             (''requirements'', JArray [JString ''Remote work experience'', JString ''Good communication skills'']),
             (''skills'', sk),
             (''salary'', orElse (getProp job ''salary'') (JString ''Not specified'')),
             (''experience'', JString ''1-3 years''),
             (''platform'', JString ''remoteok''),
             (''url'', orElse (getProp job ''url'') (JString ''https://remoteok.io/'')),
             (''postedDate'', JString currentDate),
             (''deadline'', JNull)]))"

definition remoteOkUrl :: string where
  "remoteOkUrl = ''https://remoteok.io/api''"

text \<open>
  \<^verbatim>\<open>fetchFromJobFeeds\<close>: the elements 1 to 5 of the feed, mapped; the empty list when
  the request fails, the body is no array or the mapping throws.
\<close>

definition fetchFromJobFeeds :: "platform \<Rightarrow> string \<Rightarrow> world \<Rightarrow> js_value list \<times> world" where
  "fetchFromJobFeeds p ind w =
     (let currentDate = toISODate p (clock w);
          w1 = w\<lparr>trace := trace w @ [Fetched remoteOkUrl]\<rparr>
      in case fetchJson p (trace w) remoteOkUrl of
           Some (JArray xs) \<Rightarrow>
             (case those (map (feedJob currentDate) (take 5 (drop 1 xs))) of
                Some jobs \<Rightarrow> (jobs, w1)
              | None \<Rightarrow> ([], w1))
         | _ \<Rightarrow> ([], w1))"

text \<open>\<^verbatim>\<open>xs.join(sep)\<close>\<close>

fun joinWith :: "string \<Rightarrow> string list \<Rightarrow> string" where
  "joinWith sep [] = []"
| "joinWith sep [x] = x"
| "joinWith sep (x # y # ys) = x @ sep @ joinWith sep (y # ys)"

definition defaultKeywords :: "string list" where
  "defaultKeywords = [''software developer'', ''internship'']"

text \<open>
  The five entries \<^verbatim>\<open>fetchRealTimeJobs\<close> builds from the keywords of the industry.
  \<open>None\<close>: \<^verbatim>\<open>keywords[0]\<close> is \<^verbatim>\<open>undefined\<close> and the construction throws.
\<close>

definition realTimeJobs :: "string list \<Rightarrow> string \<Rightarrow> string \<Rightarrow> js_value list option" where
  "realTimeJobs keywords ind currentDate =
     (case keywords of
        [] \<Rightarrow> None
      | k0 # _ \<Rightarrow>
          let searchQuery = joinWith '' '' keywords;
              slug = encodeURIComponent (dashSpaces (map toLowerChar searchQuery));
              rupee = [CHR 0xE2, CHR 0x82, CHR 0xB9];
              sk = JArray (map JString (take 5 keywords))
          in Some
            [JObject
               [(''title'', JString (capitalize k0 @ '' Intern'')),
                (''company'', JString ''Tech Mahindra''),
                (''location'', JString ''Pune, India''),
                (''type'', JString ''internship''),
                (''description'', JString (''Join Tech Mahindra as a '' @ k0 @
                   '' intern and work on cutting-edge projects in the '' @ ind @
                   '' industry. Gain hands-on experience with real-world applications.'')),
                (''requirements'', JArray
                   [JString ''Currently pursuing degree in relevant field'',
                    JString (''Strong interest in '' @ k0)]),
                (''skills'', sk),
                (''salary'', JString (rupee @ ''15,000 - '' @ rupee @ ''25,000/month'')),
                (''experience'', JString ''Fresher''),
                (''platform'', JString ''internshala''),
                (''url'', JString (''https://internshala.com/internships/'' @ slug @ ''-internship'')),
                (''postedDate'', JString currentDate),
                (''deadline'', JNull)],
             JObject
               [(''title'', JString (''Senior '' @ capitalize k0)),
                (''company'', JString ''Infosys''),
                (''location'', JString ''Bangalore, India''),
                (''type'', JString ''full-time''),
                (''description'', JString (''Work as a Senior '' @ k0 @ '' at Infosys, one of India'' @
                   [CHR 0x27] @ ''s leading IT companies. Lead projects and mentor junior developers.'')),
                (''requirements'', JArray
                   [JString (''Bachelor'' @ [CHR 0x27] @ ''s degree in relevant field''),
                    JString ''3+ years of experience'']),
                (''skills'', sk),
                (''salary'', JString (rupee @ ''8,00,000 - '' @ rupee @ ''12,00,000/year'')),
                (''experience'', JString ''3-5 years''),
                (''platform'', JString ''linkedin''),
                (''url'', JString (''https://www.linkedin.com/jobs/view/'' @ slug @ ''-position'')),
                (''postedDate'', JString currentDate),
                (''deadline'', JNull)],
             JObject
               [(''title'', JString (capitalize k0 @ '' Trainee'')),
                (''company'', JString ''Wipro''),
                (''location'', JString ''Hyderabad, India''),
                (''type'', JString ''internship''),
                (''description'', JString (''Start your career as a '' @ k0 @
                   '' trainee at Wipro. Comprehensive training program with job placement opportunities.'')),
                (''requirements'', JArray
                   [JString ''Recent graduate or final year student'',
                    JString ''Good communication skills'']),
                (''skills'', sk),
                (''salary'', JString (rupee @ ''12,000 - '' @ rupee @ ''20,000/month'')),
                (''experience'', JString ''Fresher''),
                (''platform'', JString ''unstop''),
                (''url'', JString (''https://unstop.com/internship/'' @ slug @ ''-internship'')),
                (''postedDate'', JString currentDate),
                (''deadline'', JNull)],
             JObject
               [(''title'', JString (''Junior '' @ capitalize k0)),
                (''company'', JString ''TCS''),
                (''location'', JString ''Mumbai, India''),
                (''type'', JString ''full-time''),
                (''description'', JString (''Join TCS as a Junior '' @ k0 @
                   '' and work on exciting projects for global clients. Great learning and growth opportunities.'')),
                (''requirements'', JArray
                   [JString (''Bachelor'' @ [CHR 0x27] @ ''s degree''),
                    JString ''1-2 years of experience'']),
                (''skills'', sk),
                (''salary'', JString (rupee @ ''4,00,000 - '' @ rupee @ ''6,00,000/year'')),
                (''experience'', JString ''1-2 years''),
                (''platform'', JString ''linkedin''),
                (''url'', JString (''https://www.linkedin.com/jobs/view/'' @ slug @ ''-junior-position'')),
                (''postedDate'', JString currentDate),
                (''deadline'', JNull)],
             JObject
               [(''title'', JString (capitalize k0 @ '' Specialist'')),
                (''company'', JString ''HCL Technologies''),
                (''location'', JString ''Chennai, India''),
                (''type'', JString ''full-time''),
                (''description'', JString (''Work as a '' @ k0 @
                   '' specialist at HCL Technologies. Focus on specialized projects and advanced technologies.'')),
                (''requirements'', JArray
                   [JString (''Master'' @ [CHR 0x27] @ ''s degree preferred''),
                    JString ''2+ years of specialized experience'']),
                (''skills'', sk),
                (''salary'', JString (rupee @ ''6,00,000 - '' @ rupee @ ''10,00,000/year'')),
                (''experience'', JString ''2-4 years''),
                (''platform'', JString ''indeed''),
                (''url'', JString (''https://in.indeed.com/viewjob?jk='' @ slug @ ''-specialist'')),
                (''postedDate'', JString currentDate),
                (''deadline'', JNull)]])"

text \<open>
  \<^verbatim>\<open>fetchRealTimeJobs\<close>: the first non-empty source wins. With an inherited key the
  keywords are no array, \<^verbatim>\<open>keywords.join\<close> throws, and the catch returns the empty list.
\<close>

definition fetchRealTimeJobs :: "platform \<Rightarrow> string \<Rightarrow> world \<Rightarrow> js_value list \<times> world" where
  "fetchRealTimeJobs p ind w =
     (let currentDate = toISODate p (clock w) in
      if fetchFromJobAPIs ind \<noteq> [] then (fetchFromJobAPIs ind, w)
      else if scrapeJobSites ind \<noteq> [] then (scrapeJobSites ind, w)
      else
        (case fetchFromJobFeeds p ind w of
           (feedJobs, w1) \<Rightarrow>
             if feedJobs \<noteq> [] then (feedJobs, w1)
             else
               (case lookupKey industryKeywords ind of
                  Inherited \<Rightarrow> ([], w1)
                | Own keywords \<Rightarrow>
                    (case realTimeJobs keywords ind currentDate of
                       Some jobs \<Rightarrow> (jobs, w1) | None \<Rightarrow> ([], w1))
                | Absent \<Rightarrow>
                    (case realTimeJobs defaultKeywords ind currentDate of
                       Some jobs \<Rightarrow> (jobs, w1) | None \<Rightarrow> ([], w1)))))"

text \<open>
  \<^verbatim>\<open>getRealJobOpportunitiesWithLinks\<close>: the curated list of the industry, the list of
  tech-software-development when the industry has none.
\<close>

definition getRealJobOpportunitiesWithLinks :: "platform \<Rightarrow> string \<Rightarrow> world \<Rightarrow> js_value" where
  "getRealJobOpportunitiesWithLinks p ind w =
     (let currentDate = toISODate p (clock w) in
      JObject
        [(''jobs'',
          case lookupKey (realJobsWithLinks currentDate) ind of
            Own jobs \<Rightarrow> JArray jobs
          | Inherited \<Rightarrow> JOpaque
          | Absent \<Rightarrow> JArray (realJobsTech currentDate))])"

definition getRealJobOpportunities :: "platform \<Rightarrow> string \<Rightarrow> world \<Rightarrow> js_value \<times> world" where
  "getRealJobOpportunities p ind w =
     (case fetchRealTimeJobs p ind w of
        (jobs, w1) \<Rightarrow>
          if jobs \<noteq> [] then (JObject [(''jobs'', JArray jobs)], w1)
          else (getRealJobOpportunitiesWithLinks p ind w1, w1))"

section \<open>Job generation with retries\<close>

definition maxRetries :: nat where
  "maxRetries = 3"

text \<open>
  The loop \<^verbatim>\<open>for (attempt = 1; attempt <= maxRetries; attempt++)\<close> of
  \<^verbatim>\<open>generateJobOpportunities\<close>, from a given attempt on. \<open>Some v\<close>: the attempt returned
  the parsed value. \<open>None\<close>: the loop was left without a value. Every error thrown in the
  body is an Error object (the gateway's, or the SyntaxError of \<^verbatim>\<open>JSON.parse\<close>).
\<close>

function retryLoop :: "platform \<Rightarrow> string \<Rightarrow> nat \<Rightarrow> world \<Rightarrow> js_value option \<times> world" where
  "retryLoop p prompt attempt w =
     (if attempt \<le> maxRetries then
        (case generateAndParse p prompt w of
           (Inr v, w1) \<Rightarrow> (Some v, w1)
         | (Inl err, w1) \<Rightarrow>
             if str_includes (message err) ''503'' \<and> attempt < maxRetries
             then retryLoop p prompt (attempt + 1) (sleep (2 ^ attempt * 1000) w1)
             else (None, w1))
      else (None, w))"
  by pat_completeness auto
termination
  by (relation "measure (\<lambda>(p, prompt, attempt, w). maxRetries + 1 - attempt)") auto

declare retryLoop.simps [simp del]

definition generateJobOpportunities :: "platform \<Rightarrow> string \<Rightarrow> world \<Rightarrow> js_value \<times> world" where
  "generateJobOpportunities p ind w =
     (let prompt = jobsPrompt ind (fullYear p (clock w)) (toISODate p (clock w)) in
      case retryLoop p prompt 1 w of
        (Some v, w1) \<Rightarrow> (v, w1)
      | (None, w1) \<Rightarrow> getRealJobOpportunities p ind w1)"

section \<open>The read path\<close>

definition ttlJobs :: int where
  "ttlJobs = 3 * 24 * 60 * 60 * 1000"

text \<open>
  \<^verbatim>\<open>existingJobs.length === 0 || (existingJobs[0] && now - existingJobs[0].createdAt > ttl)\<close>
\<close>

definition shouldFetchNew :: "int \<Rightarrow> job_row list \<Rightarrow> bool" where
  "shouldFetchNew now existingJobs =
     (length existingJobs = 0 \<or>
      (case existingJobs of [] \<Rightarrow> False | j # _ \<Rightarrow> now - createdAt j > ttlJobs))"

text \<open>
  \<^verbatim>\<open>jobData.jobs && Array.isArray(jobData.jobs)\<close>: the entries when the test holds.
  The value is not \<^verbatim>\<open>null\<close> here; the callers test that first.
\<close>

definition jobsArray :: "js_value \<Rightarrow> js_value list option" where
  "jobsArray v = (case getProp v ''jobs'' of Some (JArray xs) \<Rightarrow> Some xs | _ \<Rightarrow> None)"

text \<open>The creation loop of the read path: an entry whose creation throws is skipped.\<close>

fun createJobs :: "platform \<Rightarrow> string \<Rightarrow> js_value list \<Rightarrow> world \<Rightarrow> world" where
  "createJobs p ind [] w = w"
| "createJobs p ind (job # rest) w =
     (case createJob p ind job w of
        Some w1 \<Rightarrow> createJobs p ind rest w1
      | None \<Rightarrow> createJobs p ind rest w)"

definition unauthorized :: js_error where
  "unauthorized = JsError ''Unauthorized'' None"

text \<open>
  \<^verbatim>\<open>getJobOpportunities\<close>. Inside the \<^verbatim>\<open>try\<close> block only the read of
  \<^verbatim>\<open>jobData.jobs\<close> can throw (when the value is \<^verbatim>\<open>null\<close>), after the old rows are
  deactivated; the catch then returns the rows fetched first.
\<close>

definition getJobOpportunities :: "platform \<Rightarrow> string \<Rightarrow> world \<Rightarrow> (js_error + job_row list) \<times> world" where
  "getJobOpportunities p ind w =
     (if \<not> (case authUserId p of Some u \<Rightarrow> u \<noteq> [] | None \<Rightarrow> False) then (Inl unauthorized, w)
      else
        let existingJobs = findMany ind w in
        if shouldFetchNew (clock w) existingJobs then
          (case generateJobOpportunities p ind w of
             (jobs, w1) \<Rightarrow>
               let w2 = deactivate ind w1 in
               if jobs = JNull then (Inr existingJobs, w2)
               else
                 let w3 = (case jobsArray jobs of
                             Some entries \<Rightarrow> createJobs p ind entries w2
                           | None \<Rightarrow> w2)
                 in (Inr (findMany ind w3), w3))
        else (Inr existingJobs, w))"


section \<open>The manual update route\<close>

text \<open>
  The creation loop of the manual route and of the scheduled function has no catch of its
  own: the first creation that throws ends it (\<open>False\<close>), and the rows created before
  stay.
\<close>

fun createJobsStrict :: "platform \<Rightarrow> string \<Rightarrow> js_value list \<Rightarrow> world \<Rightarrow> bool \<times> world" where
  "createJobsStrict p ind [] w = (True, w)"
| "createJobsStrict p ind (job # rest) w =
     (case createJob p ind job w of
        Some w1 \<Rightarrow> createJobsStrict p ind rest w1
      | None \<Rightarrow> (False, w))"

text \<open>
  An entry of the report: \<^verbatim>\<open>{industry, jobsCreated, status: "success"}\<close> or
  \<^verbatim>\<open>{industry, error, status: "error"}\<close> (the error text is left out).
\<close>

datatype report = ReportSuccess string nat | ReportError string

datatype response = BadRequest | Completed "report list"

text \<open>
  The body of the loop over the industries in \<^verbatim>\<open>POST\<close>: it deactivates first, then
  generates, then creates. It yields the entries it pushes to the report.
\<close>

definition updateIndustry :: "platform \<Rightarrow> string \<Rightarrow> world \<Rightarrow> report list \<times> world" where
  "updateIndustry p ind w =
     (case generateJobOpportunities p ind (deactivate ind w) of
        (jobs, w2) \<Rightarrow>
          if jobs = JNull then ([ReportError ind], w2)
          else
            (case jobsArray jobs of
               None \<Rightarrow> ([], w2)
             | Some entries \<Rightarrow>
                 (case createJobsStrict p ind entries w2 of
                    (True, w3) \<Rightarrow> ([ReportSuccess ind (length entries)], w3)
                  | (False, w3) \<Rightarrow> ([ReportError ind], w3))))"

fun updateAll :: "platform \<Rightarrow> string list \<Rightarrow> world \<Rightarrow> report list \<times> world" where
  "updateAll p [] w = ([], w)"
| "updateAll p (ind # rest) w =
     (case updateIndustry p ind w of
        (rs, w1) \<Rightarrow> (case updateAll p rest w1 of (rs', w2) \<Rightarrow> (rs @ rs', w2)))"

definition POST :: "platform \<Rightarrow> world \<Rightarrow> response \<times> world" where
  "POST p w =
     (if length (industryInsight w) = 0 then (BadRequest, w)
      else case updateAll p (industryInsight w) w of (rs, w1) \<Rightarrow> (Completed rs, w1))"

section \<open>The scheduled refresh\<close>

text \<open>
  The body of the loop over the industries in the daily function
  \<^verbatim>\<open>fetchJobOpportunities\<close>, its steps run in order: \<^verbatim>\<open>step.run(name, f)\<close> is taken
  to run \<^verbatim>\<open>f\<close> once and to yield its result or its error. A gateway failure is not
  caught and ends the run; a parse failure, or an error after the deactivation, is caught
  and logged.
\<close>

definition scheduledIndustry :: "platform \<Rightarrow> string \<Rightarrow> world \<Rightarrow> (js_error + unit) \<times> world" where
  "scheduledIndustry p ind w =
     (case generateWithModelFallback p (scheduledJobsPrompt ind) w of
        (Inl err, w1) \<Rightarrow> (Inl err, w1)
      | (Inr text, w1) \<Rightarrow>
          (case JSON_parse (cleanResponse text) of
             None \<Rightarrow> (Inr (), w1)
           | Some jobs \<Rightarrow>
               let w2 = deactivate ind w1 in
               if jobs = JNull then (Inr (), w2)
               else
                 (case jobsArray jobs of
                    None \<Rightarrow> (Inr (), w2)
                  | Some entries \<Rightarrow> (Inr (), snd (createJobsStrict p ind entries w2)))))"

fun fetchJobOpportunities :: "platform \<Rightarrow> string list \<Rightarrow> world \<Rightarrow> (js_error + unit) \<times> world" where
  "fetchJobOpportunities p [] w = (Inr (), w)"
| "fetchJobOpportunities p (ind # rest) w =
     (case scheduledIndustry p ind w of
        (Inl err, w1) \<Rightarrow> (Inl err, w1)
      | (Inr u, w1) \<Rightarrow> fetchJobOpportunities p rest w1)"

section \<open>The staleness rule in the words of the specification\<close>

text \<open>
  \<open>isStale(mostRecentCreatedAt, now, ttl)\<close>: stale if no record exists, or
  \<open>now - mostRecentCreatedAt > ttl\<close>, where \<open>mostRecentCreatedAt\<close> is the latest
  creation time of the record set.
\<close>

definition mostRecentCreatedAt :: "job_row list \<Rightarrow> int option" where
  "mostRecentCreatedAt rows =
     (case rows of [] \<Rightarrow> None | r # rs \<Rightarrow> Some (fold max (map createdAt rs) (createdAt r)))"

definition isStale :: "int option \<Rightarrow> int \<Rightarrow> int \<Rightarrow> bool" where
  "isStale recent now ttl = (case recent of None \<Rightarrow> True | Some t \<Rightarrow> now - t > ttl)"

section \<open>Counting\<close>

text \<open>
  What an execution added to the trace, the waits among events, and the number of
  invocations of a model among them. Every run of the gateway invokes its first candidate
  exactly once, so the invocations of the first candidate count the attempts.
\<close>

fun waitsOf :: "event list \<Rightarrow> nat list" where
  "waitsOf [] = []"
| "waitsOf (Waited ms # es) = ms # waitsOf es"
| "waitsOf (e # es) = waitsOf es"

fun invokedModels :: "event list \<Rightarrow> string list" where
  "invokedModels [] = []"
| "invokedModels (Invoked m prompt # es) = m # invokedModels es"
| "invokedModels (e # es) = invokedModels es"

definition attemptsIn :: "event list \<Rightarrow> nat" where
  "attemptsIn es = length (filter (\<lambda>m. m = ''gemini-1.5-flash'') (invokedModels es))"

text \<open>Whether the creation of a row from an entry succeeds (it does not depend on the world).\<close>

definition creatable :: "platform \<Rightarrow> string \<Rightarrow> js_value \<Rightarrow> bool" where
  "creatable p ind job = (case jobData p ind job of None \<Rightarrow> False | Some d \<Rightarrow> \<not> createRejects p d)"

text \<open>The entries a refresh tries to create from the generated value.\<close>

definition entriesOf :: "js_value \<Rightarrow> js_value list" where
  "entriesOf jobs = (if jobs = JNull then [] else case jobsArray jobs of Some es \<Rightarrow> es | None \<Rightarrow> [])"

section \<open>Example platforms and worlds\<close>

text \<open>
  Concrete inputs for the instances below: a platform whose text-completion capability is
  given, with a signed-in user, an unreachable job feed, a store that accepts every row and
  the date 2025-01-20 (day 20108 of the epoch), which is also the one date it parses.
\<close>

definition day :: int where
  "day = 24 * 60 * 60 * 1000"

definition examplePlatform :: "(event list \<Rightarrow> string \<Rightarrow> string \<Rightarrow> js_error + string) \<Rightarrow> platform" where
  "examplePlatform capability =
     \<lparr> generateContent = capability,
       syntaxErrorMessage = (\<lambda>text. ''Unexpected token''),
       authUserId = Some ''user_1'',
       fetchJson = (\<lambda>tr u. None),
       toISODate = (\<lambda>t. ''2025-01-20''),
       fullYear = (\<lambda>t. ''2025''),
       newDate = (\<lambda>v. if v = Some (JString ''2025-01-20'') then Some (20108 * day) else None),
       createRejects = (\<lambda>d. False) \<rparr>"

text \<open>Capabilities: every call throws the given error; every call answers the given text.\<close>

definition alwaysThrows :: "string \<Rightarrow> nat \<Rightarrow> event list \<Rightarrow> string \<Rightarrow> string \<Rightarrow> js_error + string" where
  "alwaysThrows msg st tr modelName prompt = Inl (JsError msg (Some st))"

definition alwaysAnswers :: "string \<Rightarrow> event list \<Rightarrow> string \<Rightarrow> string \<Rightarrow> js_error + string" where
  "alwaysAnswers text tr modelName prompt = Inr text"

text \<open>The example of the specification: model A is not found, every other model answers.\<close>

definition firstNotFound :: "event list \<Rightarrow> string \<Rightarrow> string \<Rightarrow> js_error + string" where
  "firstNotFound tr modelName prompt =
     (if modelName = ''A'' then Inl (JsError ''[404 Not Found] model not found'' (Some 404))
      else Inr ('' answer of '' @ modelName @ '' ''))"

definition exampleRow :: "nat \<Rightarrow> string \<Rightarrow> int \<Rightarrow> int \<Rightarrow> job_row" where
  "exampleRow i ind posted created =
     \<lparr> title = Some (JString ''Analyst''), company = Some (JString ''Acme''),
       location = Some (JString ''Pune, India''), type = Some (JString ''full-time''),
       industry = ind, description = Some (JString ''Analysis''),
       requirements = JArray [], skills = JArray [],
       salary = None, experience = None,
       platform = Some (JString ''linkedin''), url = Some (JString ''https://example.org/1''),
       postedDate = posted, deadline = None,
       rid = i, isActive = True, createdAt = created, updatedAt = created \<rparr>"

definition exampleWorld :: "int \<Rightarrow> job_row list \<Rightarrow> world" where
  "exampleWorld now rows =
     \<lparr> trace = [], clock = now, jobOpportunity = rows, industryInsight = [''finance''] \<rparr>"


text \<open>
  The events of invoking the given models in turn, and the two error classes the gateways
  test for.
\<close>

definition invocations :: "string \<Rightarrow> string list \<Rightarrow> event list" where
  "invocations prompt ms = map (\<lambda>m. Invoked m prompt) ms"

definition notFound :: "js_error \<Rightarrow> bool" where
  "notFound err = (str_includes (message err) ''404'' \<or> status err = Some 404)"

definition rateLimited :: "js_error \<Rightarrow> bool" where
  "rateLimited err = (str_includes (message err) ''429'' \<or> status err = Some 429)"


text \<open>A platform whose store refuses every creation.\<close>

definition refusingStore :: "platform \<Rightarrow> platform" where
  "refusingStore p = p\<lparr>createRejects := (\<lambda>d. True)\<rparr>"

text \<open>The events of invoking the given models in turn with a wait of 2000 ms after each.\<close>

definition waitedInvocations :: "string \<Rightarrow> string list \<Rightarrow> event list" where
  "waitedInvocations prompt ms = concat (map (\<lambda>m. [Invoked m prompt, Waited 2000]) ms)"

section \<open>The staleness decision\<close>

lemma sort_key_Nil_iff: "sort_key f xs = [] \<longleftrightarrow> xs = []"
  by (metis length_0_conv length_sort)

lemma findMany_set: "set (findMany ind w) \<subseteq> set (activeRows ind (jobOpportunity w))"
  by (auto simp: findMany_def dest: in_set_takeD)

lemma findMany_nonempty: "activeRows ind (jobOpportunity w) \<noteq> [] \<Longrightarrow> findMany ind w \<noteq> []"
  by (simp add: findMany_def sort_key_Nil_iff)

text \<open>
  Claim C5, as stated, fails. The rows are fetched in the order of their post dates, and
  the decision reads the creation time of the first of them, which need not be the latest
  creation time. Two rows of one batch, created one second apart, the one with the later
  post date first: 500 ms after the first row turned three days old the code refreshes,
  while now minus the most recent creation time is still below the TTL.
\<close>

theorem staleness_counterexample:
  "shouldFetchNew (3 * day + 500)
       (findMany ''finance'' (exampleWorld (3 * day + 500)
          [exampleRow 0 ''finance'' (2 * day) 0, exampleRow 1 ''finance'' day 1000]))
   \<and> \<not> isStale (mostRecentCreatedAt (findMany ''finance'' (exampleWorld (3 * day + 500)
          [exampleRow 0 ''finance'' (2 * day) 0, exampleRow 1 ''finance'' day 1000])))
        (3 * day + 500) ttlJobs"
  by (simp add: shouldFetchNew_def findMany_def activeRows_def exampleWorld_def exampleRow_def
      isStale_def mostRecentCreatedAt_def ttlJobs_def day_def)

text \<open>
  Claim C5, amended: for every fetched record list and current time, the staleness
  decision for job opportunities is true exactly when no record was fetched or now minus
  the creation time of the first fetched record (the one with the latest post date)
  exceeds three days; when that record is four days old a refresh is triggered, when it is
  two days old none is.
\<close>

theorem staleness_first_fetched:
  "shouldFetchNew now [] \<and>
   (shouldFetchNew now (r # rs) \<longleftrightarrow> now - createdAt r > 3 * day) \<and>
   shouldFetchNew now (r\<lparr>createdAt := now - 4 * day\<rparr> # rs) \<and>
   \<not> shouldFetchNew now (r\<lparr>createdAt := now - 2 * day\<rparr> # rs)"
  by (simp add: shouldFetchNew_def ttlJobs_def day_def)

section \<open>Serving fresh records\<close>

text \<open>
  Claim C6: when a signed-in caller reads an industry that has active records, all of
  them younger than the TTL, \<^verbatim>\<open>getJobOpportunities\<close> returns exactly the list it
  fetched first and leaves the world as it was: nothing is added to the trace, so the
  gateway is not called, and the table is unchanged.
\<close>

theorem fresh_read_serves_existing:
  assumes auth: "authUserId p = Some u" "u \<noteq> []"
    and some: "activeRows ind (jobOpportunity w) \<noteq> []"
    and young: "\<forall>r \<in> set (activeRows ind (jobOpportunity w)). clock w - createdAt r < ttlJobs"
  shows "getJobOpportunities p ind w = (Inr (findMany ind w), w)"
proof -
  from some obtain j js where f: "findMany ind w = j # js"
    using findMany_nonempty by (cases "findMany ind w") auto
  then have "j \<in> set (activeRows ind (jobOpportunity w))"
    using findMany_set[of ind w] by auto
  with young have "clock w - createdAt j < ttlJobs" by blast
  then have "\<not> shouldFetchNew (clock w) (findMany ind w)"
    by (simp add: shouldFetchNew_def f)
  then show ?thesis
    using auth by (simp add: getJobOpportunities_def)
qed

theorem fresh_read_serves_existing_witness:
  "authUserId (examplePlatform (alwaysAnswers ''{}'')) = Some ''user_1''
   \<and> activeRows ''tech'' (jobOpportunity (exampleWorld (2 * day) [exampleRow 0 ''tech'' 0 day])) \<noteq> []
   \<and> list_all (\<lambda>r. clock (exampleWorld (2 * day) [exampleRow 0 ''tech'' 0 day]) - createdAt r < ttlJobs)
        (activeRows ''tech'' (jobOpportunity (exampleWorld (2 * day) [exampleRow 0 ''tech'' 0 day])))
   \<and> getJobOpportunities (examplePlatform (alwaysAnswers ''{}'')) ''tech''
         (exampleWorld (2 * day) [exampleRow 0 ''tech'' 0 day])
       = (Inr [exampleRow 0 ''tech'' 0 day], exampleWorld (2 * day) [exampleRow 0 ''tech'' 0 day])"
proof -
  let ?p = "examplePlatform (alwaysAnswers ''{}'')"
  let ?w = "exampleWorld (2 * day) [exampleRow 0 ''tech'' 0 day]"
  have a: "authUserId ?p = Some ''user_1''" by (simp add: examplePlatform_def)
  have b: "activeRows ''tech'' (jobOpportunity ?w) \<noteq> []"
    by (simp add: activeRows_def exampleWorld_def exampleRow_def)
  have c: "list_all (\<lambda>r. clock ?w - createdAt r < ttlJobs) (activeRows ''tech'' (jobOpportunity ?w))"
    by (simp add: activeRows_def exampleWorld_def exampleRow_def ttlJobs_def day_def)
  have f: "findMany ''tech'' ?w = [exampleRow 0 ''tech'' 0 day]"
    by (simp add: findMany_def activeRows_def exampleWorld_def exampleRow_def)
  from c have c': "\<forall>r \<in> set (activeRows ''tech'' (jobOpportunity ?w)). clock ?w - createdAt r < ttlJobs"
    by (simp add: list_all_iff)
  show ?thesis
    using a b c fresh_read_serves_existing[OF a _ b c'] f by simp
qed


section \<open>The gateway: first success wins\<close>

lemmas trim_eval = trim_def trimStart_def trimEnd_def whiteSpaces_def startsWith_def

lemma tryModels_skip_failed:
  assumes "\<forall>k < length pre. isl (generateContent p (trace w @ invocations prompt (take k pre)) (pre ! k) prompt)"
  shows "tryModels p prompt (pre @ rest) w =
         tryModels p prompt rest (w\<lparr>trace := trace w @ invocations prompt pre\<rparr>)"
  using assms
proof (induction pre arbitrary: w)
  case Nil
  then show ?case by (simp add: invocations_def)
next
  case (Cons a pre)
  from Cons.prems have "isl (generateContent p (trace w) a prompt)"
    by (auto simp: invocations_def dest: spec[where x=0])
  then obtain e where e: "generateContent p (trace w) a prompt = Inl e"
    by (cases "generateContent p (trace w) a prompt") auto
  let ?w1 = "w\<lparr>trace := trace w @ [Invoked a prompt]\<rparr>"
  have step: "tryModels p prompt ((a # pre) @ rest) w = tryModels p prompt (pre @ rest) ?w1"
    by (simp add: invoke_def e)
  have "\<forall>k < length pre. isl (generateContent p (trace ?w1 @ invocations prompt (take k pre)) (pre ! k) prompt)"
  proof (intro allI impI)
    fix k assume "k < length pre"
    then have "Suc k < length (a # pre)" by simp
    from Cons.prems[rule_format, OF this] show
      "isl (generateContent p (trace ?w1 @ invocations prompt (take k pre)) (pre ! k) prompt)"
      by (simp add: invocations_def)
  qed
  from Cons.IH[OF this]
  have "tryModels p prompt (pre @ rest) ?w1 =
        tryModels p prompt rest (w\<lparr>trace := trace w @ invocations prompt (a # pre)\<rparr>)"
    by (simp add: invocations_def)
  with step show ?case by (simp only:)
qed

lemma coverLetterTryModels_skip_notFound:
  assumes "\<forall>k < length pre. \<exists>e. generateContent p (trace w @ invocations prompt (take k pre)) (pre ! k) prompt = Inl e \<and> notFound e"
  shows "coverLetterTryModels p prompt (pre @ rest) w =
         coverLetterTryModels p prompt rest (w\<lparr>trace := trace w @ invocations prompt pre\<rparr>)"
  using assms
proof (induction pre arbitrary: w)
  case Nil
  then show ?case by (simp add: invocations_def)
next
  case (Cons a pre)
  from Cons.prems[rule_format, of 0] obtain e where e: "generateContent p (trace w) a prompt = Inl e" "notFound e"
    by (auto simp: invocations_def)
  let ?w1 = "w\<lparr>trace := trace w @ [Invoked a prompt]\<rparr>"
  have step: "coverLetterTryModels p prompt ((a # pre) @ rest) w = coverLetterTryModels p prompt (pre @ rest) ?w1"
    using e by (simp add: invoke_def notFound_def)
  have "\<forall>k < length pre. \<exists>e. generateContent p (trace ?w1 @ invocations prompt (take k pre)) (pre ! k) prompt = Inl e \<and> notFound e"
  proof (intro allI impI)
    fix k assume "k < length pre"
    then have "Suc k < length (a # pre)" by simp
    from Cons.prems[rule_format, OF this] show
      "\<exists>e. generateContent p (trace ?w1 @ invocations prompt (take k pre)) (pre ! k) prompt = Inl e \<and> notFound e"
      by (simp add: invocations_def)
  qed
  from Cons.IH[OF this]
  have "coverLetterTryModels p prompt (pre @ rest) ?w1 =
        coverLetterTryModels p prompt rest (w\<lparr>trace := trace w @ invocations prompt (a # pre)\<rparr>)"
    by (simp add: invocations_def)
  with step show ?case by (simp only:)
qed

text \<open>
  Claim C3, as stated, fails for the gateway of the job and insight pipeline: it returns
  the text of the model as it is. With a model that answers \<open>{}\<close> between two spaces
  the gateway returns the text with its spaces, which trimming would remove.
\<close>

theorem gateway_untrimmed_counterexample:
  "fst (generateWithModelFallback (examplePlatform (alwaysAnswers '' {} '')) ''prompt'' (exampleWorld 0 [])) = Inr '' {} ''
   \<and> trim '' {} '' = ''{}''"
  by (simp add: generateWithModelFallback_def modelsToTry_def invoke_def examplePlatform_def
      alwaysAnswers_def trim_eval)

text \<open>
  Claim C3, amended: for every prompt and every ranked model list, when the candidates
  before \<open>m\<close> throw in their turn and \<open>m\<close> answers, the gateway of the job and insight
  pipeline returns the text of \<open>m\<close> unchanged (its callers trim it after they have removed
  the code fences), has invoked exactly the candidates up to \<open>m\<close> in order and none after
  it; a candidate that fails as not found is followed at once by the next one. (In this
  copy every failing candidate is followed at once by the next one; for a rate-limited
  candidate that is the defect of claim C4, and no part of what this claim asks for.) The
  gateway of the cover letters returns the trimmed text, with the same trace, when the
  candidates before \<open>m\<close> fail as not found.
\<close>

theorem gateway_first_success:
  "((\<forall>k < length pre. isl (generateContent p (trace w @ invocations prompt (take k pre)) (pre ! k) prompt))
     \<and> generateContent p (trace w @ invocations prompt pre) m prompt = Inr text
    \<longrightarrow> tryModels p prompt (pre @ m # post) w =
          (Inr text, w\<lparr>trace := trace w @ invocations prompt (pre @ [m])\<rparr>))
   \<and>
   ((\<forall>k < length pre. \<exists>e. generateContent p (trace w @ invocations prompt (take k pre)) (pre ! k) prompt = Inl e \<and> notFound e)
     \<and> generateContent p (trace w @ invocations prompt pre) m prompt = Inr text
    \<longrightarrow> coverLetterTryModels p prompt (pre @ m # post) w =
          (Inr (trim text), w\<lparr>trace := trace w @ invocations prompt (pre @ [m])\<rparr>))"
  by (auto simp: tryModels_skip_failed coverLetterTryModels_skip_notFound invoke_def invocations_def)

theorem gateway_first_success_witness:
  "tryModels (examplePlatform firstNotFound) ''prompt'' [''A'', ''B'', ''C''] (exampleWorld 0 []) =
     (Inr '' answer of B '', (exampleWorld 0 [])\<lparr>trace := [Invoked ''A'' ''prompt'', Invoked ''B'' ''prompt'']\<rparr>)
   \<and> coverLetterTryModels (examplePlatform firstNotFound) ''prompt'' [''A'', ''B'', ''C''] (exampleWorld 0 []) =
     (Inr ''answer of B'', (exampleWorld 0 [])\<lparr>trace := [Invoked ''A'' ''prompt'', Invoked ''B'' ''prompt'']\<rparr>)"
  using gateway_first_success[of "[''A'']" "examplePlatform firstNotFound" "exampleWorld 0 []" "''prompt''" "''B''" "'' answer of B ''" "[''C'']"]
  by (simp add: examplePlatform_def firstNotFound_def exampleWorld_def invocations_def notFound_def
      trim_eval)


section \<open>The parser\<close>

lemma json_not_json: "JSON_parse ''not json'' = None"
  by (simp add: JSON_parse_def startTok_def isDigit_def isLower_def code_def wordToken_def)

lemma clean_not_json: "cleanResponse ''not json'' = ''not json''"
  by (simp add: cleanResponse_def fence_def trim_eval)

lemma json_jobs_empty: \<open>JSON_parse ''{"jobs":[]}'' = Some (JObject [(''jobs'', JArray [])])\<close>
  by (simp add: JSON_parse_def startTok_def isDigit_def isLower_def code_def)

lemma json_empty_object: "JSON_parse ''{}'' = Some (JObject [])"
  by (simp add: JSON_parse_def startTok_def isDigit_def isLower_def code_def)

lemma clean_empty_object: "cleanResponse ''{}'' = ''{}''"
  by (simp add: cleanResponse_def fence_def trim_eval)

lemma stripFences_none: "\<not> str_includes s fence \<Longrightarrow> stripFences s = s"
  by (induction s) auto

lemma take3_fence:
  "a \<noteq> [] \<Longrightarrow> take 3 (a @ fence @ rest) = take 3 (a @ [CHR 0x60, CHR 0x60])"
  by (cases a; cases "tl a"; cases "tl (tl a)") (auto simp: fence_def)

lemma stripFences_first:
  "\<not> str_includes (a @ [CHR 0x60, CHR 0x60]) fence \<Longrightarrow>
   stripFences (a @ fence @ rest) = a @ stripFences (afterFence (fence @ rest))"
proof (induction a)
  case Nil
  then show ?case by (simp add: fence_def startsWith_def)
next
  case (Cons c a)
  from Cons.prems have 1: "\<not> startsWith ((c # a) @ [CHR 0x60, CHR 0x60]) fence"
    and 2: "\<not> str_includes (a @ [CHR 0x60, CHR 0x60]) fence"
    by simp_all
  have eq: "take 3 ((c # a) @ fence @ rest) = take 3 ((c # a) @ [CHR 0x60, CHR 0x60])"
    by (rule take3_fence) simp
  have len: "length fence = 3"
    by (simp add: fence_def)
  from 1 have "take 3 ((c # a) @ [CHR 0x60, CHR 0x60]) \<noteq> fence"
    unfolding startsWith_def len .
  then have "take 3 ((c # a) @ fence @ rest) \<noteq> fence"
    unfolding eq .
  then have "\<not> startsWith ((c # a) @ fence @ rest) fence"
    unfolding startsWith_def len .
  then have "stripFences ((c # a) @ fence @ rest) = c # stripFences (a @ fence @ rest)"
    by simp
  with Cons.IH[OF 2] show ?case by simp
qed

lemma first_fence:
  "str_includes raw fence \<Longrightarrow>
   \<exists>a rest. raw = a @ fence @ rest \<and> \<not> str_includes (a @ [CHR 0x60, CHR 0x60]) fence"
proof (induction raw)
  case Nil
  then show ?case by (simp add: fence_def)
next
  case (Cons c s)
  have len: "length fence = 3"
    by (simp add: fence_def)
  show ?case
  proof (cases "startsWith (c # s) fence")
    case True
    then have "take 3 (c # s) = fence"
      unfolding startsWith_def len .
    then have "c # s = [] @ fence @ drop 3 (c # s)"
      using append_take_drop_id[of 3 "c # s"] by simp
    moreover have "\<not> str_includes ([] @ [CHR 0x60, CHR 0x60]) fence"
      by (simp add: startsWith_def fence_def)
    ultimately show ?thesis by blast
  next
    case False
    with Cons.prems have "str_includes s fence"
      by simp
    from Cons.IH[OF this] obtain a rest where
      a: "s = a @ fence @ rest" "\<not> str_includes (a @ [CHR 0x60, CHR 0x60]) fence"
      by blast
    have eq: "take 3 ((c # a) @ fence @ rest) = take 3 ((c # a) @ [CHR 0x60, CHR 0x60])"
      by (rule take3_fence) simp
    from False have "take 3 ((c # a) @ fence @ rest) \<noteq> fence"
      unfolding startsWith_def len a(1) by simp
    then have "take 3 ((c # a) @ [CHR 0x60, CHR 0x60]) \<noteq> fence"
      unfolding eq .
    then have "\<not> startsWith ((c # a) @ [CHR 0x60, CHR 0x60]) fence"
      unfolding startsWith_def len .
    with a(2) have "\<not> str_includes ((c # a) @ [CHR 0x60, CHR 0x60]) fence"
      by simp
    moreover have "c # s = (c # a) @ fence @ rest"
      using a(1) by simp
    ultimately show ?thesis by blast
  qed
qed

lemma afterFence_cases:
  "afterFence (fence @ ''json'' @ [CHR 0x0A] @ b) = b"
  "afterFence (fence @ [CHR 0x0A] @ b) = b"
  "\<not> startsWith b [CHR 0x0A] \<Longrightarrow> afterFence (fence @ ''json'' @ b) = b"
  "\<not> startsWith b ''json'' \<Longrightarrow> \<not> startsWith b [CHR 0x0A] \<Longrightarrow> afterFence (fence @ b) = b"
  by (simp_all add: afterFence_def fence_def startsWith_def)

lemma no_two_backquotes:
  "\<not> startsWith s [CHR 0x60, CHR 0x60] \<Longrightarrow> \<not> startsWith (stripFences s) [CHR 0x60, CHR 0x60]"
  by (cases s; cases "tl s") (auto simp: startsWith_def fence_def)

lemma stripFences_clean: "\<not> str_includes (stripFences s) fence"
proof (induction s rule: stripFences.induct)
  case 1
  then show ?case by (simp add: fence_def)
next
  case (2 c s)
  show ?case
  proof (cases "startsWith (c # s) fence")
    case True
    with 2 show ?thesis by simp
  next
    case False
    have "\<not> startsWith (c # stripFences s) fence"
    proof (cases "c = CHR 0x60")
      case True
      with False have "\<not> startsWith s [CHR 0x60, CHR 0x60]"
        by (auto simp: startsWith_def fence_def)
      from no_two_backquotes[OF this] True show ?thesis
        by (auto simp: startsWith_def fence_def)
    next
      case False
      then show ?thesis by (auto simp: startsWith_def fence_def)
    qed
    with False 2 show ?thesis by simp
  qed
qed

lemma dropLeading_parts:
  "\<exists>ls. s = concat ls @ dropLeading ts s \<and> set ls \<subseteq> set ts"
proof (induction ts s rule: dropLeading.induct)
  case (1 ts)
  show ?case by (intro exI[of _ "[]"]) simp
next
  case (2 ts c s)
  show ?case
  proof (cases "find (startsWith (c # s)) ts")
    case None
    then show ?thesis by (intro exI[of _ "[]"]) simp
  next
    case (Some t)
    show ?thesis
    proof (cases "t = []")
      case True
      with Some show ?thesis by (intro exI[of _ "[]"]) simp
    next
      case False
      from Some have t: "t \<in> set ts" "startsWith (c # s) t"
        by (auto simp: find_Some_iff)
      from 2[OF Some False] obtain ls where
        ls: "drop (length t) (c # s) = concat ls @ dropLeading ts (drop (length t) (c # s))"
          "set ls \<subseteq> set ts"
        by blast
      have "take (length t) (c # s) @ drop (length t) (c # s) = c # s"
        by (rule append_take_drop_id)
      then have "c # s = t @ drop (length t) (c # s)"
        using t(2) by (simp only: startsWith_def)
      then have "c # s = concat (t # ls) @ dropLeading ts (c # s)"
        using ls(1) Some False by simp
      with ls(2) t(1) show ?thesis
        by (intro exI[of _ "t # ls"]) simp
    qed
  qed
qed

lemma dropLeading_done:
  "[] \<notin> set ts \<Longrightarrow> find (startsWith (dropLeading ts s)) ts = None"
proof (induction ts s rule: dropLeading.induct)
  case (1 ts)
  then show ?case by (auto simp: find_None_iff startsWith_def)
next
  case (2 ts c s)
  show ?case
  proof (cases "find (startsWith (c # s)) ts")
    case None
    then show ?thesis by simp
  next
    case (Some t)
    then have "t \<in> set ts" by (auto simp: find_Some_iff)
    with 2(2) have "t \<noteq> []" by auto
    with 2(1)[OF Some this 2(2)] Some show ?thesis by simp
  qed
qed

lemma whiteSpaces_nonempty: "[] \<notin> set whiteSpaces" "[] \<notin> set (map rev whiteSpaces)"
  by (simp_all add: whiteSpaces_def)

lemma trimStart_parts: "\<exists>ls. s = concat ls @ trimStart s \<and> set ls \<subseteq> set whiteSpaces"
  unfolding trimStart_def by (rule dropLeading_parts)

lemma trimEnd_parts: "\<exists>rs. s = trimEnd s @ concat rs \<and> set rs \<subseteq> set whiteSpaces"
proof -
  from dropLeading_parts[of "rev s" "map rev whiteSpaces"] obtain ls where
    ls: "rev s = concat ls @ dropLeading (map rev whiteSpaces) (rev s)" "set ls \<subseteq> set (map rev whiteSpaces)"
    by blast
  have "s = rev (rev s)" by simp
  also have "\<dots> = trimEnd s @ rev (concat ls)"
    by (subst ls(1)) (simp add: trimEnd_def)
  also have "rev (concat ls) = concat (map rev (rev ls))"
    by (simp add: rev_concat)
  finally have "s = trimEnd s @ concat (map rev (rev ls))" .
  moreover have "set (map rev (rev ls)) \<subseteq> set whiteSpaces"
    using ls(2) by auto
  ultimately show ?thesis by blast
qed

lemma trim_parts:
  "\<exists>ls rs. s = concat ls @ trim s @ concat rs \<and> set ls \<subseteq> set whiteSpaces \<and> set rs \<subseteq> set whiteSpaces"
proof -
  from trimStart_parts[of s] obtain ls where ls: "s = concat ls @ trimStart s" "set ls \<subseteq> set whiteSpaces"
    by blast
  from trimEnd_parts[of "trimStart s"] obtain rs where
    rs: "trimStart s = trim s @ concat rs" "set rs \<subseteq> set whiteSpaces"
    unfolding trim_def by blast
  from ls(1) rs(1) have "s = concat ls @ trim s @ concat rs" by simp
  with ls(2) rs(2) show ?thesis by blast
qed

lemma startsWith_prefix:
  assumes "startsWith x t"
  shows "startsWith (x @ y) t"
proof -
  from assms have h: "take (length t) x = t"
    by (simp add: startsWith_def)
  from arg_cong[OF h, of length] have "length t \<le> length x"
    by simp
  with h show ?thesis
    by (simp add: startsWith_def)
qed

lemma trim_ends: "\<not> startsWhite (trim s)" "\<not> endsWhite (trim s)"
proof -
  have a: "find (startsWith (trimStart s)) whiteSpaces = None"
    unfolding trimStart_def by (rule dropLeading_done[OF whiteSpaces_nonempty(1)])
  from trimEnd_parts[of "trimStart s"] obtain rs where rs: "trimStart s = trim s @ concat rs"
    unfolding trim_def by blast
  have "\<not> startsWith (trim s) t" if "t \<in> set whiteSpaces" for t
  proof
    assume "startsWith (trim s) t"
    then have "startsWith (trimStart s) t"
      unfolding rs by (rule startsWith_prefix)
    with a that show False by (auto simp: find_None_iff)
  qed
  then show "\<not> startsWhite (trim s)"
    by (auto simp: startsWhite_def find_None_iff)
  have "find (startsWith (rev (trim s))) (map rev whiteSpaces) = None"
    using dropLeading_done[OF whiteSpaces_nonempty(2), of "rev (trimStart s)"]
    by (simp add: trim_def trimEnd_def)
  then show "\<not> endsWhite (trim s)"
    by (simp add: endsWhite_def)
qed


lemma clean_fenced_example:
  \<open>cleanResponse (fence @ ''json'' @ [CHR 0x0A] @ ''{"jobs":[]}'' @ [CHR 0x0A] @ fence) = ''{"jobs":[]}''\<close>
  by (simp add: cleanResponse_def fence_def afterFence_def trim_eval)

lemma clean_unicode_space:
  "cleanResponse ([CHR 0xC2, CHR 0xA0] @ ''{}'' @ [CHR 0xE2, CHR 0x80, CHR 0xA8]) = ''{}''"
  by (simp add: cleanResponse_def fence_def trim_eval)

lemma clean_other_tag:
  "cleanResponse (fence @ ''javascript'' @ [CHR 0x0A] @ ''{}'' @ [CHR 0x0A] @ fence) = ''javascript'' @ [CHR 0x0A] @ ''{}''"
  by (simp add: cleanResponse_def fence_def afterFence_def trim_eval)

lemma json_other_tag: "JSON_parse (''javascript'' @ [CHR 0x0A] @ ''{}'') = None"
  by (simp add: JSON_parse_def startTok_def isDigit_def isLower_def code_def wordToken_def)

lemma clean_inner_fence:
  \<open>cleanResponse (''{"a":"x'' @ fence @ ''y"}'') = ''{"a":"xy"}''\<close>
  by (simp add: cleanResponse_def fence_def afterFence_def trim_eval)

lemma json_inner_fence:
  \<open>JSON_parse ''{"a":"xy"}'' = Some (JObject [(''a'', JString ''xy'')])\<close>
  by (simp add: JSON_parse_def startTok_def isDigit_def isLower_def code_def)

lemma json_inner_fence_kept:
  \<open>JSON_parse (''{"a":"x'' @ fence @ ''y"}'') = Some (JObject [(''a'', JString (''x'' @ fence @ ''y''))])\<close>
  by (simp add: JSON_parse_def startTok_def isDigit_def isLower_def code_def fence_def)

text \<open>
  Claim C7, as stated, fails in three ways. No shape is checked: the text \<open>{}\<close> is
  well-formed JSON without a jobs list; it parses, and nothing is raised. Of the language
  tags only json is removed: the object \<open>{}\<close> in a fence tagged javascript is left with
  the tag in front of it, which is no JSON. And a fence is deleted wherever it stands,
  not only at the ends: three backquotes inside a string of the answer are deleted from
  the string.
\<close>

theorem parser_claim_counterexample:
  \<open>JSON_parse (cleanResponse ''{}'') = Some (JObject []) \<and> jobsArray (JObject []) = None
   \<and> cleanResponse (fence @ ''javascript'' @ [CHR 0x0A] @ ''{}'' @ [CHR 0x0A] @ fence) = ''javascript'' @ [CHR 0x0A] @ ''{}''
   \<and> JSON_parse (cleanResponse (fence @ ''javascript'' @ [CHR 0x0A] @ ''{}'' @ [CHR 0x0A] @ fence)) = None
   \<and> JSON_parse (''{"a":"x'' @ fence @ ''y"}'') = Some (JObject [(''a'', JString (''x'' @ fence @ ''y''))])
   \<and> JSON_parse (cleanResponse (''{"a":"x'' @ fence @ ''y"}'')) = Some (JObject [(''a'', JString ''xy'')])\<close>
proof -
  have 1: "JSON_parse (cleanResponse ''{}'') = Some (JObject [])"
    unfolding clean_empty_object by (rule json_empty_object)
  have 2: "jobsArray (JObject []) = None"
    by (simp add: jobsArray_def)
  have 3: "JSON_parse (cleanResponse (fence @ ''javascript'' @ [CHR 0x0A] @ ''{}'' @ [CHR 0x0A] @ fence)) = None"
    unfolding clean_other_tag by (rule json_other_tag)
  have 4: \<open>JSON_parse (cleanResponse (''{"a":"x'' @ fence @ ''y"}'')) = Some (JObject [(''a'', JString ''xy'')])\<close>
    unfolding clean_inner_fence by (rule json_inner_fence)
  show ?thesis
    by (rule conjI[OF 1 conjI[OF 2 conjI[OF clean_other_tag conjI[OF 3 conjI[OF json_inner_fence_kept 4]]]]])
qed

text \<open>
  Claim C7, amended. For every raw response the parser deletes every code-fence delimiter,
  wherever it stands: a text without three backquotes in a row is left as it is; any
  other text has a first place where three backquotes stand, up to there it is kept, the
  delimiter is the three backquotes, the tag json directly after them when it is there
  and one line feed after that when it is there, and the rest is treated in the same way;
  no three backquotes in a row are left. Every other character stays, a language tag
  other than json included. Then the white space at both
  ends is removed: what is cut off at either end is a sequence of white-space code points,
  and the result neither begins nor ends with one. The result is parsed with
  \<^verbatim>\<open>JSON.parse\<close>: the parser returns the parsed value whatever its shape, and raises the
  SyntaxError when the text is no JSON. The fenced text of the claim parses to the object
  with the empty jobs list, \<open>not json\<close> raises, and \<open>{}\<close> between a no-break space and a
  line separator is cleaned to \<open>{}\<close>.
\<close>

theorem parser_strips_and_parses:
  \<open>(\<not> str_includes raw fence \<longrightarrow> stripFences raw = raw)
   \<and> (str_includes raw fence \<longrightarrow>
        (\<exists>a rest. raw = a @ fence @ rest \<and> \<not> str_includes (a @ [CHR 0x60, CHR 0x60]) fence))
   \<and> (\<not> str_includes (a @ [CHR 0x60, CHR 0x60]) fence \<longrightarrow>
        stripFences (a @ fence @ ''json'' @ [CHR 0x0A] @ b) = a @ stripFences b \<and>
        stripFences (a @ fence @ [CHR 0x0A] @ b) = a @ stripFences b \<and>
        (\<not> startsWith b [CHR 0x0A] \<longrightarrow> stripFences (a @ fence @ ''json'' @ b) = a @ stripFences b) \<and>
        (\<not> startsWith b ''json'' \<and> \<not> startsWith b [CHR 0x0A] \<longrightarrow>
           stripFences (a @ fence @ b) = a @ stripFences b))
   \<and> \<not> str_includes (stripFences raw) fence
   \<and> (\<exists>ls rs. stripFences raw = concat ls @ cleanResponse raw @ concat rs \<and>
         set ls \<subseteq> set whiteSpaces \<and> set rs \<subseteq> set whiteSpaces)
   \<and> \<not> startsWhite (cleanResponse raw) \<and> \<not> endsWhite (cleanResponse raw)
   \<and> (generateWithModelFallback p prompt w = (Inr raw, w1) \<longrightarrow>
        generateAndParse p prompt w =
          (case JSON_parse (cleanResponse raw) of
             Some v \<Rightarrow> Inr v
           | None \<Rightarrow> Inl (JsError (syntaxErrorMessage p (cleanResponse raw)) None), w1))
   \<and> JSON_parse (cleanResponse (fence @ ''json'' @ [CHR 0x0A] @ ''{"jobs":[]}'' @ [CHR 0x0A] @ fence))
       = Some (JObject [(''jobs'', JArray [])])
   \<and> JSON_parse (cleanResponse ''not json'') = None
   \<and> cleanResponse ([CHR 0xC2, CHR 0xA0] @ ''{}'' @ [CHR 0xE2, CHR 0x80, CHR 0xA8]) = ''{}''\<close>
proof -
  have A: "\<not> str_includes raw fence \<longrightarrow> stripFences raw = raw"
    by (simp add: stripFences_none)
  have A': "str_includes raw fence \<longrightarrow>
        (\<exists>a rest. raw = a @ fence @ rest \<and> \<not> str_includes (a @ [CHR 0x60, CHR 0x60]) fence)"
    using first_fence by blast
  have B: "\<not> str_includes (a @ [CHR 0x60, CHR 0x60]) fence \<longrightarrow>
        stripFences (a @ fence @ ''json'' @ [CHR 0x0A] @ b) = a @ stripFences b \<and>
        stripFences (a @ fence @ [CHR 0x0A] @ b) = a @ stripFences b \<and>
        (\<not> startsWith b [CHR 0x0A] \<longrightarrow> stripFences (a @ fence @ ''json'' @ b) = a @ stripFences b) \<and>
        (\<not> startsWith b ''json'' \<and> \<not> startsWith b [CHR 0x0A] \<longrightarrow>
           stripFences (a @ fence @ b) = a @ stripFences b)"
  proof (intro impI conjI)
    assume h: "\<not> str_includes (a @ [CHR 0x60, CHR 0x60]) fence"
    show "stripFences (a @ fence @ ''json'' @ [CHR 0x0A] @ b) = a @ stripFences b"
      using stripFences_first[OF h, of "''json'' @ [CHR 0x0A] @ b"] by (simp only: afterFence_cases(1))
    show "stripFences (a @ fence @ [CHR 0x0A] @ b) = a @ stripFences b"
      using stripFences_first[OF h, of "[CHR 0x0A] @ b"] by (simp only: afterFence_cases(2))
    show "stripFences (a @ fence @ ''json'' @ b) = a @ stripFences b" if "\<not> startsWith b [CHR 0x0A]"
      using stripFences_first[OF h, of "''json'' @ b"] by (simp only: afterFence_cases(3)[OF that])
    show "stripFences (a @ fence @ b) = a @ stripFences b"
      if "\<not> startsWith b ''json'' \<and> \<not> startsWith b [CHR 0x0A]"
      using stripFences_first[OF h, of b] afterFence_cases(4)[of b] that by simp
  qed
  have C: "\<not> str_includes (stripFences raw) fence"
    by (rule stripFences_clean)
  have D: "\<exists>ls rs. stripFences raw = concat ls @ cleanResponse raw @ concat rs \<and>
         set ls \<subseteq> set whiteSpaces \<and> set rs \<subseteq> set whiteSpaces"
    unfolding cleanResponse_def by (rule trim_parts)
  have E: "\<not> startsWhite (cleanResponse raw)" and F: "\<not> endsWhite (cleanResponse raw)"
    unfolding cleanResponse_def by (rule trim_ends)+
  have G: "generateWithModelFallback p prompt w = (Inr raw, w1) \<longrightarrow>
        generateAndParse p prompt w =
          (case JSON_parse (cleanResponse raw) of
             Some v \<Rightarrow> Inr v
           | None \<Rightarrow> Inl (JsError (syntaxErrorMessage p (cleanResponse raw)) None), w1)"
    by (simp add: generateAndParse_def parseJSON_def)
  have H: \<open>JSON_parse (cleanResponse (fence @ ''json'' @ [CHR 0x0A] @ ''{"jobs":[]}'' @ [CHR 0x0A] @ fence))
       = Some (JObject [(''jobs'', JArray [])])\<close>
    unfolding clean_fenced_example by (rule json_jobs_empty)
  have I: "JSON_parse (cleanResponse ''not json'') = None"
    unfolding clean_not_json by (rule json_not_json)
  show ?thesis
    by (rule conjI[OF A conjI[OF A' conjI[OF B conjI[OF C conjI[OF D conjI[OF E conjI[OF F conjI[OF G conjI[OF H conjI[OF I clean_unicode_space]]]]]]]]]])
qed

theorem parser_strips_and_parses_witness:
  \<open>\<not> str_includes ''[1, 2]'' fence \<and> stripFences ''[1, 2]'' = ''[1, 2]''
   \<and> str_includes (''Here it is: '' @ fence @ ''[1, 2]'') fence
   \<and> (\<exists>a rest. ''Here it is: '' @ fence @ ''[1, 2]'' = a @ fence @ rest \<and>
         \<not> str_includes (a @ [CHR 0x60, CHR 0x60]) fence)
   \<and> \<not> str_includes (''Here it is: '' @ [CHR 0x60, CHR 0x60]) fence
   \<and> stripFences (''Here it is: '' @ fence @ ''json'' @ [CHR 0x0A] @ ''[1, 2]'') = ''Here it is: [1, 2]''
   \<and> stripFences (''Here it is: '' @ fence @ [CHR 0x0A] @ ''[1, 2]'') = ''Here it is: [1, 2]''
   \<and> \<not> startsWith ''[1, 2]'' [CHR 0x0A] \<and> \<not> startsWith ''[1, 2]'' ''json''
   \<and> stripFences (''Here it is: '' @ fence @ ''json'' @ ''[1, 2]'') = ''Here it is: [1, 2]''
   \<and> stripFences (''Here it is: '' @ fence @ ''[1, 2]'') = ''Here it is: [1, 2]''
   \<and> generateWithModelFallback (examplePlatform (alwaysAnswers ''[1, 2]'')) ''prompt'' (exampleWorld 0 []) =
       (Inr ''[1, 2]'', (exampleWorld 0 [])\<lparr>trace := [Invoked ''gemini-1.5-flash'' ''prompt'']\<rparr>)
   \<and> generateAndParse (examplePlatform (alwaysAnswers ''[1, 2]'')) ''prompt'' (exampleWorld 0 []) =
       (Inr (JArray [JNumber ''1'', JNumber ''2'']),
        (exampleWorld 0 [])\<lparr>trace := [Invoked ''gemini-1.5-flash'' ''prompt'']\<rparr>)\<close>
proof -
  let ?p = "examplePlatform (alwaysAnswers ''[1, 2]'')"
  let ?w = "exampleWorld 0 []"
  let ?w1 = "?w\<lparr>trace := [Invoked ''gemini-1.5-flash'' ''prompt'']\<rparr>"
  note T = parser_strips_and_parses[where raw="''[1, 2]''" and a="''Here it is: ''" and b="''[1, 2]''"
      and p="?p" and prompt="''prompt''" and w="?w" and ?w1.0="?w1"]
  have h1: "\<not> str_includes ''[1, 2]'' fence"
    by (simp add: startsWith_def fence_def)
  have h2: "\<not> str_includes (''Here it is: '' @ [CHR 0x60, CHR 0x60]) fence"
    by (simp add: startsWith_def fence_def)
  have h3: "\<not> startsWith ''[1, 2]'' [CHR 0x0A]" "\<not> startsWith ''[1, 2]'' ''json''"
    by (simp_all add: startsWith_def)
  have h4: "generateWithModelFallback ?p ''prompt'' ?w = (Inr ''[1, 2]'', ?w1)"
    by (simp add: generateWithModelFallback_def modelsToTry_def invoke_def examplePlatform_def
        alwaysAnswers_def exampleWorld_def)
  have j: "JSON_parse ''[1, 2]'' = Some (JArray [JNumber ''1'', JNumber ''2''])"
    by (simp add: JSON_parse_def startTok_def isDigit_def isLower_def code_def isNumChar_def
        numToken_def validNumber_def validFraction_def validExponent_def startsWith_def)
  have c: "cleanResponse ''[1, 2]'' = ''[1, 2]''"
    by (simp add: cleanResponse_def fence_def trim_eval)
  from T h1 have c1: "stripFences ''[1, 2]'' = ''[1, 2]''"
    by blast
  have h5: "str_includes (''Here it is: '' @ fence @ ''[1, 2]'') fence"
    by (simp add: startsWith_def fence_def)
  from parser_strips_and_parses[where raw="''Here it is: '' @ fence @ ''[1, 2]''"] h5
  have c5: "\<exists>a rest. ''Here it is: '' @ fence @ ''[1, 2]'' = a @ fence @ rest \<and>
         \<not> str_includes (a @ [CHR 0x60, CHR 0x60]) fence"
    by blast
  from T h2 h3 have c2:
    "stripFences (''Here it is: '' @ fence @ ''json'' @ [CHR 0x0A] @ ''[1, 2]'') = ''Here it is: '' @ stripFences ''[1, 2]''"
    "stripFences (''Here it is: '' @ fence @ [CHR 0x0A] @ ''[1, 2]'') = ''Here it is: '' @ stripFences ''[1, 2]''"
    "stripFences (''Here it is: '' @ fence @ ''json'' @ ''[1, 2]'') = ''Here it is: '' @ stripFences ''[1, 2]''"
    "stripFences (''Here it is: '' @ fence @ ''[1, 2]'') = ''Here it is: '' @ stripFences ''[1, 2]''"
    by blast+
  from T h4 have c3: "generateAndParse ?p ''prompt'' ?w =
          (case JSON_parse (cleanResponse ''[1, 2]'') of
             Some v \<Rightarrow> Inr v
           | None \<Rightarrow> Inl (JsError (syntaxErrorMessage ?p (cleanResponse ''[1, 2]'')) None), ?w1)"
    by blast
  have c4: "generateAndParse ?p ''prompt'' ?w = (Inr (JArray [JNumber ''1'', JNumber ''2'']), ?w1)"
    unfolding c3 c j by simp
  have rest: "\<not> str_includes (''Here it is: '' @ [CHR 0x60, CHR 0x60]) fence
   \<and> stripFences (''Here it is: '' @ fence @ ''json'' @ [CHR 0x0A] @ ''[1, 2]'') = ''Here it is: [1, 2]''
   \<and> stripFences (''Here it is: '' @ fence @ [CHR 0x0A] @ ''[1, 2]'') = ''Here it is: [1, 2]''
   \<and> \<not> startsWith ''[1, 2]'' [CHR 0x0A] \<and> \<not> startsWith ''[1, 2]'' ''json''
   \<and> stripFences (''Here it is: '' @ fence @ ''json'' @ ''[1, 2]'') = ''Here it is: [1, 2]''
   \<and> stripFences (''Here it is: '' @ fence @ ''[1, 2]'') = ''Here it is: [1, 2]''
   \<and> generateWithModelFallback ?p ''prompt'' ?w = (Inr ''[1, 2]'', ?w1)
   \<and> generateAndParse ?p ''prompt'' ?w = (Inr (JArray [JNumber ''1'', JNumber ''2'']), ?w1)"
    using h2 h3 h4 c2[unfolded c1] c4 by simp
  show ?thesis
    by (rule conjI[OF h1 conjI[OF c1 conjI[OF h5 conjI[OF c5 rest]]]])
qed


section \<open>Industry insights never throw\<close>

text \<open>
  Claim C10: \<^verbatim>\<open>generateAIInsights\<close> returns a value for every industry and world; when
  the gateway throws, or the cleaned text is no JSON, the value is the default record with
  empty salaryRanges, growthRate 0, demandLevel Medium, marketOutlook Neutral and empty
  topSkills, keyTrends and recommendedSkills.
\<close>

theorem insights_never_throw:
  "(\<exists>v. fst (generateAIInsights p ind w) = Inr v) \<and>
   ((\<exists>e. fst (generateWithModelFallback p (insightsPrompt ind) w) = Inl e) \<or>
    (\<exists>text. fst (generateWithModelFallback p (insightsPrompt ind) w) = Inr text \<and>
            JSON_parse (cleanResponse text) = None)
    \<longrightarrow> fst (generateAIInsights p ind w) =
        Inr (JObject
          [(''salaryRanges'', JArray []),
           (''growthRate'', JNumber ''0''),
           (''demandLevel'', JString ''Medium''),
           (''topSkills'', JArray []),
           (''marketOutlook'', JString ''Neutral''),
           (''keyTrends'', JArray []),
           (''recommendedSkills'', JArray [])]))"
  by (auto simp: generateAIInsights_def generateAndParse_def parseJSON_def defaultInsights_def
      split: prod.splits sum.splits option.splits)

theorem insights_never_throw_witness:
  "fst (generateWithModelFallback (examplePlatform (alwaysThrows ''[503 Service Unavailable]'' 503))
        (insightsPrompt ''finance'') (exampleWorld 0 [])) = Inl allFailed
   \<and> fst (generateAIInsights (examplePlatform (alwaysThrows ''[503 Service Unavailable]'' 503))
        ''finance'' (exampleWorld 0 [])) = Inr defaultInsights
   \<and> fst (generateWithModelFallback (examplePlatform (alwaysAnswers ''not json''))
        (insightsPrompt ''finance'') (exampleWorld 0 [])) = Inr ''not json''
   \<and> JSON_parse (cleanResponse ''not json'') = None
   \<and> fst (generateAIInsights (examplePlatform (alwaysAnswers ''not json''))
        ''finance'' (exampleWorld 0 [])) = Inr defaultInsights"
proof -
  let ?down = "examplePlatform (alwaysThrows ''[503 Service Unavailable]'' 503)"
  let ?junk = "examplePlatform (alwaysAnswers ''not json'')"
  let ?w = "exampleWorld 0 []"
  have a: "fst (generateWithModelFallback ?down (insightsPrompt ''finance'') ?w) = Inl allFailed"
    by (simp add: generateWithModelFallback_def modelsToTry_def invoke_def examplePlatform_def
        alwaysThrows_def)
  have b: "fst (generateWithModelFallback ?junk (insightsPrompt ''finance'') ?w) = Inr ''not json''"
    by (simp add: generateWithModelFallback_def modelsToTry_def invoke_def examplePlatform_def
        alwaysAnswers_def)
  have c: "JSON_parse (cleanResponse ''not json'') = None"
    by (simp add: clean_not_json json_not_json)
  from a insights_never_throw[of ?down "''finance''" ?w]
  have d: "fst (generateAIInsights ?down ''finance'' ?w) = Inr defaultInsights"
    by (simp add: defaultInsights_def)
  from b c insights_never_throw[of ?junk "''finance''" ?w]
  have e: "fst (generateAIInsights ?junk ''finance'' ?w) = Inr defaultInsights"
    by (simp add: defaultInsights_def)
  from a b c d e show ?thesis by simp
qed


section \<open>What the gateway and the generation step do to the world\<close>

lemma exampleWorld_fields:
  "trace (exampleWorld now rows) = []" "clock (exampleWorld now rows) = now"
  "jobOpportunity (exampleWorld now rows) = rows"
  by (simp_all add: exampleWorld_def)

lemma waitsOf_append: "waitsOf (a @ b) = waitsOf a @ waitsOf b"
  by (induction a rule: waitsOf.induct) auto

lemma invokedModels_append: "invokedModels (a @ b) = invokedModels a @ invokedModels b"
  by (induction a rule: invokedModels.induct) auto

lemma attemptsIn_append: "attemptsIn (a @ b) = attemptsIn a + attemptsIn b"
  by (simp add: attemptsIn_def invokedModels_append)

lemma waitsOf_invocations: "waitsOf (invocations prompt ms) = []"
  by (induction ms) (auto simp: invocations_def)

lemma invokedModels_invocations: "invokedModels (invocations prompt ms) = ms"
  by (induction ms) (auto simp: invocations_def)

lemma tryModels_world:
  "\<exists>k \<le> length ms. (ms \<noteq> [] \<longrightarrow> 1 \<le> k) \<and>
     snd (tryModels p prompt ms w) = w\<lparr>trace := trace w @ invocations prompt (take k ms)\<rparr>"
proof (induction ms arbitrary: w)
  case Nil
  then show ?case by (simp add: invocations_def)
next
  case (Cons m ms)
  let ?w1 = "w\<lparr>trace := trace w @ [Invoked m prompt]\<rparr>"
  show ?case
  proof (cases "generateContent p (trace w) m prompt")
    case (Inr answer)
    then have "snd (tryModels p prompt (m # ms) w) = w\<lparr>trace := trace w @ invocations prompt (take 1 (m # ms))\<rparr>"
      by (simp add: invoke_def invocations_def)
    then show ?thesis by (intro exI[of _ 1]) simp
  next
    case (Inl err)
    then have step: "tryModels p prompt (m # ms) w = tryModels p prompt ms ?w1"
      by (simp add: invoke_def)
    from Cons.IH[of ?w1] obtain k where k: "k \<le> length ms"
      "snd (tryModels p prompt ms ?w1) = ?w1\<lparr>trace := trace ?w1 @ invocations prompt (take k ms)\<rparr>"
      by blast
    have "snd (tryModels p prompt (m # ms) w) =
        w\<lparr>trace := trace w @ invocations prompt (take (Suc k) (m # ms))\<rparr>"
      using k(2) unfolding step by (simp add: invocations_def)
    with k(1) show ?thesis by (intro exI[of _ "Suc k"]) simp
  qed
qed

lemma attemptsIn_gateway: "1 \<le> k \<Longrightarrow> attemptsIn (invocations prompt (take k modelsToTry)) = 1"
proof -
  assume "1 \<le> k"
  then obtain j where "k = Suc j" by (cases k) auto
  then show ?thesis
    by (simp add: attemptsIn_def invokedModels_invocations modelsToTry_def take_Cons')
qed

lemma gateway_world:
  "\<exists>es. snd (generateWithModelFallback p prompt w) = w\<lparr>trace := trace w @ es\<rparr> \<and>
        attemptsIn es = 1 \<and> waitsOf es = []"
proof -
  from tryModels_world[of modelsToTry p prompt w] obtain k where
    "1 \<le> k" "snd (tryModels p prompt modelsToTry w) = w\<lparr>trace := trace w @ invocations prompt (take k modelsToTry)\<rparr>"
    by (auto simp: modelsToTry_def)
  then show ?thesis
    by (auto simp: generateWithModelFallback_def attemptsIn_gateway waitsOf_invocations)
qed

lemma generateAndParse_world:
  "\<exists>es. snd (generateAndParse p prompt w) = w\<lparr>trace := trace w @ es\<rparr> \<and>
        attemptsIn es = 1 \<and> waitsOf es = []"
  using gateway_world[of p prompt w]
  by (auto simp: generateAndParse_def split: prod.splits sum.splits)


lemma upt_waits: "1 \<le> a \<Longrightarrow> f n # map f [Suc n ..< Suc n + a - 1] = map f [n ..< n + (1 + a) - 1]"
  by (simp add: upt_conv_Cons)

lemma retryLoop_world:
  "\<exists>es. snd (retryLoop p prompt n w) =
          w\<lparr>trace := trace w @ es, clock := clock w + int (sum_list (waitsOf es))\<rparr> \<and>
        (if n \<le> maxRetries
         then 1 \<le> attemptsIn es \<and> attemptsIn es \<le> maxRetries + 1 - n \<and>
              waitsOf es = map (\<lambda>i. 2 ^ i * 1000) [n ..< n + attemptsIn es - 1]
         else es = [])"
proof (induction p prompt n w rule: retryLoop.induct)
  case (1 p prompt attempt w)
  show ?case
  proof (cases "attempt \<le> maxRetries")
    case False
    then show ?thesis
      by (subst retryLoop.simps) simp
  next
    case le: True
    obtain r w1 where gp: "generateAndParse p prompt w = (r, w1)"
      by (cases "generateAndParse p prompt w") auto
    from generateAndParse_world[of p prompt w] gp obtain g where
      g: "w1 = w\<lparr>trace := trace w @ g\<rparr>" "attemptsIn g = 1" "waitsOf g = []"
      by auto
    have base: "w1 = w\<lparr>trace := trace w @ g, clock := clock w + int (sum_list (waitsOf g))\<rparr>"
      using g by simp
    show ?thesis
    proof (cases r)
      case (Inr v)
      then have "retryLoop p prompt attempt w = (Some v, w1)"
        using le gp by (subst retryLoop.simps) simp
      with base g le show ?thesis
        by (intro exI[of _ g]) simp
    next
      case (Inl err)
      show ?thesis
      proof (cases "str_includes (message err) ''503'' \<and> attempt < maxRetries")
        case False
        then have "retryLoop p prompt attempt w = (None, w1)"
          using le gp Inl by (subst retryLoop.simps) auto
        with base g le show ?thesis
          by (intro exI[of _ g]) simp
      next
        case True
        let ?d = "2 ^ attempt * 1000 :: nat"
        let ?w2 = "sleep ?d w1"
        have step: "retryLoop p prompt attempt w = retryLoop p prompt (attempt + 1) ?w2"
          using le gp Inl True by (subst retryLoop.simps) simp
        from "1.IH"[OF le gp[symmetric] Inl True] True obtain es where
          es: "snd (retryLoop p prompt (attempt + 1) ?w2) =
                 ?w2\<lparr>trace := trace ?w2 @ es, clock := clock ?w2 + int (sum_list (waitsOf es))\<rparr>"
              "1 \<le> attemptsIn es" "attemptsIn es \<le> maxRetries + 1 - (attempt + 1)"
              "waitsOf es = map (\<lambda>i. 2 ^ i * 1000) [attempt + 1 ..< attempt + 1 + attemptsIn es - 1]"
          by auto
        let ?all = "g @ Waited ?d # es"
        have w: "snd (retryLoop p prompt attempt w) =
                 w\<lparr>trace := trace w @ ?all, clock := clock w + int (sum_list (waitsOf ?all))\<rparr>"
          unfolding step es(1) using g by (simp add: sleep_def waitsOf_append)
        have a: "attemptsIn ?all = 1 + attemptsIn es"
          using g by (simp add: attemptsIn_append) (simp add: attemptsIn_def)
        have ws: "waitsOf ?all = map (\<lambda>i. 2 ^ i * 1000) [attempt ..< attempt + attemptsIn ?all - 1]"
          unfolding a using g es(2,4) upt_waits[of "attemptsIn es" "\<lambda>i. 2 ^ i * 1000" attempt]
          by (simp add: waitsOf_append)
        from w a ws es(2,3) le show ?thesis
          by (intro exI[of _ ?all]) simp
      qed
    qed
  qed
qed


lemma fetchFromJobFeeds_world:
  "snd (fetchFromJobFeeds p ind w) = w\<lparr>trace := trace w @ [Fetched remoteOkUrl]\<rparr>"
  by (simp add: fetchFromJobFeeds_def Let_def split: option.splits js_value.splits)

lemma fetchRealTimeJobs_world:
  "snd (fetchRealTimeJobs p ind w) = w\<lparr>trace := trace w @ [Fetched remoteOkUrl]\<rparr>"
  using fetchFromJobFeeds_world[of p ind w]
  by (cases "fetchFromJobFeeds p ind w")
     (simp add: fetchRealTimeJobs_def fetchFromJobAPIs_def scrapeJobSites_def Let_def
      split: lookup.splits option.splits)

lemma getRealJobOpportunities_world:
  "snd (getRealJobOpportunities p ind w) = w\<lparr>trace := trace w @ [Fetched remoteOkUrl]\<rparr>"
  using fetchRealTimeJobs_world[of p ind w]
  by (cases "fetchRealTimeJobs p ind w") (simp add: getRealJobOpportunities_def)

lemma getRealJobOpportunities_object:
  "\<exists>js. fst (getRealJobOpportunities p ind w) = JObject [(''jobs'', js)]"
  by (cases "fetchRealTimeJobs p ind w")
     (simp add: getRealJobOpportunities_def getRealJobOpportunitiesWithLinks_def Let_def)

lemma realTimeJobs_nonempty: "kws \<noteq> [] \<Longrightarrow> \<exists>js. realTimeJobs kws ind d = Some js \<and> length js = 5"
  by (cases kws) (simp_all add: realTimeJobs_def Let_def)

lemma industryKeywords_nonempty: "map_of industryKeywords ind = Some kws \<Longrightarrow> kws \<noteq> []"
  by (auto simp: industryKeywords_def split: if_splits)

lemma fetchRealTimeJobs_nonempty:
  assumes "ind \<notin> set objectPrototypeKeys"
  shows "fst (fetchRealTimeJobs p ind w) \<noteq> []"
proof -
  obtain feed w1 where f: "fetchFromJobFeeds p ind w = (feed, w1)"
    by (cases "fetchFromJobFeeds p ind w") auto
  show ?thesis
  proof (cases "feed = []")
    case False
    with f show ?thesis
      by (simp add: fetchRealTimeJobs_def fetchFromJobAPIs_def scrapeJobSites_def Let_def)
  next
    case True
    show ?thesis
    proof (cases "map_of industryKeywords ind")
      case None
      with assms have "lookupKey industryKeywords ind = Absent"
        by (simp add: lookupKey_def)
      moreover obtain js where "realTimeJobs defaultKeywords ind (toISODate p (clock w)) = Some js" "length js = 5"
        using realTimeJobs_nonempty[of defaultKeywords] by (auto simp: defaultKeywords_def)
      ultimately show ?thesis
        using f True
        by (auto simp: fetchRealTimeJobs_def fetchFromJobAPIs_def scrapeJobSites_def Let_def)
    next
      case (Some kws)
      then have "lookupKey industryKeywords ind = Own kws"
        by (simp add: lookupKey_def)
      moreover obtain js where "realTimeJobs kws ind (toISODate p (clock w)) = Some js" "length js = 5"
        using realTimeJobs_nonempty[OF industryKeywords_nonempty[OF Some]] by blast
      ultimately show ?thesis
        using f True
        by (auto simp: fetchRealTimeJobs_def fetchFromJobAPIs_def scrapeJobSites_def Let_def)
    qed
  qed
qed

lemma getRealJobOpportunities_nonempty:
  assumes "ind \<notin> set objectPrototypeKeys"
  shows "\<exists>entries. fst (getRealJobOpportunities p ind w) = JObject [(''jobs'', JArray entries)] \<and> entries \<noteq> []"
  using fetchRealTimeJobs_nonempty[OF assms, of p w]
  by (cases "fetchRealTimeJobs p ind w") (simp add: getRealJobOpportunities_def)

lemma generateJobOpportunities_world:
  "\<exists>es. snd (generateJobOpportunities p ind w) =
          w\<lparr>trace := trace w @ es, clock := clock w + int (sum_list (waitsOf es))\<rparr> \<and>
        1 \<le> attemptsIn es \<and> attemptsIn es \<le> 3 \<and>
        waitsOf es = map (\<lambda>n. 2 ^ n * 1000) [1 ..< attemptsIn es]"
proof -
  let ?prompt = "jobsPrompt ind (fullYear p (clock w)) (toISODate p (clock w))"
  obtain r w1 where rl: "retryLoop p ?prompt 1 w = (r, w1)"
    by (cases "retryLoop p ?prompt 1 w") auto
  from retryLoop_world[of p ?prompt 1 w] rl obtain es where
    es: "w1 = w\<lparr>trace := trace w @ es, clock := clock w + int (sum_list (waitsOf es))\<rparr>"
        "1 \<le> attemptsIn es" "attemptsIn es \<le> 3"
        "waitsOf es = map (\<lambda>i. 2 ^ i * 1000) [1 ..< attemptsIn es]"
    by (auto simp: maxRetries_def)
  show ?thesis
  proof (cases r)
    case (Some v)
    with rl es show ?thesis
      by (intro exI[of _ es]) (simp add: generateJobOpportunities_def Let_def)
  next
    case None
    have "snd (generateJobOpportunities p ind w) = w1\<lparr>trace := trace w1 @ [Fetched remoteOkUrl]\<rparr>"
      using rl None getRealJobOpportunities_world[of p ind w1]
      by (simp add: generateJobOpportunities_def Let_def)
    with es show ?thesis
      by (intro exI[of _ "es @ [Fetched remoteOkUrl]"])
         (simp add: waitsOf_append attemptsIn_append, simp add: attemptsIn_def)
  qed
qed



section \<open>Example runs of the gateway and of an attempt\<close>


lemma gateway_throws:
  "generateWithModelFallback (examplePlatform (alwaysThrows m s)) prompt w =
     (Inl allFailed, w\<lparr>trace := trace w @ invocations prompt modelsToTry\<rparr>)"
  by (simp add: generateWithModelFallback_def modelsToTry_def invoke_def examplePlatform_def
      alwaysThrows_def invocations_def)



lemma attempt_down:
  "generateAndParse (examplePlatform (alwaysThrows m s)) prompt w =
     (Inl allFailed, w\<lparr>trace := trace w @ invocations prompt modelsToTry\<rparr>)"
  by (simp add: generateAndParse_def gateway_throws)

lemma gateway_answers_plain:
  "generateWithModelFallback (examplePlatform (alwaysAnswers t)) prompt w =
     (Inr t, w\<lparr>trace := trace w @ [Invoked ''gemini-1.5-flash'' prompt]\<rparr>)"
  by (simp add: generateWithModelFallback_def modelsToTry_def invoke_def examplePlatform_def
      alwaysAnswers_def)

lemma attempt_answers:
  "generateAndParse (examplePlatform (alwaysAnswers t)) prompt w =
     (parseJSON (examplePlatform (alwaysAnswers t)) (cleanResponse t),
      w\<lparr>trace := trace w @ [Invoked ''gemini-1.5-flash'' prompt]\<rparr>)"
  by (simp add: generateAndParse_def gateway_answers_plain)

lemma clean_jobs_empty: \<open>cleanResponse ''{"jobs":[]}'' = ''{"jobs":[]}''\<close>
  by (simp add: cleanResponse_def fence_def trim_eval)




section \<open>What a refresh does to the table\<close>

lemma deactivate_fields:
  "trace (deactivate ind w) = trace w" "clock (deactivate ind w) = clock w"
  "length (jobOpportunity (deactivate ind w)) = length (jobOpportunity w)"
  by (simp_all add: deactivate_def)

lemma deactivate_rows:
  "activeRows ind (map (\<lambda>r. if industry r = ind \<and> isActive r
                   then r\<lparr>isActive := False, updatedAt := t\<rparr> else r) rows) = []"
  by (induction rows) (simp_all add: activeRows_def)

lemma deactivate_active: "activeRows ind (jobOpportunity (deactivate ind w)) = []"
  by (simp add: deactivate_def deactivate_rows)

lemma activeRows_append: "activeRows ind (a @ b) = activeRows ind a @ activeRows ind b"
  by (simp add: activeRows_def)

lemma activeRows_all: "\<forall>r \<in> set rows. industry r = ind \<and> isActive r \<Longrightarrow> activeRows ind rows = rows"
  by (simp add: activeRows_def)

lemma jobData_industry: "jobData p ind job = Some d \<Longrightarrow> industry d = ind"
  by (auto simp: jobData_def split: if_splits option.splits prod.splits)

lemma createJob_creatable:
  assumes "creatable p ind job"
  shows "\<exists>r. createJob p ind job w = Some (w\<lparr>jobOpportunity := jobOpportunity w @ [r]\<rparr>) \<and>
             industry r = ind \<and> isActive r \<and> createdAt r = clock w"
proof -
  from assms obtain d where d: "jobData p ind job = Some d" "\<not> createRejects p d"
    by (auto simp: creatable_def split: option.splits)
  let ?r = "job_data.extend d \<lparr> rid = length (jobOpportunity w), isActive = True,
                      createdAt = clock w, updatedAt = clock w \<rparr>"
  have "industry ?r = ind"
    using jobData_industry[OF d(1)] by (simp add: job_data.defs)
  moreover have "isActive ?r" "createdAt ?r = clock w"
    by (simp_all add: job_data.defs)
  moreover have "createJob p ind job w = Some (w\<lparr>jobOpportunity := jobOpportunity w @ [?r]\<rparr>)"
    using d by (simp add: createJob_def)
  ultimately show ?thesis by blast
qed

lemma createJob_not_creatable: "\<not> creatable p ind job \<Longrightarrow> createJob p ind job w = None"
  by (auto simp: creatable_def createJob_def split: option.splits)

lemma createJobs_rows:
  "\<exists>news. createJobs p ind es w = w\<lparr>jobOpportunity := jobOpportunity w @ news\<rparr> \<and>
          length news = length (filter (creatable p ind) es) \<and>
          (\<forall>r \<in> set news. industry r = ind \<and> isActive r)"
proof (induction es arbitrary: w)
  case Nil
  then show ?case by simp
next
  case (Cons e es)
  show ?case
  proof (cases "creatable p ind e")
    case False
    then have "createJobs p ind (e # es) w = createJobs p ind es w"
      by (simp add: createJob_not_creatable)
    with Cons.IH[of w] False show ?thesis by simp
  next
    case True
    from createJob_creatable[OF True, of w] obtain r where
      r: "createJob p ind e w = Some (w\<lparr>jobOpportunity := jobOpportunity w @ [r]\<rparr>)"
         "industry r = ind" "isActive r"
      by blast
    let ?w1 = "w\<lparr>jobOpportunity := jobOpportunity w @ [r]\<rparr>"
    from Cons.IH[of ?w1] obtain news where
      n: "createJobs p ind es ?w1 = ?w1\<lparr>jobOpportunity := jobOpportunity ?w1 @ news\<rparr>"
         "length news = length (filter (creatable p ind) es)"
         "\<forall>r \<in> set news. industry r = ind \<and> isActive r"
      by blast
    have "createJobs p ind (e # es) w = w\<lparr>jobOpportunity := jobOpportunity w @ (r # news)\<rparr>"
      using r(1) n(1) by simp
    with n(2,3) r(2,3) True show ?thesis
      by (intro exI[of _ "r # news"]) simp
  qed
qed

lemma createJobsStrict_rows:
  "\<exists>news. snd (createJobsStrict p ind es w) = w\<lparr>jobOpportunity := jobOpportunity w @ news\<rparr> \<and>
          length news = length (takeWhile (creatable p ind) es) \<and>
          (\<forall>r \<in> set news. industry r = ind \<and> isActive r)"
proof (induction es arbitrary: w)
  case Nil
  then show ?case by simp
next
  case (Cons e es)
  show ?case
  proof (cases "creatable p ind e")
    case False
    then have "createJobsStrict p ind (e # es) w = (False, w)"
      by (simp add: createJob_not_creatable)
    with False show ?thesis by simp
  next
    case True
    from createJob_creatable[OF True, of w] obtain r where
      r: "createJob p ind e w = Some (w\<lparr>jobOpportunity := jobOpportunity w @ [r]\<rparr>)"
         "industry r = ind" "isActive r"
      by blast
    let ?w1 = "w\<lparr>jobOpportunity := jobOpportunity w @ [r]\<rparr>"
    from Cons.IH[of ?w1] obtain news where
      n: "snd (createJobsStrict p ind es ?w1) = ?w1\<lparr>jobOpportunity := jobOpportunity ?w1 @ news\<rparr>"
         "length news = length (takeWhile (creatable p ind) es)"
         "\<forall>r \<in> set news. industry r = ind \<and> isActive r"
      by blast
    have "snd (createJobsStrict p ind (e # es) w) = w\<lparr>jobOpportunity := jobOpportunity w @ (r # news)\<rparr>"
      using r(1) n(1) by simp
    with n(2,3) r(2,3) True show ?thesis
      by (intro exI[of _ "r # news"]) simp
  qed
qed


lemma created_active:
  assumes "activeRows ind (jobOpportunity w) = []"
  shows "length (activeRows ind (jobOpportunity (createJobs p ind es w))) = length (filter (creatable p ind) es)"
    and "length (activeRows ind (jobOpportunity (snd (createJobsStrict p ind es w)))) =
         length (takeWhile (creatable p ind) es)"
proof -
  from createJobs_rows[of p ind es w] obtain news where
    n: "createJobs p ind es w = w\<lparr>jobOpportunity := jobOpportunity w @ news\<rparr>"
       "length news = length (filter (creatable p ind) es)"
       "\<forall>r \<in> set news. industry r = ind \<and> isActive r"
    by blast
  show "length (activeRows ind (jobOpportunity (createJobs p ind es w))) = length (filter (creatable p ind) es)"
    unfolding n(1) using activeRows_all[OF n(3)] assms n(2)
    by (simp add: activeRows_append)
  from createJobsStrict_rows[of p ind es w] obtain news' where
    m: "snd (createJobsStrict p ind es w) = w\<lparr>jobOpportunity := jobOpportunity w @ news'\<rparr>"
       "length news' = length (takeWhile (creatable p ind) es)"
       "\<forall>r \<in> set news'. industry r = ind \<and> isActive r"
    by blast
  show "length (activeRows ind (jobOpportunity (snd (createJobsStrict p ind es w)))) =
         length (takeWhile (creatable p ind) es)"
    unfolding m(1) using activeRows_all[OF m(3)] assms m(2)
    by (simp add: activeRows_append)
qed

lemma created_table:
  "\<exists>news. jobOpportunity (createJobs p ind es w) = jobOpportunity w @ news \<and>
          length news = length (filter (creatable p ind) es) \<and>
          activeRows ind news = news"
proof -
  from createJobs_rows[of p ind es w] obtain news where
    n: "createJobs p ind es w = w\<lparr>jobOpportunity := jobOpportunity w @ news\<rparr>"
       "length news = length (filter (creatable p ind) es)"
       "\<forall>r \<in> set news. industry r = ind \<and> isActive r"
    by blast
  then show ?thesis
    using activeRows_all[OF n(3)] by (intro exI[of _ news]) simp
qed

lemma all_active:
  assumes "activeRows ind news = news"
  shows "map isActive news = replicate (length news) True"
proof -
  from assms have "\<forall>r \<in> set news. isActive r"
    by (simp add: activeRows_def filter_id_conv)
  then show ?thesis
    by (induction news) auto
qed

lemma findMany_length: "length (findMany ind w) = min 20 (length (activeRows ind (jobOpportunity w)))"
  by (simp add: findMany_def min.commute)

lemma findMany_Nil_iff: "findMany ind w = [] \<longleftrightarrow> activeRows ind (jobOpportunity w) = []"
  by (simp add: findMany_def sort_key_Nil_iff)

lemma generateJobOpportunities_table:
  "jobOpportunity (snd (generateJobOpportunities p ind w)) = jobOpportunity w"
  using generateJobOpportunities_world[of p ind w] by auto

lemma gateway_table:
  "jobOpportunity (snd (generateWithModelFallback p prompt w)) = jobOpportunity w"
  using gateway_world[of p prompt w] by auto

lemma retryLoop_table:
  "jobOpportunity (snd (retryLoop p prompt n w)) = jobOpportunity w"
  using retryLoop_world[of p prompt n w] by auto

lemma getRealJobOpportunities_table:
  "jobOpportunity (snd (getRealJobOpportunities p ind w)) = jobOpportunity w"
  by (simp add: getRealJobOpportunities_world)

text \<open>The world and the result a refreshing read leaves.\<close>

lemma read_refresh:
  assumes auth: "authUserId p = Some u" "u \<noteq> []"
    and due: "shouldFetchNew (clock w) (findMany ind w)"
    and gen: "generateJobOpportunities p ind w = (jobs, w1)"
  shows "snd (getJobOpportunities p ind w) = createJobs p ind (entriesOf jobs) (deactivate ind w1)"
    and "fst (getJobOpportunities p ind w) =
           (if jobs = JNull then Inr (findMany ind w)
            else Inr (findMany ind (createJobs p ind (entriesOf jobs) (deactivate ind w1))))"
  using auth due gen
  by (auto simp: getJobOpportunities_def entriesOf_def Let_def split: option.splits)

lemma failed_generation:
  assumes "retryLoop p (jobsPrompt ind (fullYear p (clock w)) (toISODate p (clock w))) 1 w = (None, w1)"
  shows "generateJobOpportunities p ind w = getRealJobOpportunities p ind w1"
  using assms by (simp add: generateJobOpportunities_def Let_def)

lemma fallback_read:
  assumes auth: "authUserId p = Some u" "u \<noteq> []"
    and due: "shouldFetchNew (clock w) (findMany ind w)"
    and failed: "retryLoop p (jobsPrompt ind (fullYear p (clock w)) (toISODate p (clock w))) 1 w = (None, w1)"
    and real: "getRealJobOpportunities p ind w1 = (jobs, w2)"
  shows "snd (getJobOpportunities p ind w) = createJobs p ind (entriesOf jobs) (deactivate ind w2)"
    and "fst (getJobOpportunities p ind w) =
           Inr (findMany ind (createJobs p ind (entriesOf jobs) (deactivate ind w2)))"
proof -
  have gen: "generateJobOpportunities p ind w = (jobs, w2)"
    using failed_generation[OF failed] real by simp
  show "snd (getJobOpportunities p ind w) = createJobs p ind (entriesOf jobs) (deactivate ind w2)"
    by (rule read_refresh(1)[OF auth due gen])
  have "jobs \<noteq> JNull"
    using getRealJobOpportunities_object[of p ind w1] real by auto
  then show "fst (getJobOpportunities p ind w) =
           Inr (findMany ind (createJobs p ind (entriesOf jobs) (deactivate ind w2)))"
    using read_refresh(2)[OF auth due gen] by simp
qed

lemma retry_down:
  "retryLoop (examplePlatform (alwaysThrows m s)) prompt 1 w =
     (None, w\<lparr>trace := trace w @ invocations prompt modelsToTry\<rparr>)"
  by (subst retryLoop.simps) (simp add: attempt_down maxRetries_def allFailed_def startsWith_def)

lemma fallback_without_feed:
  assumes "fetchJson p (trace w) remoteOkUrl = None"
    and "map_of industryKeywords ind = Some kws"
  shows "\<exists>js. realTimeJobs kws ind (toISODate p (clock w)) = Some js \<and> length js = 5 \<and>
           getRealJobOpportunities p ind w =
             (JObject [(''jobs'', JArray js)], w\<lparr>trace := trace w @ [Fetched remoteOkUrl]\<rparr>)"
proof -
  from realTimeJobs_nonempty[OF industryKeywords_nonempty[OF assms(2)], of ind "toISODate p (clock w)"]
  obtain js where js: "realTimeJobs kws ind (toISODate p (clock w)) = Some js" "length js = 5"
    by blast
  have feed: "fetchFromJobFeeds p ind w = ([], w\<lparr>trace := trace w @ [Fetched remoteOkUrl]\<rparr>)"
    using assms(1) by (simp add: fetchFromJobFeeds_def Let_def)
  have "lookupKey industryKeywords ind = Own kws"
    using assms(2) by (simp add: lookupKey_def)
  then have "fetchRealTimeJobs p ind w = (js, w\<lparr>trace := trace w @ [Fetched remoteOkUrl]\<rparr>)"
    using feed js(1)
    by (simp add: fetchRealTimeJobs_def fetchFromJobAPIs_def scrapeJobSites_def Let_def)
  moreover have "js \<noteq> []" using js(2) by auto
  ultimately have "getRealJobOpportunities p ind w =
             (JObject [(''jobs'', JArray js)], w\<lparr>trace := trace w @ [Fetched remoteOkUrl]\<rparr>)"
    by (simp add: getRealJobOpportunities_def)
  with js show ?thesis by blast
qed

lemma realTimeJobs_creatable:
  assumes "realTimeJobs kws ind d = Some js"
    and "newDate p (Some (JString d)) = Some t"
    and "\<forall>x. \<not> createRejects p x"
  shows "filter (creatable p ind') js = js"
proof -
  from assms(1) obtain k0 ks where "kws = k0 # ks"
    by (cases kws) (auto simp: realTimeJobs_def)
  with assms show ?thesis
    by (auto simp: realTimeJobs_def Let_def creatable_def jobData_def truthyOpt_def)
qed

lemma entriesOf_jobs: "entriesOf (JObject [(''jobs'', JArray js)]) = js"
  by (simp add: entriesOf_def jobsArray_def)

lemma finance_keywords:
  "map_of industryKeywords ''finance'' = Some [''finance'', ''banking'', ''fintech'', ''investment'']"
  by (simp add: industryKeywords_def)

lemma examplePlatform_fields:
  "authUserId (examplePlatform c) = Some ''user_1''"
  "fetchJson (examplePlatform c) tr u = None"
  "toISODate (examplePlatform c) t = ''2025-01-20''"
  "fullYear (examplePlatform c) t = ''2025''"
  "newDate (examplePlatform c) (Some (JString ''2025-01-20'')) = Some (20108 * day)"
  "createRejects (examplePlatform c) d = False"
  "generateContent (examplePlatform c) = c"
  by (simp_all add: examplePlatform_def)

text \<open>A read of the example platform with the capability down, when a refresh is due.\<close>

lemma down_read:
  fixes w :: world
  defines "p \<equiv> examplePlatform (alwaysThrows ''[503 Service Unavailable]'' 503)"
  assumes due: "shouldFetchNew (clock w) (findMany ''finance'' w)"
  shows "\<exists>rows. fst (getJobOpportunities p ''finance'' w) = Inr rows \<and> length rows = 5"
    and "map isActive (jobOpportunity (snd (getJobOpportunities p ''finance'' w))) =
           map isActive (jobOpportunity (deactivate ''finance'' w)) @ replicate 5 True"
    and "length (activeRows ''finance'' (jobOpportunity (snd (getJobOpportunities p ''finance'' w)))) = 5"
proof -
  let ?prompt = "jobsPrompt ''finance'' (fullYear p (clock w)) (toISODate p (clock w))"
  let ?w1 = "w\<lparr>trace := trace w @ invocations ?prompt modelsToTry\<rparr>"
  let ?w2 = "?w1\<lparr>trace := trace ?w1 @ [Fetched remoteOkUrl]\<rparr>"
  have failed: "retryLoop p ?prompt 1 w = (None, ?w1)"
    unfolding p_def by (rule retry_down)
  from fallback_without_feed[of p ?w1 "''finance''", OF _ finance_keywords]
  obtain js where js: "realTimeJobs [''finance'', ''banking'', ''fintech'', ''investment''] ''finance'' ''2025-01-20'' = Some js"
      "length js = 5" "getRealJobOpportunities p ''finance'' ?w1 = (JObject [(''jobs'', JArray js)], ?w2)"
    by (auto simp: p_def examplePlatform_fields)
  have cr: "filter (creatable p ''finance'') js = js"
    by (rule realTimeJobs_creatable[OF js(1)]) (simp_all add: p_def examplePlatform_fields)
  have auth: "authUserId p = Some ''user_1''" "''user_1'' \<noteq> []"
    by (simp_all add: p_def examplePlatform_fields)
  let ?w3 = "createJobs p ''finance'' js (deactivate ''finance'' ?w2)"
  have world: "snd (getJobOpportunities p ''finance'' w) = ?w3"
    using fallback_read(1)[OF auth due failed js(3)] by (simp add: entriesOf_jobs)
  have result: "fst (getJobOpportunities p ''finance'' w) = Inr (findMany ''finance'' ?w3)"
    using fallback_read(2)[OF auth due failed js(3)] by (simp add: entriesOf_jobs)
  have act: "length (activeRows ''finance'' (jobOpportunity ?w3)) = 5"
    using created_active(1)[where p=p and ind="''finance''" and es=js and w="deactivate ''finance'' ?w2",
        OF deactivate_active] cr js(2) by simp
  have same: "jobOpportunity (deactivate ''finance'' ?w2) = jobOpportunity (deactivate ''finance'' w)"
    by (simp add: deactivate_def)
  from created_table[of p "''finance''" js "deactivate ''finance'' ?w2"] cr js(2)
  obtain news where news: "jobOpportunity ?w3 = jobOpportunity (deactivate ''finance'' w) @ news"
      "length news = 5" "activeRows ''finance'' news = news"
    unfolding same by auto
  have tab: "map isActive (jobOpportunity ?w3) =
               map isActive (jobOpportunity (deactivate ''finance'' w)) @ replicate 5 True"
    unfolding news(1) using all_active[OF news(3)] news(2) by simp
  show "\<exists>rows. fst (getJobOpportunities p ''finance'' w) = Inr rows \<and> length rows = 5"
    using result act by (simp add: findMany_length)
  show "map isActive (jobOpportunity (snd (getJobOpportunities p ''finance'' w))) =
           map isActive (jobOpportunity (deactivate ''finance'' w)) @ replicate 5 True"
    unfolding world by (rule tab)
  show "length (activeRows ''finance'' (jobOpportunity (snd (getJobOpportunities p ''finance'' w)))) = 5"
    unfolding world by (rule act)
qed


lemma down_generate:
  "\<exists>js. realTimeJobs [''finance'', ''banking'', ''fintech'', ''investment''] ''finance'' ''2025-01-20'' = Some js \<and>
        length js = 5 \<and>
        generateJobOpportunities (examplePlatform (alwaysThrows m s)) ''finance'' w =
          (JObject [(''jobs'', JArray js)],
           w\<lparr>trace := trace w @ invocations (jobsPrompt ''finance'' ''2025'' ''2025-01-20'') modelsToTry @
                    [Fetched remoteOkUrl]\<rparr>)"
proof -
  let ?p = "examplePlatform (alwaysThrows m s)"
  let ?prompt = "jobsPrompt ''finance'' (fullYear ?p (clock w)) (toISODate ?p (clock w))"
  let ?w1 = "w\<lparr>trace := trace w @ invocations ?prompt modelsToTry\<rparr>"
  from fallback_without_feed[of ?p ?w1 "''finance''", OF _ finance_keywords]
  obtain js where js: "realTimeJobs [''finance'', ''banking'', ''fintech'', ''investment''] ''finance'' ''2025-01-20'' = Some js"
      "length js = 5"
      "getRealJobOpportunities ?p ''finance'' ?w1 =
         (JObject [(''jobs'', JArray js)], ?w1\<lparr>trace := trace ?w1 @ [Fetched remoteOkUrl]\<rparr>)"
    by (auto simp: examplePlatform_fields)
  have "generateJobOpportunities ?p ''finance'' w = getRealJobOpportunities ?p ''finance'' ?w1"
    by (rule failed_generation[OF retry_down])
  with js show ?thesis
    by (auto simp: examplePlatform_fields)
qed

lemma stale_example:
  "findMany ''finance'' (exampleWorld (4 * day) [exampleRow 0 ''finance'' 0 0]) = [exampleRow 0 ''finance'' 0 0]"
  "activeRows ''finance'' (jobOpportunity (exampleWorld (4 * day) [exampleRow 0 ''finance'' 0 0])) = [exampleRow 0 ''finance'' 0 0]"
  "shouldFetchNew (clock (exampleWorld (4 * day) [exampleRow 0 ''finance'' 0 0]))
     (findMany ''finance'' (exampleWorld (4 * day) [exampleRow 0 ''finance'' 0 0]))"
  by (simp_all add: findMany_def activeRows_def exampleWorld_def exampleRow_def shouldFetchNew_def
      ttlJobs_def day_def)

lemma cold_example:
  "activeRows ''finance'' (jobOpportunity (exampleWorld (20108 * day) [])) = []"
  "shouldFetchNew (clock (exampleWorld (20108 * day) [])) (findMany ''finance'' (exampleWorld (20108 * day) []))"
  by (simp_all add: findMany_def activeRows_def exampleWorld_def shouldFetchNew_def)

lemma stale_deactivated:
  "map isActive (jobOpportunity (deactivate ''finance'' (exampleWorld (4 * day) [exampleRow 0 ''finance'' 0 0]))) =
     [False]"
  by (simp add: deactivate_def exampleWorld_def exampleRow_def)



section \<open>The retry policy of the generation step\<close>





section \<open>Rate limits\<close>

text \<open>
  Claim C4 against the code: when every candidate is rate limited (status 429), the
  gateway of the job and insight pipeline invokes the four models one after the other and
  throws; its trace holds no wait. The copy of the cover-letter actions, on the same
  input, waits 2000 ms after each of the four.
\<close>

theorem dashboard_gateway_no_backoff:
  "generateWithModelFallback (examplePlatform (alwaysThrows ''[429 Too Many Requests]'' 429)) ''prompt'' (exampleWorld 0 []) =
     (Inl allFailed,
      (exampleWorld 0 [])\<lparr>trace := [Invoked ''gemini-1.5-flash'' ''prompt'', Invoked ''gemini-1.5-pro'' ''prompt'',
                                   Invoked ''gemini-pro'' ''prompt'', Invoked ''gemini-2.0-flash-exp'' ''prompt'']\<rparr>)
   \<and> waitsOf (trace (snd (generateWithModelFallback (examplePlatform (alwaysThrows ''[429 Too Many Requests]'' 429))
         ''prompt'' (exampleWorld 0 [])))) = []
   \<and> waitsOf (trace (snd (coverLetterGenerateWithModelFallback (examplePlatform (alwaysThrows ''[429 Too Many Requests]'' 429))
         ''prompt'' (exampleWorld 0 [])))) = [2000, 2000, 2000, 2000]"
proof -
  let ?p = "examplePlatform (alwaysThrows ''[429 Too Many Requests]'' 429)"
  let ?w = "exampleWorld 0 []"
  have a: "generateWithModelFallback ?p ''prompt'' ?w =
     (Inl allFailed,
      ?w\<lparr>trace := [Invoked ''gemini-1.5-flash'' ''prompt'', Invoked ''gemini-1.5-pro'' ''prompt'',
                   Invoked ''gemini-pro'' ''prompt'', Invoked ''gemini-2.0-flash-exp'' ''prompt'']\<rparr>)"
    by (simp add: gateway_throws exampleWorld_fields invocations_def modelsToTry_def)
  have b: "waitsOf (trace (snd (generateWithModelFallback ?p ''prompt'' ?w))) = []"
    unfolding a by simp
  have c: "waitsOf (trace (snd (coverLetterGenerateWithModelFallback ?p ''prompt'' ?w))) = [2000, 2000, 2000, 2000]"
    by (simp add: coverLetterGenerateWithModelFallback_def modelsToTry_def invoke_def
        examplePlatform_def alwaysThrows_def startsWith_def sleep_def exampleWorld_fields)
  from a b c show ?thesis by (intro conjI)
qed

text \<open>
  The gateway of the cover-letter actions does what the claim says: when every candidate
  in its turn fails as rate limited (and not as not found), it waits 2000 ms after each,
  never asks a candidate twice, and then throws.
\<close>

theorem coverLetter_gateway_backoff:
  assumes "\<forall>k < length ms. \<exists>e. generateContent p (trace w @ waitedInvocations prompt (take k ms)) (ms ! k) prompt = Inl e
             \<and> \<not> notFound e \<and> rateLimited e"
  shows "coverLetterTryModels p prompt ms w =
         (Inl allFailed, w\<lparr>trace := trace w @ waitedInvocations prompt ms,
                            clock := clock w + 2000 * int (length ms)\<rparr>)"
  using assms
proof (induction ms arbitrary: w)
  case Nil
  then show ?case by (simp add: waitedInvocations_def)
next
  case (Cons m ms)
  from Cons.prems[rule_format, of 0] obtain e where
    e: "generateContent p (trace w) m prompt = Inl e" "\<not> notFound e" "rateLimited e"
    by (auto simp: waitedInvocations_def)
  let ?w1 = "w\<lparr>trace := trace w @ [Invoked m prompt, Waited 2000], clock := clock w + 2000\<rparr>"
  have step: "coverLetterTryModels p prompt (m # ms) w = coverLetterTryModels p prompt ms ?w1"
    using e by (simp add: invoke_def notFound_def rateLimited_def sleep_def)
  have "\<forall>k < length ms. \<exists>e. generateContent p (trace ?w1 @ waitedInvocations prompt (take k ms)) (ms ! k) prompt = Inl e
             \<and> \<not> notFound e \<and> rateLimited e"
  proof (intro allI impI)
    fix k assume "k < length ms"
    then have "Suc k < length (m # ms)" by simp
    from Cons.prems[rule_format, OF this] show
      "\<exists>e. generateContent p (trace ?w1 @ waitedInvocations prompt (take k ms)) (ms ! k) prompt = Inl e
             \<and> \<not> notFound e \<and> rateLimited e"
      by (simp add: waitedInvocations_def)
  qed
  from Cons.IH[OF this]
  have "coverLetterTryModels p prompt ms ?w1 =
        (Inl allFailed, w\<lparr>trace := trace w @ waitedInvocations prompt (m # ms),
                            clock := clock w + 2000 * int (length (m # ms))\<rparr>)"
    by (simp add: waitedInvocations_def algebra_simps)
  with step show ?case by (simp only:)
qed

theorem coverLetter_gateway_backoff_witness:
  "coverLetterTryModels (examplePlatform (alwaysThrows ''[429 Too Many Requests]'' 429)) ''prompt''
      [''A'', ''B'', ''C''] (exampleWorld 0 []) =
     (Inl allFailed,
      (exampleWorld 0 [])\<lparr>trace := [Invoked ''A'' ''prompt'', Waited 2000, Invoked ''B'' ''prompt'', Waited 2000,
                                   Invoked ''C'' ''prompt'', Waited 2000],
                         clock := 6000\<rparr>)"
  using coverLetter_gateway_backoff[of "[''A'', ''B'', ''C'']" "examplePlatform (alwaysThrows ''[429 Too Many Requests]'' 429)"
      "exampleWorld 0 []" "''prompt''"]
  by (simp add: examplePlatform_def alwaysThrows_def notFound_def rateLimited_def startsWith_def
      exampleWorld_fields waitedInvocations_def)


section \<open>A read whose generation fails\<close>

text \<open>
  Claim C1, as stated, fails. One finance record is stored and is four days old, so a
  refresh is due; every model rejects the request, so the gateway throws and generation
  fails. The read path does not return the stored record: it returns five records, and
  the table then holds the old record, no longer active, and five new active ones.
\<close>

theorem failed_generation_counterexample:
  "shouldFetchNew (clock (exampleWorld (4 * day) [exampleRow 0 ''finance'' 0 0]))
     (findMany ''finance'' (exampleWorld (4 * day) [exampleRow 0 ''finance'' 0 0]))
   \<and> fst (generateWithModelFallback (examplePlatform (alwaysThrows ''[503 Service Unavailable]'' 503))
        (jobsPrompt ''finance'' ''2025'' ''2025-01-20'') (exampleWorld (4 * day) [exampleRow 0 ''finance'' 0 0])) = Inl allFailed
   \<and> findMany ''finance'' (exampleWorld (4 * day) [exampleRow 0 ''finance'' 0 0]) = [exampleRow 0 ''finance'' 0 0]
   \<and> (\<exists>rows. fst (getJobOpportunities (examplePlatform (alwaysThrows ''[503 Service Unavailable]'' 503)) ''finance''
                  (exampleWorld (4 * day) [exampleRow 0 ''finance'' 0 0])) = Inr rows \<and> length rows = 5)
   \<and> map isActive (jobOpportunity (snd (getJobOpportunities (examplePlatform (alwaysThrows ''[503 Service Unavailable]'' 503))
         ''finance'' (exampleWorld (4 * day) [exampleRow 0 ''finance'' 0 0])))) =
       False # replicate 5 True"
  using stale_example(1,3) down_read(1,2)[OF stale_example(3)]
  by (simp add: gateway_throws exampleWorld_fields stale_deactivated)

text \<open>
  Claim C1, amended: for every industry, when a signed-in caller's read decides that a
  refresh is due and the generation loop ends without a value (the gateway threw, or the
  text was no JSON), the read path does not serve the stored records. It takes the
  entries that \<^verbatim>\<open>getRealJobOpportunities\<close> returns, deactivates every active record of
  the industry, creates a record for each entry whose creation succeeds, and returns the
  active records of the industry, which are then exactly the newly created ones: the
  generation has left the table as it was, and the table after the read is that table
  with no active record of the industry left, followed by the new records.
\<close>

theorem failed_generation_commits_fallback:
  assumes auth: "authUserId p = Some u" "u \<noteq> []"
    and due: "shouldFetchNew (clock w) (findMany ind w)"
    and failed: "retryLoop p (jobsPrompt ind (fullYear p (clock w)) (toISODate p (clock w))) 1 w = (None, w1)"
  shows "\<exists>jobs w2 news.
           getRealJobOpportunities p ind w1 = (jobs, w2) \<and>
           jobOpportunity (snd (getJobOpportunities p ind w)) = jobOpportunity (deactivate ind w2) @ news \<and>
           jobOpportunity w2 = jobOpportunity w \<and>
           activeRows ind (jobOpportunity (deactivate ind w2)) = [] \<and>
           length news = length (filter (creatable p ind) (entriesOf jobs)) \<and>
           activeRows ind (jobOpportunity (snd (getJobOpportunities p ind w))) = news \<and>
           fst (getJobOpportunities p ind w) = Inr (findMany ind (snd (getJobOpportunities p ind w)))"
proof -
  obtain jobs w2 where real: "getRealJobOpportunities p ind w1 = (jobs, w2)"
    by (cases "getRealJobOpportunities p ind w1") auto
  let ?w3 = "createJobs p ind (entriesOf jobs) (deactivate ind w2)"
  have world: "snd (getJobOpportunities p ind w) = ?w3"
    by (rule fallback_read(1)[OF auth due failed real])
  have result: "fst (getJobOpportunities p ind w) = Inr (findMany ind ?w3)"
    by (rule fallback_read(2)[OF auth due failed real])
  from created_table[of p ind "entriesOf jobs" "deactivate ind w2"] obtain news where
    n: "jobOpportunity ?w3 = jobOpportunity (deactivate ind w2) @ news"
       "length news = length (filter (creatable p ind) (entriesOf jobs))"
       "activeRows ind news = news"
    by blast
  have "jobOpportunity w1 = jobOpportunity w"
    using retryLoop_table[of p "jobsPrompt ind (fullYear p (clock w)) (toISODate p (clock w))" 1 w]
    by (simp only: failed snd_conv)
  moreover have "jobOpportunity w2 = jobOpportunity w1"
    using getRealJobOpportunities_table[of p ind w1] by (simp only: real snd_conv)
  ultimately have len: "jobOpportunity w2 = jobOpportunity w"
    by simp
  have act: "activeRows ind (jobOpportunity ?w3) = news"
    unfolding n(1) by (simp add: activeRows_append deactivate_active n(3))
  show ?thesis
    using real n(1,2) len act result deactivate_active[of ind w2] unfolding world
    by (intro exI[of _ jobs] exI[of _ w2] exI[of _ news]) simp
qed

theorem failed_generation_commits_fallback_witness:
  "authUserId (examplePlatform (alwaysThrows ''[503 Service Unavailable]'' 503)) = Some ''user_1''
   \<and> shouldFetchNew (clock (exampleWorld (4 * day) [exampleRow 0 ''finance'' 0 0]))
        (findMany ''finance'' (exampleWorld (4 * day) [exampleRow 0 ''finance'' 0 0]))
   \<and> (\<exists>w1. retryLoop (examplePlatform (alwaysThrows ''[503 Service Unavailable]'' 503))
              (jobsPrompt ''finance''
                 (fullYear (examplePlatform (alwaysThrows ''[503 Service Unavailable]'' 503))
                    (clock (exampleWorld (4 * day) [exampleRow 0 ''finance'' 0 0])))
                 (toISODate (examplePlatform (alwaysThrows ''[503 Service Unavailable]'' 503))
                    (clock (exampleWorld (4 * day) [exampleRow 0 ''finance'' 0 0])))) 1
              (exampleWorld (4 * day) [exampleRow 0 ''finance'' 0 0]) = (None, w1)
        \<and> (\<exists>jobs w2 news.
           getRealJobOpportunities (examplePlatform (alwaysThrows ''[503 Service Unavailable]'' 503)) ''finance'' w1 = (jobs, w2) \<and>
           jobOpportunity (snd (getJobOpportunities (examplePlatform (alwaysThrows ''[503 Service Unavailable]'' 503)) ''finance''
                (exampleWorld (4 * day) [exampleRow 0 ''finance'' 0 0])))
             = jobOpportunity (deactivate ''finance'' w2) @ news \<and>
           activeRows ''finance'' (jobOpportunity (deactivate ''finance'' w2)) = [] \<and>
           length news = length (filter (creatable (examplePlatform (alwaysThrows ''[503 Service Unavailable]'' 503)) ''finance'')
                                  (entriesOf jobs))))"
proof -
  let ?p = "examplePlatform (alwaysThrows ''[503 Service Unavailable]'' 503)"
  let ?w = "exampleWorld (4 * day) [exampleRow 0 ''finance'' 0 0]"
  let ?prompt = "jobsPrompt ''finance'' (fullYear ?p (clock ?w)) (toISODate ?p (clock ?w))"
  let ?w1 = "?w\<lparr>trace := trace ?w @ invocations ?prompt modelsToTry\<rparr>"
  have a: "authUserId ?p = Some ''user_1''" "''user_1'' \<noteq> []"
    by (simp_all add: examplePlatform_fields)
  have c: "retryLoop ?p ?prompt 1 ?w = (None, ?w1)"
    by (rule retry_down)
  show ?thesis
    using a(1) stale_example(3) c failed_generation_commits_fallback[OF a stale_example(3) c]
    by blast
qed


section \<open>A cold start whose generation fails\<close>

text \<open>
  Claim C9, as stated, fails. No finance record is stored and every model rejects the
  request. The step returns the five entries built from the keywords of the industry,
  and the read path stores them and returns five records, not an empty result.
\<close>

theorem cold_start_counterexample:
  "activeRows ''finance'' (jobOpportunity (exampleWorld (20108 * day) [])) = []
   \<and> fst (generateWithModelFallback (examplePlatform (alwaysThrows ''[503 Service Unavailable]'' 503))
        (jobsPrompt ''finance'' ''2025'' ''2025-01-20'') (exampleWorld (20108 * day) [])) = Inl allFailed
   \<and> (\<exists>js. realTimeJobs [''finance'', ''banking'', ''fintech'', ''investment''] ''finance'' ''2025-01-20'' = Some js \<and>
        fst (generateJobOpportunities (examplePlatform (alwaysThrows ''[503 Service Unavailable]'' 503)) ''finance''
               (exampleWorld (20108 * day) [])) = JObject [(''jobs'', JArray js)])
   \<and> (\<exists>rows. fst (getJobOpportunities (examplePlatform (alwaysThrows ''[503 Service Unavailable]'' 503)) ''finance''
                  (exampleWorld (20108 * day) [])) = Inr rows \<and> length rows = 5)"
proof -
  let ?p = "examplePlatform (alwaysThrows ''[503 Service Unavailable]'' 503)"
  let ?w = "exampleWorld (20108 * day) []"
  from down_generate[of "''[503 Service Unavailable]''" 503 ?w]
  have "\<exists>js. realTimeJobs [''finance'', ''banking'', ''fintech'', ''investment''] ''finance'' ''2025-01-20'' = Some js \<and>
        fst (generateJobOpportunities ?p ''finance'' ?w) = JObject [(''jobs'', JArray js)]"
    by auto
  then show ?thesis
    using cold_example(1) down_read(1)[OF cold_example(2)]
    by (simp add: gateway_throws)
qed

text \<open>
  Claim C9, amended: for every industry whose name is not a property name inherited from
  \<^verbatim>\<open>Object.prototype\<close>, when a signed-in caller reads with no active record stored and
  the generation loop ends without a value, the read path raises nothing and does not
  return an empty result by design: \<^verbatim>\<open>getRealJobOpportunities\<close> returns a non-empty
  list of entries (from the job feed, built from the keywords of the industry, or
  curated), the read path creates a record for each entry whose creation succeeds and
  returns the active records of the industry. The result is empty only if no entry could
  be created.
\<close>

theorem cold_start_serves_fallback:
  assumes auth: "authUserId p = Some u" "u \<noteq> []"
    and cold: "activeRows ind (jobOpportunity w) = []"
    and failed: "retryLoop p (jobsPrompt ind (fullYear p (clock w)) (toISODate p (clock w))) 1 w = (None, w1)"
    and own: "ind \<notin> set objectPrototypeKeys"
  shows "\<exists>entries rows w3.
           fst (getRealJobOpportunities p ind w1) = JObject [(''jobs'', JArray entries)] \<and> entries \<noteq> [] \<and>
           getJobOpportunities p ind w = (Inr rows, w3) \<and> rows = findMany ind w3 \<and>
           length (activeRows ind (jobOpportunity w3)) = length (filter (creatable p ind) entries) \<and>
           (rows = [] \<longleftrightarrow> filter (creatable p ind) entries = [])"
proof -
  from getRealJobOpportunities_nonempty[OF own, of p w1] obtain entries where
    e: "fst (getRealJobOpportunities p ind w1) = JObject [(''jobs'', JArray entries)]" "entries \<noteq> []"
    by blast
  obtain w2 where real: "getRealJobOpportunities p ind w1 = (JObject [(''jobs'', JArray entries)], w2)"
    using e(1) by (cases "getRealJobOpportunities p ind w1") auto
  have due: "shouldFetchNew (clock w) (findMany ind w)"
    using cold by (simp add: shouldFetchNew_def findMany_def)
  let ?w3 = "createJobs p ind entries (deactivate ind w2)"
  have world: "snd (getJobOpportunities p ind w) = ?w3"
    using fallback_read(1)[OF auth due failed real] by (simp add: entriesOf_jobs)
  have result: "fst (getJobOpportunities p ind w) = Inr (findMany ind ?w3)"
    using fallback_read(2)[OF auth due failed real] by (simp add: entriesOf_jobs)
  have both: "getJobOpportunities p ind w = (Inr (findMany ind ?w3), ?w3)"
    using world result by (cases "getJobOpportunities p ind w") simp
  have act: "length (activeRows ind (jobOpportunity ?w3)) = length (filter (creatable p ind) entries)"
    by (rule created_active(1)[OF deactivate_active])
  have "findMany ind ?w3 = [] \<longleftrightarrow> activeRows ind (jobOpportunity ?w3) = []"
    by (rule findMany_Nil_iff)
  also have "\<dots> \<longleftrightarrow> length (activeRows ind (jobOpportunity ?w3)) = 0"
    by simp
  also have "\<dots> \<longleftrightarrow> filter (creatable p ind) entries = []"
    unfolding act by simp
  finally have "findMany ind ?w3 = [] \<longleftrightarrow> filter (creatable p ind) entries = []" .
  with e both act show ?thesis by blast
qed

lemma finance_own: "''finance'' \<notin> set objectPrototypeKeys"
  by (simp add: objectPrototypeKeys_def)

theorem cold_start_serves_fallback_witness:
  "authUserId (examplePlatform (alwaysThrows ''[503 Service Unavailable]'' 503)) = Some ''user_1''
   \<and> activeRows ''finance'' (jobOpportunity (exampleWorld (20108 * day) [])) = []
   \<and> ''finance'' \<notin> set objectPrototypeKeys
   \<and> (\<exists>w1. retryLoop (examplePlatform (alwaysThrows ''[503 Service Unavailable]'' 503))
              (jobsPrompt ''finance''
                 (fullYear (examplePlatform (alwaysThrows ''[503 Service Unavailable]'' 503))
                    (clock (exampleWorld (20108 * day) [])))
                 (toISODate (examplePlatform (alwaysThrows ''[503 Service Unavailable]'' 503))
                    (clock (exampleWorld (20108 * day) [])))) 1
              (exampleWorld (20108 * day) []) = (None, w1)
        \<and> (\<exists>entries rows w3.
           fst (getRealJobOpportunities (examplePlatform (alwaysThrows ''[503 Service Unavailable]'' 503)) ''finance'' w1)
             = JObject [(''jobs'', JArray entries)] \<and> entries \<noteq> [] \<and>
           getJobOpportunities (examplePlatform (alwaysThrows ''[503 Service Unavailable]'' 503)) ''finance''
             (exampleWorld (20108 * day) []) = (Inr rows, w3) \<and> rows = findMany ''finance'' w3 \<and>
           length (activeRows ''finance'' (jobOpportunity w3)) =
             length (filter (creatable (examplePlatform (alwaysThrows ''[503 Service Unavailable]'' 503)) ''finance'') entries)))"
proof -
  let ?p = "examplePlatform (alwaysThrows ''[503 Service Unavailable]'' 503)"
  let ?w = "exampleWorld (20108 * day) []"
  let ?prompt = "jobsPrompt ''finance'' (fullYear ?p (clock ?w)) (toISODate ?p (clock ?w))"
  let ?w1 = "?w\<lparr>trace := trace ?w @ invocations ?prompt modelsToTry\<rparr>"
  have a: "authUserId ?p = Some ''user_1''" "''user_1'' \<noteq> []"
    by (simp_all add: examplePlatform_fields)
  have c: "retryLoop ?p ?prompt 1 ?w = (None, ?w1)"
    by (rule retry_down)
  show ?thesis
    using a(1) cold_example(1) finance_own c
      cold_start_serves_fallback[OF a cold_example(1) c finance_own]
    by blast
qed


section \<open>Active records after a refresh\<close>

lemma read_count:
  assumes "authUserId p = Some u" "u \<noteq> []" "shouldFetchNew (clock w) (findMany ind w)"
  shows "length (activeRows ind (jobOpportunity (snd (getJobOpportunities p ind w)))) =
         length (filter (creatable p ind) (entriesOf (fst (generateJobOpportunities p ind w))))"
proof -
  obtain jobs w1 where gen: "generateJobOpportunities p ind w = (jobs, w1)"
    by (cases "generateJobOpportunities p ind w") auto
  show ?thesis
    unfolding read_refresh(1)[OF assms gen] gen fst_conv
    by (rule created_active(1)[OF deactivate_active])
qed

lemma manual_refresh:
  assumes "generateJobOpportunities p ind (deactivate ind w) = (jobs, w2)"
  shows "snd (updateIndustry p ind w) = snd (createJobsStrict p ind (entriesOf jobs) w2)"
  using assms
  by (auto simp: updateIndustry_def entriesOf_def split: option.splits prod.splits bool.splits)

lemma manual_count:
  "length (activeRows ind (jobOpportunity (snd (updateIndustry p ind w)))) =
   length (takeWhile (creatable p ind) (entriesOf (fst (generateJobOpportunities p ind (deactivate ind w)))))"
proof -
  obtain jobs w2 where gen: "generateJobOpportunities p ind (deactivate ind w) = (jobs, w2)"
    by (cases "generateJobOpportunities p ind (deactivate ind w)") auto
  have "jobOpportunity w2 = jobOpportunity (deactivate ind w)"
    using generateJobOpportunities_table[of p ind "deactivate ind w"] by (simp only: gen snd_conv)
  then have none: "activeRows ind (jobOpportunity w2) = []"
    by (simp add: deactivate_active)
  show ?thesis
    unfolding manual_refresh[OF gen] gen fst_conv
    by (rule created_active(2)[OF none])
qed

lemma scheduled_refresh:
  assumes "generateWithModelFallback p (scheduledJobsPrompt ind) w = (Inr answer, w1)"
    and "JSON_parse (cleanResponse answer) = Some jobs"
  shows "snd (scheduledIndustry p ind w) = snd (createJobsStrict p ind (entriesOf jobs) (deactivate ind w1))"
  using assms
  by (auto simp: scheduledIndustry_def entriesOf_def Let_def split: option.splits)

lemma scheduled_count:
  assumes "generateWithModelFallback p (scheduledJobsPrompt ind) w = (Inr answer, w1)"
    and "JSON_parse (cleanResponse answer) = Some jobs"
  shows "length (activeRows ind (jobOpportunity (snd (scheduledIndustry p ind w)))) =
         length (takeWhile (creatable p ind) (entriesOf jobs))"
  unfolding scheduled_refresh[OF assms]
  by (rule created_active(2)[OF deactivate_active])

lemma scheduled_unchanged:
  assumes "fst (generateWithModelFallback p (scheduledJobsPrompt ind) w) = Inl e \<or>
           (fst (generateWithModelFallback p (scheduledJobsPrompt ind) w) = Inr answer \<and>
            JSON_parse (cleanResponse answer) = None)"
  shows "jobOpportunity (snd (scheduledIndustry p ind w)) = jobOpportunity w"
proof -
  obtain r w1 where g: "generateWithModelFallback p (scheduledJobsPrompt ind) w = (r, w1)"
    by (cases "generateWithModelFallback p (scheduledJobsPrompt ind) w") auto
  have "jobOpportunity w1 = jobOpportunity w"
    using gateway_table[of p "scheduledJobsPrompt ind" w] by (simp only: g snd_conv)
  moreover have "snd (scheduledIndustry p ind w) = w1"
    using assms g by (auto simp: scheduledIndustry_def)
  ultimately show ?thesis by simp
qed

lemma strict_table:
  "\<exists>news. jobOpportunity (snd (createJobsStrict p ind es w)) = jobOpportunity w @ news \<and>
          length news = length (takeWhile (creatable p ind) es) \<and>
          activeRows ind news = news"
proof -
  from createJobsStrict_rows[of p ind es w] obtain news where
    n: "snd (createJobsStrict p ind es w) = w\<lparr>jobOpportunity := jobOpportunity w @ news\<rparr>"
       "length news = length (takeWhile (creatable p ind) es)"
       "\<forall>r \<in> set news. industry r = ind \<and> isActive r"
    by blast
  then show ?thesis
    using activeRows_all[OF n(3)] by (intro exI[of _ news]) simp
qed

lemma read_table:
  assumes "authUserId p = Some u" "u \<noteq> []" "shouldFetchNew (clock w) (findMany ind w)"
  shows "\<exists>news. jobOpportunity (snd (getJobOpportunities p ind w)) =
                  jobOpportunity (deactivate ind (snd (generateJobOpportunities p ind w))) @ news \<and>
                activeRows ind (jobOpportunity (snd (getJobOpportunities p ind w))) = news \<and>
                length news = length (filter (creatable p ind) (entriesOf (fst (generateJobOpportunities p ind w))))"
proof -
  obtain jobs w1 where gen: "generateJobOpportunities p ind w = (jobs, w1)"
    by (cases "generateJobOpportunities p ind w") auto
  from created_table[of p ind "entriesOf jobs" "deactivate ind w1"] obtain news where
    n: "jobOpportunity (createJobs p ind (entriesOf jobs) (deactivate ind w1)) =
          jobOpportunity (deactivate ind w1) @ news"
       "length news = length (filter (creatable p ind) (entriesOf jobs))"
       "activeRows ind news = news"
    by blast
  have "activeRows ind (jobOpportunity (deactivate ind w1) @ news) = news"
    by (simp add: activeRows_append deactivate_active n(3))
  with n(1,2) show ?thesis
    unfolding read_refresh(1)[OF assms gen] gen fst_conv snd_conv
    by (intro exI[of _ news]) simp
qed

lemma manual_table:
  "\<exists>news. jobOpportunity (snd (updateIndustry p ind w)) = jobOpportunity (deactivate ind w) @ news \<and>
          activeRows ind (jobOpportunity (snd (updateIndustry p ind w))) = news \<and>
          length news =
            length (takeWhile (creatable p ind)
              (entriesOf (fst (generateJobOpportunities p ind (deactivate ind w)))))"
proof -
  obtain jobs w2 where gen: "generateJobOpportunities p ind (deactivate ind w) = (jobs, w2)"
    by (cases "generateJobOpportunities p ind (deactivate ind w)") auto
  have same: "jobOpportunity w2 = jobOpportunity (deactivate ind w)"
    using generateJobOpportunities_table[of p ind "deactivate ind w"] by (simp only: gen snd_conv)
  from strict_table[of p ind "entriesOf jobs" w2] obtain news where
    n: "jobOpportunity (snd (createJobsStrict p ind (entriesOf jobs) w2)) = jobOpportunity w2 @ news"
       "length news = length (takeWhile (creatable p ind) (entriesOf jobs))"
       "activeRows ind news = news"
    by blast
  have "activeRows ind (jobOpportunity (deactivate ind w) @ news) = news"
    by (simp add: activeRows_append deactivate_active n(3))
  with n(1,2) show ?thesis
    unfolding manual_refresh[OF gen] gen fst_conv same
    by (intro exI[of _ news]) simp
qed

lemma scheduled_table:
  assumes "generateWithModelFallback p (scheduledJobsPrompt ind) w = (Inr answer, w1)"
    and "JSON_parse (cleanResponse answer) = Some jobs"
  shows "\<exists>news. jobOpportunity (snd (scheduledIndustry p ind w)) = jobOpportunity (deactivate ind w1) @ news \<and>
                activeRows ind (jobOpportunity (snd (scheduledIndustry p ind w))) = news \<and>
                length news = length (takeWhile (creatable p ind) (entriesOf jobs))"
proof -
  from strict_table[of p ind "entriesOf jobs" "deactivate ind w1"] obtain news where
    n: "jobOpportunity (snd (createJobsStrict p ind (entriesOf jobs) (deactivate ind w1))) =
          jobOpportunity (deactivate ind w1) @ news"
       "length news = length (takeWhile (creatable p ind) (entriesOf jobs))"
       "activeRows ind news = news"
    by blast
  have "activeRows ind (jobOpportunity (deactivate ind w1) @ news) = news"
    by (simp add: activeRows_append deactivate_active n(3))
  with n(1,2) show ?thesis
    unfolding scheduled_refresh[OF assms]
    by (intro exI[of _ news]) simp
qed

lemma retry_answers:
  assumes "parseJSON (examplePlatform (alwaysAnswers t)) (cleanResponse t) = Inr v"
  shows "retryLoop (examplePlatform (alwaysAnswers t)) prompt 1 w =
           (Some v, w\<lparr>trace := trace w @ [Invoked ''gemini-1.5-flash'' prompt]\<rparr>)"
  by (subst retryLoop.simps) (simp add: attempt_answers assms maxRetries_def)

lemma generate_answers:
  assumes "parseJSON (examplePlatform (alwaysAnswers t)) (cleanResponse t) = Inr v"
  shows "generateJobOpportunities (examplePlatform (alwaysAnswers t)) ind w =
           (v, w\<lparr>trace := trace w @ [Invoked ''gemini-1.5-flash'' (jobsPrompt ind ''2025'' ''2025-01-20'')]\<rparr>)"
proof -
  let ?p = "examplePlatform (alwaysAnswers t)"
  have "jobsPrompt ind (fullYear ?p (clock w)) (toISODate ?p (clock w)) = jobsPrompt ind ''2025'' ''2025-01-20''"
    by (simp add: examplePlatform_fields)
  then show ?thesis
    unfolding generateJobOpportunities_def Let_def
    by (simp only: retry_answers[OF assms] prod.case option.case)
qed

lemma parse_jobs_empty:
  \<open>parseJSON p (cleanResponse ''{"jobs":[]}'') = Inr (JObject [(''jobs'', JArray [])])\<close>
  by (simp add: parseJSON_def clean_jobs_empty json_jobs_empty)

lemma entriesOf_empty: "entriesOf (JObject [(''jobs'', JArray [])]) = []"
  by (simp add: entriesOf_def jobsArray_def)

text \<open>
  Claim C2, as stated, fails on each of the three paths. One active finance record is
  stored, four days old, and the model answers with an empty jobs list. The read path,
  the manual route and the scheduled refresh each deactivate the record and create none:
  no active finance record is left, and the read returns the empty list. A failed refresh
  does the same: when every model rejects the request and the store refuses every
  creation, the read path and the manual route leave no active finance record either.
\<close>

theorem refresh_leaves_none_active_counterexample:
  \<open>activeRows ''finance'' (jobOpportunity (exampleWorld (4 * day) [exampleRow 0 ''finance'' 0 0])) =
     [exampleRow 0 ''finance'' 0 0]
   \<and> generateAndParse (examplePlatform (alwaysAnswers ''{"jobs":[]}'')) ''prompt''
        (exampleWorld (4 * day) [exampleRow 0 ''finance'' 0 0]) =
       (Inr (JObject [(''jobs'', JArray [])]),
        (exampleWorld (4 * day) [exampleRow 0 ''finance'' 0 0])\<lparr>trace := [Invoked ''gemini-1.5-flash'' ''prompt'']\<rparr>)
   \<and> fst (getJobOpportunities (examplePlatform (alwaysAnswers ''{"jobs":[]}'')) ''finance''
        (exampleWorld (4 * day) [exampleRow 0 ''finance'' 0 0])) = Inr []
   \<and> activeRows ''finance'' (jobOpportunity (snd (getJobOpportunities (examplePlatform (alwaysAnswers ''{"jobs":[]}''))
        ''finance'' (exampleWorld (4 * day) [exampleRow 0 ''finance'' 0 0])))) = []
   \<and> activeRows ''finance'' (jobOpportunity (snd (updateIndustry (examplePlatform (alwaysAnswers ''{"jobs":[]}''))
        ''finance'' (exampleWorld (4 * day) [exampleRow 0 ''finance'' 0 0])))) = []
   \<and> activeRows ''finance'' (jobOpportunity (snd (scheduledIndustry (examplePlatform (alwaysAnswers ''{"jobs":[]}''))
        ''finance'' (exampleWorld (4 * day) [exampleRow 0 ''finance'' 0 0])))) = []
   \<and> fst (generateWithModelFallback (refusingStore (examplePlatform (alwaysThrows ''[503 Service Unavailable]'' 503)))
        ''prompt'' (exampleWorld (4 * day) [exampleRow 0 ''finance'' 0 0])) = Inl allFailed
   \<and> activeRows ''finance'' (jobOpportunity (snd (getJobOpportunities
        (refusingStore (examplePlatform (alwaysThrows ''[503 Service Unavailable]'' 503)))
        ''finance'' (exampleWorld (4 * day) [exampleRow 0 ''finance'' 0 0])))) = []
   \<and> activeRows ''finance'' (jobOpportunity (snd (updateIndustry
        (refusingStore (examplePlatform (alwaysThrows ''[503 Service Unavailable]'' 503)))
        ''finance'' (exampleWorld (4 * day) [exampleRow 0 ''finance'' 0 0])))) = []\<close>
proof -
  let ?p = \<open>examplePlatform (alwaysAnswers ''{"jobs":[]}'')\<close>
  let ?w = "exampleWorld (4 * day) [exampleRow 0 ''finance'' 0 0]"
  let ?v = "JObject [(''jobs'', JArray [])]"
  have auth: "authUserId ?p = Some ''user_1''" "''user_1'' \<noteq> []"
    by (simp_all add: examplePlatform_fields)
  have 1: "generateAndParse ?p ''prompt'' ?w = (Inr ?v, ?w\<lparr>trace := [Invoked ''gemini-1.5-flash'' ''prompt'']\<rparr>)"
    by (simp add: attempt_answers parse_jobs_empty exampleWorld_fields)
  have gen: "fst (generateJobOpportunities ?p ''finance'' w) = ?v" for w
    by (simp add: generate_answers[OF parse_jobs_empty])
  have "length (activeRows ''finance'' (jobOpportunity (snd (getJobOpportunities ?p ''finance'' ?w)))) = 0"
    unfolding read_count[OF auth stale_example(3)] gen entriesOf_empty by simp
  then have 3: "activeRows ''finance'' (jobOpportunity (snd (getJobOpportunities ?p ''finance'' ?w))) = []"
    by simp
  obtain jobs w1 where g: "generateJobOpportunities ?p ''finance'' ?w = (jobs, w1)"
    by (cases "generateJobOpportunities ?p ''finance'' ?w") auto
  have "jobs = ?v"
    using gen[of ?w] g by simp
  then have "fst (getJobOpportunities ?p ''finance'' ?w) =
      Inr (findMany ''finance'' (snd (getJobOpportunities ?p ''finance'' ?w)))"
    using read_refresh[OF auth stale_example(3) g] by simp
  then have 2: "fst (getJobOpportunities ?p ''finance'' ?w) = Inr []"
    using 3 by (simp add: findMany_Nil_iff)
  have "length (activeRows ''finance'' (jobOpportunity (snd (updateIndustry ?p ''finance'' ?w)))) = 0"
    unfolding manual_count gen entriesOf_empty by simp
  then have 4: "activeRows ''finance'' (jobOpportunity (snd (updateIndustry ?p ''finance'' ?w))) = []"
    by simp
  have "length (activeRows ''finance'' (jobOpportunity (snd (scheduledIndustry ?p ''finance'' ?w)))) =
        length (takeWhile (creatable ?p ''finance'') (entriesOf ?v))"
    by (rule scheduled_count[OF gateway_answers_plain])
       (simp add: clean_jobs_empty json_jobs_empty)
  then have 5: "activeRows ''finance'' (jobOpportunity (snd (scheduledIndustry ?p ''finance'' ?w))) = []"
    unfolding entriesOf_empty by simp
  let ?r = "refusingStore (examplePlatform (alwaysThrows ''[503 Service Unavailable]'' 503))"
  have authr: "authUserId ?r = Some ''user_1''"
    by (simp add: refusingStore_def examplePlatform_fields)
  have 6: "fst (generateWithModelFallback ?r ''prompt'' ?w) = Inl allFailed"
    by (simp add: generateWithModelFallback_def modelsToTry_def invoke_def refusingStore_def
        examplePlatform_def alwaysThrows_def)
  have never: "\<not> creatable ?r ''finance'' job" for job
    by (simp add: creatable_def refusingStore_def split: option.splits)
  have "length (activeRows ''finance'' (jobOpportunity (snd (getJobOpportunities ?r ''finance'' ?w)))) = 0"
    unfolding read_count[OF authr auth(2) stale_example(3)] by (simp add: never)
  then have 7: "activeRows ''finance'' (jobOpportunity (snd (getJobOpportunities ?r ''finance'' ?w))) = []"
    by simp
  have "takeWhile (creatable ?r ''finance'') es = []" for es
    by (cases es) (simp_all add: never)
  then have "length (activeRows ''finance'' (jobOpportunity (snd (updateIndustry ?r ''finance'' ?w)))) = 0"
    unfolding manual_count by simp
  then have 8: "activeRows ''finance'' (jobOpportunity (snd (updateIndustry ?r ''finance'' ?w))) = []"
    by simp
  show ?thesis
    by (rule conjI[OF stale_example(2) conjI[OF 1 conjI[OF 2 conjI[OF 3 conjI[OF 4 conjI[OF 5
        conjI[OF 6 conjI[OF 7 8]]]]]]]])
qed

text \<open>
  Claim C2, amended: an executed refresh deactivates the active records of the industry
  whether or not it creates others. The table it leaves is the table with every record of
  the industry deactivated, followed by the records it created, and these are then the
  active records of the industry. After a refreshing read there is one of them for each
  generated entry whose creation succeeds (an entry that fails is skipped); after the
  manual route, which deactivates before it generates, and after the scheduled refresh
  there is one for each entry before the first whose creation fails. The industry is left
  without an active record when there is no such entry. Only the scheduled refresh leaves
  the table as it is on a failure: when its gateway call throws or the answer is no JSON.
\<close>

theorem active_after_refresh:
  "(authUserId p = Some u \<and> u \<noteq> [] \<and> shouldFetchNew (clock w) (findMany ind w) \<longrightarrow>
      (\<exists>news. jobOpportunity (snd (getJobOpportunities p ind w)) =
                 jobOpportunity (deactivate ind (snd (generateJobOpportunities p ind w))) @ news \<and>
               activeRows ind (jobOpportunity (snd (getJobOpportunities p ind w))) = news \<and>
               length news =
                 length (filter (creatable p ind) (entriesOf (fst (generateJobOpportunities p ind w))))))
   \<and> (\<exists>news. jobOpportunity (snd (updateIndustry p ind w)) = jobOpportunity (deactivate ind w) @ news \<and>
          activeRows ind (jobOpportunity (snd (updateIndustry p ind w))) = news \<and>
          length news =
            length (takeWhile (creatable p ind)
              (entriesOf (fst (generateJobOpportunities p ind (deactivate ind w))))))
   \<and> (generateWithModelFallback p (scheduledJobsPrompt ind) w = (Inr answer, w1) \<and>
      JSON_parse (cleanResponse answer) = Some jobs \<longrightarrow>
        (\<exists>news. jobOpportunity (snd (scheduledIndustry p ind w)) = jobOpportunity (deactivate ind w1) @ news \<and>
                 activeRows ind (jobOpportunity (snd (scheduledIndustry p ind w))) = news \<and>
                 length news = length (takeWhile (creatable p ind) (entriesOf jobs))))
   \<and> (fst (generateWithModelFallback p (scheduledJobsPrompt ind) w) = Inl e \<or>
      (fst (generateWithModelFallback p (scheduledJobsPrompt ind) w) = Inr answer \<and>
       JSON_parse (cleanResponse answer) = None) \<longrightarrow>
        jobOpportunity (snd (scheduledIndustry p ind w)) = jobOpportunity w)"
proof -
  have A: "authUserId p = Some u \<and> u \<noteq> [] \<and> shouldFetchNew (clock w) (findMany ind w) \<longrightarrow>
      (\<exists>news. jobOpportunity (snd (getJobOpportunities p ind w)) =
                 jobOpportunity (deactivate ind (snd (generateJobOpportunities p ind w))) @ news \<and>
               activeRows ind (jobOpportunity (snd (getJobOpportunities p ind w))) = news \<and>
               length news =
                 length (filter (creatable p ind) (entriesOf (fst (generateJobOpportunities p ind w)))))"
    using read_table[of p u w ind] by blast
  have C: "generateWithModelFallback p (scheduledJobsPrompt ind) w = (Inr answer, w1) \<and>
      JSON_parse (cleanResponse answer) = Some jobs \<longrightarrow>
        (\<exists>news. jobOpportunity (snd (scheduledIndustry p ind w)) = jobOpportunity (deactivate ind w1) @ news \<and>
                 activeRows ind (jobOpportunity (snd (scheduledIndustry p ind w))) = news \<and>
                 length news = length (takeWhile (creatable p ind) (entriesOf jobs)))"
    using scheduled_table[of p ind w answer w1 jobs] by blast
  have D: "fst (generateWithModelFallback p (scheduledJobsPrompt ind) w) = Inl e \<or>
      (fst (generateWithModelFallback p (scheduledJobsPrompt ind) w) = Inr answer \<and>
       JSON_parse (cleanResponse answer) = None) \<longrightarrow>
        jobOpportunity (snd (scheduledIndustry p ind w)) = jobOpportunity w"
    using scheduled_unchanged[of p ind w e answer] by blast
  show ?thesis
    by (rule conjI[OF A conjI[OF manual_table conjI[OF C D]]])
qed

lemma clean_one_job:
  \<open>cleanResponse ''{"jobs":[{"postedDate":"2025-01-20"}]}'' = ''{"jobs":[{"postedDate":"2025-01-20"}]}''\<close>
  by (simp add: cleanResponse_def fence_def trim_eval)

lemma json_one_job:
  \<open>JSON_parse ''{"jobs":[{"postedDate":"2025-01-20"}]}'' =
     Some (JObject [(''jobs'', JArray [JObject [(''postedDate'', JString ''2025-01-20'')]])])\<close>
  by (simp add: JSON_parse_def startTok_def isDigit_def isLower_def code_def)

lemma one_job_creatable:
  "creatable (examplePlatform c) ind (JObject [(''postedDate'', JString ''2025-01-20'')])"
  by (simp add: creatable_def jobData_def truthyOpt_def examplePlatform_fields)

theorem active_after_refresh_witness:
  \<open>authUserId (examplePlatform (alwaysAnswers ''{"jobs":[{"postedDate":"2025-01-20"}]}'')) = Some ''user_1''
   \<and> shouldFetchNew (clock (exampleWorld (4 * day) [exampleRow 0 ''finance'' 0 0]))
        (findMany ''finance'' (exampleWorld (4 * day) [exampleRow 0 ''finance'' 0 0]))
   \<and> length (activeRows ''finance'' (jobOpportunity (snd (getJobOpportunities
        (examplePlatform (alwaysAnswers ''{"jobs":[{"postedDate":"2025-01-20"}]}'')) ''finance''
        (exampleWorld (4 * day) [exampleRow 0 ''finance'' 0 0]))))) = 1
   \<and> length (activeRows ''finance'' (jobOpportunity (snd (updateIndustry
        (examplePlatform (alwaysAnswers ''{"jobs":[{"postedDate":"2025-01-20"}]}'')) ''finance''
        (exampleWorld (4 * day) [exampleRow 0 ''finance'' 0 0]))))) = 1
   \<and> generateWithModelFallback (examplePlatform (alwaysAnswers ''{"jobs":[{"postedDate":"2025-01-20"}]}''))
        (scheduledJobsPrompt ''finance'') (exampleWorld (4 * day) [exampleRow 0 ''finance'' 0 0]) =
       (Inr ''{"jobs":[{"postedDate":"2025-01-20"}]}'',
        (exampleWorld (4 * day) [exampleRow 0 ''finance'' 0 0])
          \<lparr>trace := [Invoked ''gemini-1.5-flash'' (scheduledJobsPrompt ''finance'')]\<rparr>)
   \<and> JSON_parse (cleanResponse ''{"jobs":[{"postedDate":"2025-01-20"}]}'') =
       Some (JObject [(''jobs'', JArray [JObject [(''postedDate'', JString ''2025-01-20'')]])])
   \<and> length (activeRows ''finance'' (jobOpportunity (snd (scheduledIndustry
        (examplePlatform (alwaysAnswers ''{"jobs":[{"postedDate":"2025-01-20"}]}'')) ''finance''
        (exampleWorld (4 * day) [exampleRow 0 ''finance'' 0 0]))))) = 1
   \<and> fst (generateWithModelFallback (examplePlatform (alwaysThrows ''[503 Service Unavailable]'' 503))
        (scheduledJobsPrompt ''finance'') (exampleWorld (4 * day) [exampleRow 0 ''finance'' 0 0])) = Inl allFailed
   \<and> jobOpportunity (snd (scheduledIndustry (examplePlatform (alwaysThrows ''[503 Service Unavailable]'' 503))
        ''finance'' (exampleWorld (4 * day) [exampleRow 0 ''finance'' 0 0]))) = [exampleRow 0 ''finance'' 0 0]\<close>
proof -
  let ?t = \<open>''{"jobs":[{"postedDate":"2025-01-20"}]}''\<close>
  let ?p = "examplePlatform (alwaysAnswers ?t)"
  let ?d = "examplePlatform (alwaysThrows ''[503 Service Unavailable]'' 503)"
  let ?w = "exampleWorld (4 * day) [exampleRow 0 ''finance'' 0 0]"
  let ?w1 = "?w\<lparr>trace := [Invoked ''gemini-1.5-flash'' (scheduledJobsPrompt ''finance'')]\<rparr>"
  let ?e = "JObject [(''postedDate'', JString ''2025-01-20'')]"
  let ?v = "JObject [(''jobs'', JArray [?e])]"
  have auth: "authUserId ?p = Some ''user_1''" "''user_1'' \<noteq> []"
    by (simp_all add: examplePlatform_fields)
  have parse: "JSON_parse (cleanResponse ?t) = Some ?v"
    unfolding clean_one_job by (rule json_one_job)
  then have pj: "parseJSON ?p (cleanResponse ?t) = Inr ?v"
    by (simp add: parseJSON_def)
  have gen: "fst (generateJobOpportunities ?p ''finance'' w) = ?v" for w
    by (simp add: generate_answers[OF pj])
  have ent: "entriesOf ?v = [?e]"
    by (simp add: entriesOf_def jobsArray_def)
  have gw: "generateWithModelFallback ?p (scheduledJobsPrompt ''finance'') ?w = (Inr ?t, ?w1)"
    by (simp add: gateway_answers_plain exampleWorld_fields)
  have down: "fst (generateWithModelFallback ?d (scheduledJobsPrompt ''finance'') ?w) = Inl allFailed"
    by (simp add: gateway_throws)
  note T = active_after_refresh[where p="?p" and u="''user_1''" and w="?w" and ind="''finance''"
      and answer="?t" and ?w1.0="?w1" and jobs="?v"]
  from T auth stale_example(3)
  have a: "length (activeRows ''finance'' (jobOpportunity (snd (getJobOpportunities ?p ''finance'' ?w)))) =
      length (filter (creatable ?p ''finance'') (entriesOf (fst (generateJobOpportunities ?p ''finance'' ?w))))"
    by metis
  from T
  have b: "length (activeRows ''finance'' (jobOpportunity (snd (updateIndustry ?p ''finance'' ?w)))) =
      length (takeWhile (creatable ?p ''finance'')
        (entriesOf (fst (generateJobOpportunities ?p ''finance'' (deactivate ''finance'' ?w)))))"
    by metis
  from T gw parse
  have c: "length (activeRows ''finance'' (jobOpportunity (snd (scheduledIndustry ?p ''finance'' ?w)))) =
      length (takeWhile (creatable ?p ''finance'') (entriesOf ?v))"
    by metis
  from active_after_refresh[where p="?d" and w="?w" and ind="''finance''" and e=allFailed] down
  have d: "jobOpportunity (snd (scheduledIndustry ?d ''finance'' ?w)) = jobOpportunity ?w"
    by blast
  have a': "length (activeRows ''finance'' (jobOpportunity (snd (getJobOpportunities ?p ''finance'' ?w)))) = 1"
    unfolding a gen ent by (simp add: one_job_creatable)
  have b': "length (activeRows ''finance'' (jobOpportunity (snd (updateIndustry ?p ''finance'' ?w)))) = 1"
    unfolding b gen ent by (simp add: one_job_creatable)
  have c': "length (activeRows ''finance'' (jobOpportunity (snd (scheduledIndustry ?p ''finance'' ?w)))) = 1"
    unfolding c ent by (simp add: one_job_creatable)
  have d': "jobOpportunity (snd (scheduledIndustry ?d ''finance'' ?w)) = [exampleRow 0 ''finance'' 0 0]"
    unfolding d by (simp add: exampleWorld_def)
  show ?thesis
    by (rule conjI[OF auth(1) conjI[OF stale_example(3) conjI[OF a' conjI[OF b' conjI[OF gw conjI[OF parse
        conjI[OF c' conjI[OF down d']]]]]]]])
qed

end
